theory Spec2Isabelle
  imports Complex_Main
begin

section \<open>Dates and the clock\<close>

text \<open>
  A JavaScript \<open>Date\<close> is its time value: the number of milliseconds since the epoch,
  in UTC. The server's local time is UTC plus a fixed offset \<open>tz\<close> (in milliseconds;
  negative west of Greenwich, \<open>- 3 h\<close> in Argentina). Daylight-saving changes are not
  modelled. Prices are Prisma \<open>Float\<close>s, doubles in the code; they are modelled as real
  numbers, so a product or a sum is exact here where the code rounds it to the nearest
  double.
\<close>

definition msPorDia :: int where
  "msPorDia = 86400000"

text \<open>\<open>new Date(d).setUTCHours(0, 0, 0, 0)\<close> and \<open>new Date(d).setUTCHours(23, 59, 59, 999)\<close>:
  both return the new time value.\<close>

definition setUTCHours_inicio :: "int \<Rightarrow> int" where
  "setUTCHours_inicio d = (d div msPorDia) * msPorDia"

definition setUTCHours_fin :: "int \<Rightarrow> int" where
  "setUTCHours_fin d = (d div msPorDia) * msPorDia + 86399999"

definition getUTCHours :: "int \<Rightarrow> int" where
  "getUTCHours d = (d mod msPorDia) div 3600000"

definition getUTCMinutes :: "int \<Rightarrow> int" where
  "getUTCMinutes d = (d mod 3600000) div 60000"

definition getUTCSeconds :: "int \<Rightarrow> int" where
  "getUTCSeconds d = (d mod 60000) div 1000"

text \<open>The local getters read the same fields of the local wall clock \<open>d + tz\<close>.\<close>

definition getHours :: "int \<Rightarrow> int \<Rightarrow> int" where
  "getHours tz d = getUTCHours (d + tz)"

definition getMinutes :: "int \<Rightarrow> int \<Rightarrow> int" where
  "getMinutes tz d = getUTCMinutes (d + tz)"

definition getSeconds :: "int \<Rightarrow> int \<Rightarrow> int" where
  "getSeconds tz d = getUTCSeconds (d + tz)"

text \<open>\<open>new Date(hoy.getFullYear(), hoy.getMonth(), hoy.getDate()).getTime()\<close>: the time value
  of the local midnight that starts the local day of \<open>hoy\<close>.\<close>

definition medianocheLocal :: "int \<Rightarrow> int \<Rightarrow> int" where
  "medianocheLocal tz hoy = setUTCHours_inicio (hoy + tz) - tz"

text \<open>JavaScript's \<open>!x\<close> on a \<open>number | null\<close>: true for \<open>null\<close> and for \<open>0\<close>.\<close>

definition falsy :: "int option \<Rightarrow> bool" where
  "falsy x = (case x of None \<Rightarrow> True | Some n \<Rightarrow> n = 0)"

section \<open>Request payloads\<close>

text \<open>\<open>AuthUser\<close>, \<open>CreateOrdenCompraDetalleNestedPayload\<close>, \<open>CreateOrdenCompraDetallePayload\<close>
  and \<open>CreateOrdenCompraPayload\<close> of the type declarations. A field that shares its name with
  a column is written with its record's name in front (\<open>detallePayload.cantidad\<close>).
  \<open>detalles\<close> is \<open>None\<close> when the request body has no such field.\<close>

datatype Rol = ADMIN | CLIENTE

datatype Color = AZUL | BLANCO | CELESTE | NEGRO | VERDE | MULTICOLOR | ROJO | ROSA | MARRON
  | AMARILLO | VIOLETA | GRIS

datatype Talle = XS | S | M | L | XL | XXL | TALLE_25 | TALLE_26 | TALLE_27 | TALLE_28
  | TALLE_29 | TALLE_30 | TALLE_31 | TALLE_32 | TALLE_33 | TALLE_34 | TALLE_35 | TALLE_36
  | TALLE_37 | TALLE_38 | TALLE_39 | TALLE_40 | TALLE_41 | TALLE_42 | TALLE_43 | TALLE_44
  | TALLE_45 | TALLE_46 | TALLE_47 | TALLE_48 | TALLE_49 | TALLE_50 | TALLE_51 | TALLE_52

record authUser =
  id' :: int
  email :: string
  rol :: Rol

record detalleNestedPayload =
  productoDetalleId :: int
  cantidad :: int

record detallePayload = detalleNestedPayload +
  ordenCompraId :: int

record ordenCompraPayload =
  direccionEnvio :: string
  detalles :: "detalleNestedPayload list option"
  userId :: int

text \<open>An element of \<open>detallesParaCrear\<close>
  (\<open>Prisma.OrdenCompraDetalleCreateWithoutOrdenCompraInput\<close>); \<open>productoDetalleId\<close> is the
  id of \<open>productoDetalle: { connect: { id } }\<close>.\<close>

record detalleCreateInput =
  cantidad :: int
  subtotal :: real
  activo :: bool
  productoDetalleId :: int

text \<open>\<open>ProductoDetalleDTO\<close>, \<open>ProductoDTO\<close> and \<open>AddressResponseDTO\<close>, with the fields that
  come from the columns kept below.\<close>

record productoDetalleDTO =
  id' :: int
  precioCompra :: real
  stockActual :: int

record productoDTO =
  id' :: int
  precioOriginal :: real
  precioFinal :: real
  tienePromocion :: bool
  productos_detalles :: "productoDetalleDTO list"

record addressResponseDTO =
  id' :: int
  localidad :: int

text \<open>\<open>AddressPayload\<close> and \<open>UpdateUserProfilePayload\<close>: \<open>id\<close> is \<open>None\<close> for an address
  without id, \<open>localidad\<close> is \<open>localidad.id\<close>, and \<open>addresses\<close> is \<open>None\<close> when the request
  has no such field. \<open>UserResponseDTO\<close> is the result of \<open>mapToUserDTO\<close>.\<close>

record addressPayload =
  id' :: "int option"
  localidad :: int

record updateUserProfilePayload =
  addresses :: "addressPayload list option"

record userResponseDTO =
  id' :: int
  email :: string
  addresses :: "addressResponseDTO list"
  activo :: bool

text \<open>\<open>ProductFilters\<close>: the filters on the columns kept below. \<open>colores\<close> and \<open>talles\<close> are
  \<open>validEnumColors\<close> and \<open>validEnumTalles\<close>, the requested names that are values of the
  enums.\<close>

record productFilters =
  tienePromocion :: "bool option"
  minPrice :: "real option"
  maxPrice :: "real option"
  colores :: "Color list"
  talles :: "Talle list"
  stockMinimo :: "int option"

section \<open>Rows of the schema\<close>

text \<open>Every model of \<open>schema.prisma\<close> has the columns \<open>id\<close> and \<open>activo\<close>. Of the other
  columns, the records keep those that the modelled operations read or write. Dates are
  time values. \<open>Direccion.usuarioId\<close> is optional in the schema (\<open>Int?\<close>),
  \<open>OrdenCompra.usuarioId\<close> is required (\<open>Int\<close>, \<open>NOT NULL\<close> in the migration).\<close>

record base =
  id' :: int
  activo :: bool

record categoria = base +
  categoriaPadreId :: "int option"

record descuento = base +
  fechaDesde :: "int option"
  fechaHasta :: "int option"
  horaDesde :: "int option"
  horaHasta :: "int option"
  precioPromocional :: real

record direccion = base +
  localidadId :: int
  usuarioId :: "int option"

type_synonym imagen = base

record localidad = base +
  provinciaId :: int

record ordenCompra = base +
  total :: real
  fechaCompra :: int
  direccionEnvio :: string
  usuarioId :: int

record ordenCompraDetalle = base +
  cantidad :: int
  subtotal :: real
  ordenCompraId :: int
  productoDetalleId :: int

record producto = base +
  precioVenta :: real
  tienePromocion :: bool
  descuentoIds :: "int list"

record productoDetalle = base +
  precioCompra :: real
  stockActual :: int
  color :: Color
  talle :: Talle
  productoId :: int

record provincia = base +
  nombre :: string

record usuario = base +
  userName :: "string option"
  email :: string
  rol :: Rol
  fechaBaja :: "int option"
  fechaModificacion :: int

text \<open>A product loaded with \<open>include: { productos_detalles: true, descuentos: true }\<close>.\<close>

record productoConRelaciones = producto +
  productos_detalles :: "productoDetalle list"
  descuentos :: "descuento list"

text \<open>A user loaded with \<open>include: { direcciones: ... }\<close>.\<close>

record usuarioConRelaciones = usuario +
  direcciones :: "direccion list"

text \<open>An order loaded with \<open>include: { detalles: true }\<close>.\<close>

record ordenCompraConDetalles = ordenCompra +
  detalles :: "ordenCompraDetalle list"

section \<open>ProductService.calcularPrecioFinal\<close>

definition segundosUTC :: "int \<Rightarrow> int" where
  "segundosUTC d = getUTCHours d * 3600 + getUTCMinutes d * 60 + getUTCSeconds d"

text \<open>The test \<open>fechaValida && horaValida\<close> of the loop body.\<close>

definition descuentoVigente :: "int \<Rightarrow> int \<Rightarrow> descuento \<Rightarrow> bool" where
  "descuentoVigente hoySoloFecha horaActualSegundos d =
     (let fechaDesde = map_option setUTCHours_inicio (fechaDesde d);
          fechaHasta = map_option setUTCHours_fin (fechaHasta d);
          horaDesdeSegundos = map_option segundosUTC (horaDesde d);
          horaHastaSegundos = map_option segundosUTC (horaHasta d);
          fechaValida = ((falsy fechaDesde \<or> hoySoloFecha \<ge> the fechaDesde) \<and>
                         (falsy fechaHasta \<or> hoySoloFecha \<le> the fechaHasta));
          horaValida = ((falsy horaDesdeSegundos \<or> horaActualSegundos \<ge> the horaDesdeSegundos) \<and>
                        (falsy horaHastaSegundos \<or> horaActualSegundos \<le> the horaHastaSegundos))
      in fechaValida \<and> horaValida)"

text \<open>One iteration of \<open>for (const descuento of producto.descuentos)\<close>; the accumulator is
  \<open>precioConDescuentoMasAlto\<close>.\<close>

definition aplicarDescuento :: "real \<Rightarrow> int \<Rightarrow> int \<Rightarrow> real \<Rightarrow> descuento \<Rightarrow> real" where
  "aplicarDescuento precioActual hoySoloFecha horaActualSegundos precioConDescuentoMasAlto d =
     (if descuentoVigente hoySoloFecha horaActualSegundos d then
        (let precioAplicandoEsteDescuento = precioActual * (1 - precioPromocional d)
         in if precioAplicandoEsteDescuento < precioConDescuentoMasAlto
            then precioAplicandoEsteDescuento else precioConDescuentoMasAlto)
      else precioConDescuentoMasAlto)"

text \<open>\<open>hoy\<close> is the value of \<open>new Date()\<close> at the call.\<close>

definition calcularPrecioFinal :: "int \<Rightarrow> int \<Rightarrow> 'a productoConRelaciones_scheme \<Rightarrow> real" where
  "calcularPrecioFinal tz hoy p =
     (let precioActual = precioVenta p in
      if \<not> tienePromocion p \<or> descuentos p = [] then precioActual
      else
        (let hoySoloFecha = medianocheLocal tz hoy;
             horaActualSegundos = getHours tz hoy * 3600 + getMinutes tz hoy * 60 + getSeconds tz hoy
         in foldl (aplicarDescuento precioActual hoySoloFecha horaActualSegundos)
                  precioActual (descuentos p)))"

section \<open>The database\<close>

text \<open>
  The state of the database: one list of rows per table (named after the tables of the
  schema), and \<open>escriturasHastaFallo\<close>, which stands for the failures a write can meet
  for a reason that the operations below do not compute (a lost connection, a lock
  timeout, a value that does not fit its column, a unique index that compares without
  regard to case): \<open>None\<close> when no write fails, \<open>Some n\<close> when the next \<open>n\<close> writes succeed
  and the one after them is rejected. Reads do not fail.
\<close>

record db =
  t_categorias :: "categoria list"
  t_descuentos :: "descuento list"
  t_direcciones :: "direccion list"
  t_imagen :: "imagen list"
  t_localidades :: "localidad list"
  t_orden_compra :: "ordenCompra list"
  t_orden_compra_detalle :: "ordenCompraDetalle list"
  t_productos :: "producto list"
  t_producto_detalle :: "productoDetalle list"
  t_provincias :: "provincia list"
  t_usuarios :: "usuario list"
  escriturasHastaFallo :: "nat option"

text \<open>The errors the modelled operations throw. \<open>P2025\<close> (record not found) and \<open>P2002\<close>
  (unique constraint) are Prisma's error codes; \<open>PrismaClientValidationError\<close> is thrown by
  the Prisma client, before anything is sent to the database, for a query that does not
  fit the schema; \<open>ErrorDeBaseDeDatos\<close> is a write rejected by the database. The numbers
  are the ones the source puts into the message.\<close>

datatype error =
    OrdenNoEncontrada
  | NoAutorizado
  | DetalleProductoNoEncontrado
  | StockInsuficiente int int
  | DetalleNoEncontradoODesactivado
  | DetalleNoEncontradoOActivo
  | StockInsuficienteReactivar int int
  | OrdenSinProductos
  | ProductoDetalleNoEncontradoOInactivo int
  | StockInsuficienteOrden int int int
  | ErrorAlCrearOrden error
  | UsuarioNoEncontrado int
  | UsuarioNoEncontradoOInactivo int
  | DireccionNoEncontrada int int
  | CuentaYaActiva
  | CuentaYaDesactivada
  | CuentaDesactivadaNoModificable
  | EmailEnUso
  | UserNameEnUso
  | LocalidadNoEncontradaODesactivada
  | ProvinciaNoEncontrada
  | P2025
  | P2002
  | PrismaClientValidationError
  | ErrorDeBaseDeDatos

text \<open>An operation on the database returns its result, or the error it throws, together
  with the state it leaves: an exception does not undo the writes made before it.\<close>

type_synonym 'a resultado = "(error + 'a) \<times> db"

text \<open>\<open>await\<close>: continue with the value, or propagate the exception.\<close>

definition entonces :: "'a resultado \<Rightarrow> ('a \<Rightarrow> db \<Rightarrow> 'b resultado) \<Rightarrow> 'b resultado" where
  "entonces m f = (case m of (Inl e, s) \<Rightarrow> (Inl e, s) | (Inr x, s) \<Rightarrow> f x s)"

subsection \<open>Reads\<close>

definition findMany :: "('r \<Rightarrow> bool) \<Rightarrow> 'r list \<Rightarrow> 'r list" where
  "findMany wh t = filter wh t"

definition findFirst :: "('r \<Rightarrow> bool) \<Rightarrow> 'r list \<Rightarrow> 'r option" where
  "findFirst wh t = find wh t"

definition findUnique :: "('r \<Rightarrow> bool) \<Rightarrow> 'r list \<Rightarrow> 'r option" where
  "findUnique wh t = find wh t"

subsection \<open>Writes\<close>

fun reemplazar :: "('r \<Rightarrow> bool) \<Rightarrow> ('r \<Rightarrow> 'r) \<Rightarrow> 'r list \<Rightarrow> 'r list" where
  "reemplazar wh f [] = []"
| "reemplazar wh f (r # rs) = (if wh r then f r # rs else r # reemplazar wh f rs)"

fun quitar :: "('r \<Rightarrow> bool) \<Rightarrow> 'r list \<Rightarrow> 'r list" where
  "quitar wh [] = []"
| "quitar wh (r # rs) = (if wh r then rs else r # quitar wh rs)"

text \<open>\<open>autoincrement()\<close>: an id greater than every id of the table.\<close>

definition siguienteId :: "'a base_scheme list \<Rightarrow> int" where
  "siguienteId t = foldr (\<lambda>r m. max (base.id' r) m) t 0 + 1"

text \<open>\<open>update({ where, data })\<close> on a table: \<open>P2025\<close> when no row matches.\<close>

definition actualizar :: "('r \<Rightarrow> bool) \<Rightarrow> ('r \<Rightarrow> 'r) \<Rightarrow> 'r list \<Rightarrow> error + 'r \<times> 'r list" where
  "actualizar wh f t =
     (case find wh t of None \<Rightarrow> Inl P2025 | Some r \<Rightarrow> Inr (f r, reemplazar wh f t))"

text \<open>Every write goes through \<open>escribir\<close>, which rejects it when the database fails.\<close>

definition escribir :: "(db \<Rightarrow> 'a resultado) \<Rightarrow> db \<Rightarrow> 'a resultado" where
  "escribir op s =
     (case escriturasHastaFallo s of
        None \<Rightarrow> op s
      | Some 0 \<Rightarrow> (Inl ErrorDeBaseDeDatos, s)
      | Some (Suc n) \<Rightarrow> op (s\<lparr>escriturasHastaFallo := Some n\<rparr>))"

text \<open>\<open>prisma.$transaction\<close>: when the body throws, the tables are as before it.\<close>

definition transaccion :: "(db \<Rightarrow> 'a resultado) \<Rightarrow> db \<Rightarrow> 'a resultado" where
  "transaccion cuerpo s =
     (case cuerpo s of
        (Inl e, s') \<Rightarrow> (Inl e, s\<lparr>escriturasHastaFallo := escriturasHastaFallo s'\<rparr>)
      | (Inr x, s') \<Rightarrow> (Inr x, s'))"

definition categoria_update :: "(categoria \<Rightarrow> bool) \<Rightarrow> (categoria \<Rightarrow> categoria) \<Rightarrow> db \<Rightarrow> categoria resultado" where
  "categoria_update wh f = escribir (\<lambda>s.
     case actualizar wh f (t_categorias s) of
       Inl e \<Rightarrow> (Inl e, s) | Inr (r, t) \<Rightarrow> (Inr r, s\<lparr>t_categorias := t\<rparr>))"

definition descuento_update :: "(descuento \<Rightarrow> bool) \<Rightarrow> (descuento \<Rightarrow> descuento) \<Rightarrow> db \<Rightarrow> descuento resultado" where
  "descuento_update wh f = escribir (\<lambda>s.
     case actualizar wh f (t_descuentos s) of
       Inl e \<Rightarrow> (Inl e, s) | Inr (r, t) \<Rightarrow> (Inr r, s\<lparr>t_descuentos := t\<rparr>))"

definition direccion_update :: "(direccion \<Rightarrow> bool) \<Rightarrow> (direccion \<Rightarrow> direccion) \<Rightarrow> db \<Rightarrow> direccion resultado" where
  "direccion_update wh f = escribir (\<lambda>s.
     case actualizar wh f (t_direcciones s) of
       Inl e \<Rightarrow> (Inl e, s) | Inr (r, t) \<Rightarrow> (Inr r, s\<lparr>t_direcciones := t\<rparr>))"

definition imagen_update :: "(imagen \<Rightarrow> bool) \<Rightarrow> (imagen \<Rightarrow> imagen) \<Rightarrow> db \<Rightarrow> imagen resultado" where
  "imagen_update wh f = escribir (\<lambda>s.
     case actualizar wh f (t_imagen s) of
       Inl e \<Rightarrow> (Inl e, s) | Inr (r, t) \<Rightarrow> (Inr r, s\<lparr>t_imagen := t\<rparr>))"

definition localidad_update :: "(localidad \<Rightarrow> bool) \<Rightarrow> (localidad \<Rightarrow> localidad) \<Rightarrow> db \<Rightarrow> localidad resultado" where
  "localidad_update wh f = escribir (\<lambda>s.
     case actualizar wh f (t_localidades s) of
       Inl e \<Rightarrow> (Inl e, s) | Inr (r, t) \<Rightarrow> (Inr r, s\<lparr>t_localidades := t\<rparr>))"

definition ordenCompra_update :: "(ordenCompra \<Rightarrow> bool) \<Rightarrow> (ordenCompra \<Rightarrow> ordenCompra) \<Rightarrow> db \<Rightarrow> ordenCompra resultado" where
  "ordenCompra_update wh f = escribir (\<lambda>s.
     case actualizar wh f (t_orden_compra s) of
       Inl e \<Rightarrow> (Inl e, s) | Inr (r, t) \<Rightarrow> (Inr r, s\<lparr>t_orden_compra := t\<rparr>))"

definition ordenCompraDetalle_update ::
  "(ordenCompraDetalle \<Rightarrow> bool) \<Rightarrow> (ordenCompraDetalle \<Rightarrow> ordenCompraDetalle) \<Rightarrow> db \<Rightarrow> ordenCompraDetalle resultado" where
  "ordenCompraDetalle_update wh f = escribir (\<lambda>s.
     case actualizar wh f (t_orden_compra_detalle s) of
       Inl e \<Rightarrow> (Inl e, s) | Inr (r, t) \<Rightarrow> (Inr r, s\<lparr>t_orden_compra_detalle := t\<rparr>))"

definition producto_update :: "(producto \<Rightarrow> bool) \<Rightarrow> (producto \<Rightarrow> producto) \<Rightarrow> db \<Rightarrow> producto resultado" where
  "producto_update wh f = escribir (\<lambda>s.
     case actualizar wh f (t_productos s) of
       Inl e \<Rightarrow> (Inl e, s) | Inr (r, t) \<Rightarrow> (Inr r, s\<lparr>t_productos := t\<rparr>))"

definition productoDetalle_update ::
  "(productoDetalle \<Rightarrow> bool) \<Rightarrow> (productoDetalle \<Rightarrow> productoDetalle) \<Rightarrow> db \<Rightarrow> productoDetalle resultado" where
  "productoDetalle_update wh f = escribir (\<lambda>s.
     case actualizar wh f (t_producto_detalle s) of
       Inl e \<Rightarrow> (Inl e, s) | Inr (r, t) \<Rightarrow> (Inr r, s\<lparr>t_producto_detalle := t\<rparr>))"

definition provincia_update :: "(provincia \<Rightarrow> bool) \<Rightarrow> (provincia \<Rightarrow> provincia) \<Rightarrow> db \<Rightarrow> provincia resultado" where
  "provincia_update wh f = escribir (\<lambda>s.
     case actualizar wh f (t_provincias s) of
       Inl e \<Rightarrow> (Inl e, s) | Inr (r, t) \<Rightarrow> (Inr r, s\<lparr>t_provincias := t\<rparr>))"

text \<open>\<open>usuarios.email\<close> and \<open>usuarios.userName\<close> are \<open>@unique\<close>: an update that would give a
  row the email or the user name of another row is rejected with \<open>P2002\<close>.\<close>

definition usuario_update :: "(usuario \<Rightarrow> bool) \<Rightarrow> (usuario \<Rightarrow> usuario) \<Rightarrow> db \<Rightarrow> usuario resultado" where
  "usuario_update wh f = escribir (\<lambda>s.
     case find wh (t_usuarios s) of
       None \<Rightarrow> (Inl P2025, s)
     | Some u \<Rightarrow>
         if \<exists>v \<in> set (t_usuarios s). base.id' v \<noteq> base.id' u \<and>
              (usuario.email v = usuario.email (f u) \<or>
               (userName (f u) \<noteq> None \<and> userName v = userName (f u)))
         then (Inl P2002, s)
         else (Inr (f u), s\<lparr>t_usuarios := reemplazar wh f (t_usuarios s)\<rparr>))"

text \<open>\<open>prisma.direccion.delete({ where })\<close>: the row is removed from the table.\<close>

definition direccion_delete :: "(direccion \<Rightarrow> bool) \<Rightarrow> db \<Rightarrow> direccion resultado" where
  "direccion_delete wh = escribir (\<lambda>s.
     case find wh (t_direcciones s) of
       None \<Rightarrow> (Inl P2025, s)
     | Some r \<Rightarrow> (Inr r, s\<lparr>t_direcciones := quitar wh (t_direcciones s)\<rparr>))"

text \<open>\<open>prisma.direccion.deleteMany({ where })\<close>: every matching row is removed from the table;
  the result is their number.\<close>

definition direccion_deleteMany :: "(direccion \<Rightarrow> bool) \<Rightarrow> db \<Rightarrow> nat resultado" where
  "direccion_deleteMany wh = escribir (\<lambda>s.
     (Inr (length (filter wh (t_direcciones s))),
      s\<lparr>t_direcciones := filter (\<lambda>d. \<not> wh d) (t_direcciones s)\<rparr>))"

text \<open>\<open>prisma.direccion.update\<close> with the data \<open>localidad: { connect: { id } }\<close>, and
  \<open>prisma.direccion.create\<close> with \<open>localidad\<close> and \<open>usuario\<close> connected: \<open>P2025\<close> when a
  connected row does not exist. The new row gets the next id and the default
  \<open>activo = true\<close>.\<close>

definition direccion_update_localidad :: "(direccion \<Rightarrow> bool) \<Rightarrow> int \<Rightarrow> db \<Rightarrow> direccion resultado" where
  "direccion_update_localidad wh loc = escribir (\<lambda>s.
     if \<not> (\<exists>l \<in> set (t_localidades s). base.id' l = loc) then (Inl P2025, s)
     else
       (case actualizar wh (\<lambda>d. d\<lparr>localidadId := loc\<rparr>) (t_direcciones s) of
          Inl e \<Rightarrow> (Inl e, s) | Inr (r, t) \<Rightarrow> (Inr r, s\<lparr>t_direcciones := t\<rparr>)))"

definition direccion_create :: "int \<Rightarrow> int \<Rightarrow> db \<Rightarrow> direccion resultado" where
  "direccion_create loc uid = escribir (\<lambda>s.
     if \<not> (\<exists>l \<in> set (t_localidades s). base.id' l = loc) \<or>
        \<not> (\<exists>u \<in> set (t_usuarios s). base.id' u = uid)
     then (Inl P2025, s)
     else
       (let fila = \<lparr>base.id' = siguienteId (t_direcciones s), activo = True,
                     localidadId = loc, usuarioId = Some uid\<rparr>
        in (Inr fila, s\<lparr>t_direcciones := t_direcciones s @ [fila]\<rparr>)))"

text \<open>\<open>prisma.ordenCompraDetalle.create\<close>: the new row gets the next id.\<close>

definition ordenCompraDetalle_create ::
  "int \<Rightarrow> int \<Rightarrow> int \<Rightarrow> real \<Rightarrow> bool \<Rightarrow> db \<Rightarrow> ordenCompraDetalle resultado" where
  "ordenCompraDetalle_create ordenId detalleId cant sub act = escribir (\<lambda>s.
     if \<not> (\<exists>oc \<in> set (t_orden_compra s). base.id' oc = ordenId) \<or>
        \<not> (\<exists>pd \<in> set (t_producto_detalle s). base.id' pd = detalleId)
     then (Inl P2025, s)
     else
       (let fila = \<lparr>base.id' = siguienteId (t_orden_compra_detalle s), activo = act,
                     cantidad = cant, subtotal = sub,
                     ordenCompraId = ordenId, productoDetalleId = detalleId\<rparr>
        in (Inr fila, s\<lparr>t_orden_compra_detalle := t_orden_compra_detalle s @ [fila]\<rparr>)))"

section \<open>OrderDetailService\<close>

text \<open>\<open>include: { usuario: true }\<close> on an order, \<open>include: { productoDetalle: true }\<close> on an
  order line: the related row, or \<open>null\<close>.\<close>

definition usuarioDeOrden :: "db \<Rightarrow> ordenCompra \<Rightarrow> usuario option" where
  "usuarioDeOrden s oc = findUnique (\<lambda>u. base.id' u = ordenCompra.usuarioId oc) (t_usuarios s)"

definition productoDetalleDeLinea :: "db \<Rightarrow> ordenCompraDetalle \<Rightarrow> productoDetalle option" where
  "productoDetalleDeLinea s l =
     findUnique (\<lambda>pd. base.id' pd = ordenCompraDetalle.productoDetalleId l) (t_producto_detalle s)"

text \<open>\<open>currentUser.rol === Rol.CLIENTE && (!ordenCompra.usuario || ordenCompra.usuario.id !== currentUser.id)\<close>\<close>

definition clienteAjeno :: "db \<Rightarrow> authUser \<Rightarrow> ordenCompra \<Rightarrow> bool" where
  "clienteAjeno s currentUser oc =
     (authUser.rol currentUser = CLIENTE \<and>
      (case usuarioDeOrden s oc of
         None \<Rightarrow> True
       | Some u \<Rightarrow> base.id' u \<noteq> authUser.id' currentUser))"

definition OrderDetailService_create :: "detallePayload \<Rightarrow> authUser \<Rightarrow> db \<Rightarrow> ordenCompraDetalle resultado" where
  "OrderDetailService_create data currentUser s =
     (case findUnique (\<lambda>oc. base.id' oc = detallePayload.ordenCompraId data) (t_orden_compra s) of
        None \<Rightarrow> (Inl OrdenNoEncontrada, s)
      | Some ordenCompra \<Rightarrow>
          if clienteAjeno s currentUser ordenCompra then (Inl NoAutorizado, s)
          else
            (case findUnique (\<lambda>pd. base.id' pd = detalleNestedPayload.productoDetalleId data)
                    (t_producto_detalle s) of
               None \<Rightarrow> (Inl DetalleProductoNoEncontrado, s)
             | Some productoDetalle \<Rightarrow>
                 if stockActual productoDetalle < detalleNestedPayload.cantidad data
                 then (Inl (StockInsuficiente (stockActual productoDetalle)
                              (detalleNestedPayload.cantidad data)), s)
                 else
                   (let subtotalCalculado =
                          precioCompra productoDetalle * of_int (detalleNestedPayload.cantidad data)
                    in entonces
                         (ordenCompraDetalle_create (detallePayload.ordenCompraId data)
                            (detalleNestedPayload.productoDetalleId data)
                            (detalleNestedPayload.cantidad data) subtotalCalculado True s)
                         (\<lambda>newDetalle s1.
                            entonces
                              (productoDetalle_update
                                 (\<lambda>pd. base.id' pd = base.id' productoDetalle)
                                 (\<lambda>pd. pd\<lparr>stockActual :=
                                        stockActual pd - detalleNestedPayload.cantidad data\<rparr>) s1)
                              (\<lambda>_ s2. (Inr newDetalle, s2))))))"

definition OrderDetailService_findById :: "int \<Rightarrow> authUser \<Rightarrow> db \<Rightarrow> error + ordenCompraDetalle option" where
  "OrderDetailService_findById i currentUser s =
     (case findUnique (\<lambda>l. base.id' l = i \<and> activo l) (t_orden_compra_detalle s) of
        None \<Rightarrow> Inr None
      | Some detalle \<Rightarrow>
          if authUser.rol currentUser = CLIENTE \<and>
             (case findUnique (\<lambda>oc. base.id' oc = ordenCompraDetalle.ordenCompraId detalle)
                     (t_orden_compra s) of
                None \<Rightarrow> True
              | Some oc \<Rightarrow>
                  (case usuarioDeOrden s oc of
                     None \<Rightarrow> True
                   | Some u \<Rightarrow> base.id' u \<noteq> authUser.id' currentUser))
          then Inl NoAutorizado
          else Inr (Some detalle))"

text \<open>\<open>activo: includeInactive ? undefined : true\<close>: an \<open>undefined\<close> filter is no filter.\<close>

definition OrderDetailService_findAll :: "bool \<Rightarrow> db \<Rightarrow> ordenCompraDetalle list" where
  "OrderDetailService_findAll includeInactive s =
     findMany (\<lambda>l. includeInactive \<or> activo l) (t_orden_compra_detalle s)"

definition OrderDetailService_delete :: "int \<Rightarrow> db \<Rightarrow> ordenCompraDetalle resultado" where
  "OrderDetailService_delete i s =
     (case findUnique (\<lambda>l. base.id' l = i) (t_orden_compra_detalle s) of
        None \<Rightarrow> (Inl DetalleNoEncontradoODesactivado, s)
      | Some existingDetalle \<Rightarrow>
          if \<not> activo existingDetalle then (Inl DetalleNoEncontradoODesactivado, s)
          else
            entonces
              (case productoDetalleDeLinea s existingDetalle of
                 None \<Rightarrow> (Inr (), s)
               | Some productoDetalle \<Rightarrow>
                   entonces
                     (productoDetalle_update
                        (\<lambda>pd. base.id' pd = base.id' productoDetalle)
                        (\<lambda>pd. pd\<lparr>stockActual :=
                               stockActual pd + ordenCompraDetalle.cantidad existingDetalle\<rparr>) s)
                     (\<lambda>_ s1. (Inr (), s1)))
              (\<lambda>_ s1. ordenCompraDetalle_update (\<lambda>l. base.id' l = i)
                          (\<lambda>l. l\<lparr>activo := False\<rparr>) s1))"


definition OrderDetailService_findByOrderId :: "int \<Rightarrow> authUser \<Rightarrow> db \<Rightarrow> error + ordenCompraDetalle list" where
  "OrderDetailService_findByOrderId ordenId currentUser s =
     (case findUnique (\<lambda>oc. base.id' oc = ordenId) (t_orden_compra s) of
        None \<Rightarrow> Inl OrdenNoEncontrada
      | Some ordenCompra \<Rightarrow>
          if clienteAjeno s currentUser ordenCompra then Inl NoAutorizado
          else Inr (findMany (\<lambda>l. ordenCompraDetalle.ordenCompraId l = ordenId \<and> activo l)
                      (t_orden_compra_detalle s)))"

definition OrderDetailService_findByProductDetailId :: "int \<Rightarrow> db \<Rightarrow> error + ordenCompraDetalle list" where
  "OrderDetailService_findByProductDetailId detalleId s =
     (case findUnique (\<lambda>pd. base.id' pd = detalleId) (t_producto_detalle s) of
        None \<Rightarrow> Inl DetalleProductoNoEncontrado
      | Some _ \<Rightarrow>
          Inr (findMany (\<lambda>l. ordenCompraDetalle.productoDetalleId l = detalleId \<and> activo l)
                 (t_orden_compra_detalle s)))"

section \<open>OrderService\<close>

text \<open>\<open>prisma.ordenCompra.create\<close> with nested \<open>detalles: { create: detallesParaCrear }\<close>: one
  write that inserts the order and its lines. The lines get consecutive ids.
  \<open>usuarioConectado\<close> is the id of \<open>usuario: { connect: { id } }\<close> in the data, and \<open>None\<close> for
  data without \<open>usuario\<close>. The relation is required by the schema: the client rejects data
  without it and sends nothing to the database.\<close>

fun numerar :: "int \<Rightarrow> int \<Rightarrow> detalleCreateInput list \<Rightarrow> ordenCompraDetalle list" where
  "numerar n ordenId [] = []"
| "numerar n ordenId (d # ds) =
     \<lparr>base.id' = n, activo = detalleCreateInput.activo d,
      cantidad = detalleCreateInput.cantidad d, subtotal = detalleCreateInput.subtotal d,
      ordenCompraId = ordenId, productoDetalleId = detalleCreateInput.productoDetalleId d\<rparr>
     # numerar (n + 1) ordenId ds"

definition ordenCompra_create ::
  "real \<Rightarrow> int \<Rightarrow> string \<Rightarrow> bool \<Rightarrow> int option \<Rightarrow> detalleCreateInput list \<Rightarrow> db
     \<Rightarrow> ordenCompraConDetalles resultado" where
  "ordenCompra_create tot fecha direccion act usuarioConectado detallesParaCrear s =
     (case usuarioConectado of
        None \<Rightarrow> (Inl PrismaClientValidationError, s)
      | Some uid \<Rightarrow>
          escribir (\<lambda>s.
            if \<not> (\<exists>u \<in> set (t_usuarios s). base.id' u = uid) \<or>
               (\<exists>d \<in> set detallesParaCrear.
                  \<not> (\<exists>pd \<in> set (t_producto_detalle s).
                       base.id' pd = detalleCreateInput.productoDetalleId d))
            then (Inl P2025, s)
            else
              (let ordenId = siguienteId (t_orden_compra s);
                   filas = numerar (siguienteId (t_orden_compra_detalle s)) ordenId detallesParaCrear
               in (Inr \<lparr>base.id' = ordenId, activo = act, total = tot, fechaCompra = fecha,
                         direccionEnvio = direccion, usuarioId = uid, detalles = filas\<rparr>,
                   s\<lparr>t_orden_compra := t_orden_compra s @
                          [\<lparr>base.id' = ordenId, activo = act, total = tot, fechaCompra = fecha,
                            direccionEnvio = direccion, usuarioId = uid\<rparr>],
                     t_orden_compra_detalle := t_orden_compra_detalle s @ filas\<rparr>))) s)"

text \<open>\<open>new Map(productosDetallesExistentes.map(pd => [pd.id, pd]))\<close>: for a repeated key the
  last entry stays.\<close>

definition nuevoMap :: "productoDetalle list \<Rightarrow> int \<Rightarrow> productoDetalle option" where
  "nuevoMap pds = map_of (rev (map (\<lambda>pd. (base.id' pd, pd)) pds))"

text \<open>The first loop over \<open>ordenCompraData.detalles\<close>, with \<open>totalCalculado\<close> and
  \<open>detallesParaCrear\<close> as accumulators. The two amounts go into the data of
  \<open>prisma.ordenCompra.create\<close> and nowhere else.\<close>

fun prepararDetalles ::
  "(int \<Rightarrow> productoDetalle option) \<Rightarrow> detalleNestedPayload list \<Rightarrow> real \<Rightarrow> detalleCreateInput list
     \<Rightarrow> error + real \<times> detalleCreateInput list" where
  "prepararDetalles productosDetalleMap [] totalCalculado detallesParaCrear =
     Inr (totalCalculado, detallesParaCrear)"
| "prepararDetalles productosDetalleMap (detallePayload # resto) totalCalculado detallesParaCrear =
     (case productosDetalleMap (detalleNestedPayload.productoDetalleId detallePayload) of
        None \<Rightarrow> Inl (ProductoDetalleNoEncontradoOInactivo
                       (detalleNestedPayload.productoDetalleId detallePayload))
      | Some productoDetalle \<Rightarrow>
          if stockActual productoDetalle < detalleNestedPayload.cantidad detallePayload
          then Inl (StockInsuficienteOrden (detalleNestedPayload.productoDetalleId detallePayload)
                      (stockActual productoDetalle) (detalleNestedPayload.cantidad detallePayload))
          else
            (let subtotal = precioCompra productoDetalle
                              * of_int (detalleNestedPayload.cantidad detallePayload)
             in prepararDetalles productosDetalleMap resto (totalCalculado + subtotal)
                  (detallesParaCrear @
                     [\<lparr>detalleCreateInput.cantidad = detalleNestedPayload.cantidad detallePayload,
                       subtotal = subtotal, activo = True,
                       productoDetalleId = detalleNestedPayload.productoDetalleId detallePayload\<rparr>])))"

text \<open>The second loop, inside \<open>prisma.$transaction\<close>: the new stock is computed from the
  \<open>stockActual\<close> read before the order was created.\<close>

fun descontarStock ::
  "(int \<Rightarrow> productoDetalle option) \<Rightarrow> detalleNestedPayload list \<Rightarrow> db \<Rightarrow> unit resultado" where
  "descontarStock productosDetalleMap [] s = (Inr (), s)"
| "descontarStock productosDetalleMap (detallePayload # resto) s =
     (case productosDetalleMap (detalleNestedPayload.productoDetalleId detallePayload) of
        None \<Rightarrow> descontarStock productosDetalleMap resto s
      | Some productoDetalle \<Rightarrow>
          entonces
            (productoDetalle_update
               (\<lambda>pd. base.id' pd = detalleNestedPayload.productoDetalleId detallePayload)
               (\<lambda>pd. pd\<lparr>stockActual := stockActual productoDetalle
                                          - detalleNestedPayload.cantidad detallePayload\<rparr>) s)
            (\<lambda>_ s1. descontarStock productosDetalleMap resto s1))"

text \<open>\<open>catch (error) { throw new Error(`Error al crear la orden de compra: ${error.message}`) }\<close>\<close>

definition envolverError :: "'a resultado \<Rightarrow> 'a resultado" where
  "envolverError m = (case m of (Inl e, s) \<Rightarrow> (Inl (ErrorAlCrearOrden e), s) | (Inr x, s) \<Rightarrow> (Inr x, s))"

text \<open>\<open>ahora\<close> is the value of \<open>new Date()\<close> at the call. The data given to
  \<open>prisma.ordenCompra.create\<close> are \<open>total\<close>, \<open>fechaCompra\<close>, \<open>direccionEnvio\<close>, \<open>activo\<close> and
  \<open>detalles\<close>: \<open>ordenCompraData.userId\<close> is not read and no \<open>usuario\<close> is connected.\<close>

definition OrderService_crear :: "int \<Rightarrow> ordenCompraPayload \<Rightarrow> db \<Rightarrow> ordenCompraConDetalles resultado" where
  "OrderService_crear ahora ordenCompraData s = envolverError
     (case ordenCompraPayload.detalles ordenCompraData of
        None \<Rightarrow> (Inl OrdenSinProductos, s)
      | Some detallesPedidos \<Rightarrow>
          if length detallesPedidos = 0 then (Inl OrdenSinProductos, s)
          else
            (let productoDetalleIds = map detalleNestedPayload.productoDetalleId detallesPedidos;
                 productosDetallesExistentes =
                   findMany (\<lambda>pd. base.id' pd \<in> set productoDetalleIds \<and> activo pd)
                     (t_producto_detalle s);
                 productosDetalleMap = nuevoMap productosDetallesExistentes
             in case prepararDetalles productosDetalleMap detallesPedidos 0 [] of
                  Inl e \<Rightarrow> (Inl e, s)
                | Inr (totalCalculado, detallesParaCrear) \<Rightarrow>
                    entonces
                      (ordenCompra_create totalCalculado ahora
                         (ordenCompraPayload.direccionEnvio ordenCompraData) True None
                         detallesParaCrear s)
                      (\<lambda>nuevaOrden s1.
                         entonces
                           (transaccion (descontarStock productosDetalleMap detallesPedidos) s1)
                           (\<lambda>_ s2. (Inr nuevaOrden, s2)))))"

definition OrderService_findById :: "int \<Rightarrow> db \<Rightarrow> ordenCompraConDetalles option" where
  "OrderService_findById i s =
     map_option
       (\<lambda>oc. ordenCompra.extend oc
          (ordenCompraConDetalles.fields
             (findMany (\<lambda>l. ordenCompraDetalle.ordenCompraId l = base.id' oc)
                (t_orden_compra_detalle s))))
       (findUnique (\<lambda>oc. base.id' oc = i \<and> activo oc) (t_orden_compra s))"

definition OrderService_delete :: "int \<Rightarrow> db \<Rightarrow> ordenCompra resultado" where
  "OrderService_delete i s =
     ordenCompra_update (\<lambda>oc. base.id' oc = i) (\<lambda>oc. oc\<lparr>activo := False\<rparr>) s"

text \<open>\<open>setHours(0, 0, 0, 0)\<close> and \<open>setHours(23, 59, 59, 999)\<close> are in local time.\<close>

definition OrderService_obtenerPorFecha :: "int \<Rightarrow> int \<Rightarrow> db \<Rightarrow> ordenCompraConDetalles list" where
  "OrderService_obtenerPorFecha tz fecha s =
     (let startOfDay = medianocheLocal tz fecha;
          endOfDay = medianocheLocal tz fecha + 86399999
      in map
           (\<lambda>oc. ordenCompra.extend oc
              (ordenCompraConDetalles.fields
                 (findMany (\<lambda>l. ordenCompraDetalle.ordenCompraId l = base.id' oc)
                    (t_orden_compra_detalle s))))
           (findMany (\<lambda>oc. fechaCompra oc \<ge> startOfDay \<and> fechaCompra oc \<le> endOfDay \<and> activo oc)
              (t_orden_compra s)))"

section \<open>ProductService\<close>

text \<open>\<open>include: { productos_detalles: true, descuentos: true }\<close>: the variants of the product
  and the discounts linked to it, whatever their \<open>activo\<close>.\<close>

definition incluirRelaciones :: "db \<Rightarrow> producto \<Rightarrow> productoConRelaciones" where
  "incluirRelaciones s p =
     producto.extend p
       (productoConRelaciones.fields
          (findMany (\<lambda>pd. productoId pd = base.id' p) (t_producto_detalle s))
          (findMany (\<lambda>d. base.id' d \<in> set (descuentoIds p)) (t_descuentos s)))"

definition mapearProductoADTO :: "int \<Rightarrow> int \<Rightarrow> productoConRelaciones \<Rightarrow> productoDTO" where
  "mapearProductoADTO tz hoy p =
     \<lparr>productoDTO.id' = base.id' p,
      precioOriginal = precioVenta p,
      precioFinal = calcularPrecioFinal tz hoy p,
      tienePromocion = producto.tienePromocion p,
      productos_detalles =
        map (\<lambda>pd. \<lparr>productoDetalleDTO.id' = base.id' pd,
                    precioCompra = productoDetalle.precioCompra pd,
                    stockActual = productoDetalle.stockActual pd\<rparr>)
          (productos_detalles p)\<rparr>"

definition ProductService_obtenerTodosLosProductosDTO :: "int \<Rightarrow> int \<Rightarrow> db \<Rightarrow> productoDTO list" where
  "ProductService_obtenerTodosLosProductosDTO tz hoy s =
     map (\<lambda>p. mapearProductoADTO tz hoy (incluirRelaciones s p))
       (findMany (\<lambda>p. activo p) (t_productos s))"

definition ProductService_obtenerProductosPromocionalesDTO :: "int \<Rightarrow> int \<Rightarrow> db \<Rightarrow> productoDTO list" where
  "ProductService_obtenerProductosPromocionalesDTO tz hoy s =
     map (\<lambda>p. mapearProductoADTO tz hoy (incluirRelaciones s p))
       (filter (\<lambda>p. calcularPrecioFinal tz hoy (incluirRelaciones s p) < precioVenta p)
          (findMany (\<lambda>p. activo p \<and> producto.tienePromocion p) (t_productos s)))"

definition ProductService_obtenerProductoDTOPorId :: "int \<Rightarrow> int \<Rightarrow> int \<Rightarrow> db \<Rightarrow> productoDTO option" where
  "ProductService_obtenerProductoDTOPorId tz hoy i s =
     map_option (\<lambda>p. mapearProductoADTO tz hoy (incluirRelaciones s p))
       (findUnique (\<lambda>p. base.id' p = i \<and> activo p) (t_productos s))"

text \<open>\<open>filtrarYOrdenarProductos\<close>: the \<open>where\<close> object starts as \<open>{ activo: true }\<close> and gets one
  more condition for each filter given. \<open>otros\<close> stands for the conditions on
  \<open>denominacion\<close>, \<open>sexo\<close> and \<open>categorias\<close>, columns that are not kept here. The \<open>orderBy\<close>
  option only changes the order of the result and is left out.\<close>

definition productoDetalleSomeFilter :: "productFilters \<Rightarrow> productoDetalle \<Rightarrow> bool" where
  "productoDetalleSomeFilter filters pd =
     (activo pd \<and>
      (colores filters = [] \<or> color pd \<in> set (colores filters)) \<and>
      (talles filters = [] \<or> talle pd \<in> set (talles filters)) \<and>
      (case stockMinimo filters of None \<Rightarrow> True | Some m \<Rightarrow> productoDetalle.stockActual pd \<ge> m))"

definition hasSpecificProductDetailFilters :: "productFilters \<Rightarrow> bool" where
  "hasSpecificProductDetailFilters filters =
     (colores filters \<noteq> [] \<or> talles filters \<noteq> [] \<or> stockMinimo filters \<noteq> None)"

definition ProductService_filtrarYOrdenarProductos ::
  "int \<Rightarrow> int \<Rightarrow> productFilters \<Rightarrow> (producto \<Rightarrow> bool) \<Rightarrow> db \<Rightarrow> productoDTO list" where
  "ProductService_filtrarYOrdenarProductos tz hoy filters otros s =
     map (\<lambda>p. mapearProductoADTO tz hoy (incluirRelaciones s p))
       (findMany
          (\<lambda>p. activo p \<and> otros p \<and>
             (case productFilters.tienePromocion filters of
                None \<Rightarrow> True | Some b \<Rightarrow> producto.tienePromocion p = b) \<and>
             (case minPrice filters of None \<Rightarrow> True | Some m \<Rightarrow> precioVenta p \<ge> m) \<and>
             (case maxPrice filters of None \<Rightarrow> True | Some m \<Rightarrow> precioVenta p \<le> m) \<and>
             (hasSpecificProductDetailFilters filters \<longrightarrow>
                (\<exists>pd \<in> set (t_producto_detalle s).
                   productoId pd = base.id' p \<and> productoDetalleSomeFilter filters pd)))
          (t_productos s))"

text \<open>\<open>deleteProduct\<close> returns \<open>null\<close> when the product does not exist.\<close>

definition ProductService_deleteProduct :: "int \<Rightarrow> db \<Rightarrow> producto option resultado" where
  "ProductService_deleteProduct i s =
     (case findUnique (\<lambda>p. base.id' p = i) (t_productos s) of
        None \<Rightarrow> (Inr None, s)
      | Some product \<Rightarrow>
          entonces (producto_update (\<lambda>p. base.id' p = i) (\<lambda>p. p\<lparr>activo := False\<rparr>) s)
            (\<lambda>r s1. (Inr (Some r), s1)))"

section \<open>ProductDetailService\<close>

definition ProductDetailService_findById :: "int \<Rightarrow> db \<Rightarrow> productoDetalle option" where
  "ProductDetailService_findById i s =
     findUnique (\<lambda>pd. base.id' pd = i \<and> activo pd) (t_producto_detalle s)"

definition ProductDetailService_delete :: "int \<Rightarrow> db \<Rightarrow> productoDetalle resultado" where
  "ProductDetailService_delete i s =
     productoDetalle_update (\<lambda>pd. base.id' pd = i) (\<lambda>pd. pd\<lparr>activo := False\<rparr>) s"

definition ProductDetailService_findAllByProductoId :: "int \<Rightarrow> db \<Rightarrow> productoDetalle list" where
  "ProductDetailService_findAllByProductoId pid s =
     findMany (\<lambda>pd. productoId pd = pid \<and> activo pd) (t_producto_detalle s)"

definition ProductDetailService_findByProductoIdAndTalleAndColor ::
  "int \<Rightarrow> Talle \<Rightarrow> Color \<Rightarrow> db \<Rightarrow> productoDetalle option" where
  "ProductDetailService_findByProductoIdAndTalleAndColor pid t c s =
     findFirst (\<lambda>pd. productoId pd = pid \<and> talle pd = t \<and> color pd = c \<and> activo pd)
       (t_producto_detalle s)"

definition ProductDetailService_findAllByStockActualGreaterThan :: "int \<Rightarrow> db \<Rightarrow> productoDetalle list" where
  "ProductDetailService_findAllByStockActualGreaterThan minimo s =
     findMany (\<lambda>pd. productoDetalle.stockActual pd > minimo \<and> activo pd) (t_producto_detalle s)"

definition ProductDetailService_filtrarPorOpciones ::
  "int option \<Rightarrow> Color option \<Rightarrow> Talle option \<Rightarrow> int option \<Rightarrow> db \<Rightarrow> productoDetalle list" where
  "ProductDetailService_filtrarPorOpciones pid c t stockMin s =
     findMany
       (\<lambda>pd. activo pd \<and>
          (case pid of None \<Rightarrow> True | Some x \<Rightarrow> productoId pd = x) \<and>
          (case c of None \<Rightarrow> True | Some x \<Rightarrow> color pd = x) \<and>
          (case t of None \<Rightarrow> True | Some x \<Rightarrow> talle pd = x) \<and>
          (case stockMin of None \<Rightarrow> True | Some x \<Rightarrow> productoDetalle.stockActual pd \<ge> x))
       (t_producto_detalle s)"

section \<open>DiscountService\<close>

definition DiscountService_findById :: "int \<Rightarrow> db \<Rightarrow> descuento option" where
  "DiscountService_findById i s =
     findUnique (\<lambda>d. base.id' d = i \<and> activo d) (t_descuentos s)"

definition DiscountService_findAll :: "db \<Rightarrow> descuento list" where
  "DiscountService_findAll s = findMany (\<lambda>d. activo d) (t_descuentos s)"

definition DiscountService_delete :: "int \<Rightarrow> db \<Rightarrow> descuento resultado" where
  "DiscountService_delete i s =
     descuento_update (\<lambda>d. base.id' d = i) (\<lambda>d. d\<lparr>activo := False\<rparr>) s"

section \<open>AddressService\<close>

definition AddressService_findById :: "int \<Rightarrow> db \<Rightarrow> direccion option" where
  "AddressService_findById i s =
     findUnique (\<lambda>d. base.id' d = i \<and> activo d) (t_direcciones s)"

definition AddressService_delete :: "int \<Rightarrow> db \<Rightarrow> direccion resultado" where
  "AddressService_delete i s =
     direccion_update (\<lambda>d. base.id' d = i) (\<lambda>d. d\<lparr>activo := False\<rparr>) s"

definition AddressService_listarPorLocalidad :: "int \<Rightarrow> db \<Rightarrow> direccion list" where
  "AddressService_listarPorLocalidad idLocalidad s =
     findMany (\<lambda>d. localidadId d = idLocalidad \<and> activo d) (t_direcciones s)"

definition AddressService_listarPorUsuarioId :: "int \<Rightarrow> db \<Rightarrow> direccion list" where
  "AddressService_listarPorUsuarioId idUsuario s =
     findMany (\<lambda>d. direccion.usuarioId d = Some idUsuario \<and> activo d) (t_direcciones s)"

definition AddressService_findAll :: "bool \<Rightarrow> db \<Rightarrow> direccion list" where
  "AddressService_findAll includeInactive s =
     findMany (\<lambda>d. includeInactive \<or> activo d) (t_direcciones s)"

section \<open>LocationService\<close>

definition LocationService_findById :: "int \<Rightarrow> db \<Rightarrow> localidad option" where
  "LocationService_findById i s =
     findUnique (\<lambda>l. base.id' l = i \<and> activo l) (t_localidades s)"

definition LocationService_findAll :: "bool \<Rightarrow> db \<Rightarrow> localidad list" where
  "LocationService_findAll includeInactive s =
     findMany (\<lambda>l. includeInactive \<or> activo l) (t_localidades s)"

definition LocationService_findByProvinciaId :: "int \<Rightarrow> db \<Rightarrow> error + localidad list" where
  "LocationService_findByProvinciaId pid s =
     (case findUnique (\<lambda>p. base.id' p = pid) (t_provincias s) of
        None \<Rightarrow> Inl ProvinciaNoEncontrada
      | Some _ \<Rightarrow> Inr (findMany (\<lambda>l. provinciaId l = pid \<and> activo l) (t_localidades s)))"

text \<open>\<open>LocationService.delete\<close> turns \<open>P2025\<close> into its own error and rethrows the others.\<close>

definition LocationService_delete :: "int \<Rightarrow> db \<Rightarrow> localidad resultado" where
  "LocationService_delete i s =
     (case localidad_update (\<lambda>l. base.id' l = i \<and> activo l) (\<lambda>l. l\<lparr>activo := False\<rparr>) s of
        (Inl e, s1) \<Rightarrow> (Inl (if e = P2025 then LocalidadNoEncontradaODesactivada else e), s1)
      | (Inr r, s1) \<Rightarrow> (Inr r, s1))"

section \<open>ProvinceService\<close>

text \<open>\<open>mode: 'insensitive'\<close>: the names are compared without regard to the case of the
  letters \<open>A\<close> to \<open>Z\<close>.\<close>

definition minuscula :: "char \<Rightarrow> char" where
  "minuscula c =
     (let n = (of_char c :: nat) in if 65 \<le> n \<and> n \<le> 90 then char_of (n + 32) else c)"

definition ProvinceService_findAll :: "db \<Rightarrow> provincia list" where
  "ProvinceService_findAll s = findMany (\<lambda>p. activo p) (t_provincias s)"

definition ProvinceService_findById :: "int \<Rightarrow> db \<Rightarrow> provincia option" where
  "ProvinceService_findById i s =
     findUnique (\<lambda>p. base.id' p = i \<and> activo p) (t_provincias s)"

definition ProvinceService_findByNombre :: "string \<Rightarrow> db \<Rightarrow> provincia option" where
  "ProvinceService_findByNombre n s =
     findFirst (\<lambda>p. map minuscula (nombre p) = map minuscula n \<and> activo p) (t_provincias s)"

text \<open>\<open>ProvinceService.delete\<close> returns \<open>null\<close> on \<open>P2025\<close>.\<close>

definition ProvinceService_delete :: "int \<Rightarrow> db \<Rightarrow> provincia option resultado" where
  "ProvinceService_delete i s =
     (case provincia_update (\<lambda>p. base.id' p = i \<and> activo p) (\<lambda>p. p\<lparr>activo := False\<rparr>) s of
        (Inl e, s1) \<Rightarrow> (if e = P2025 then (Inr None, s1) else (Inl e, s1))
      | (Inr r, s1) \<Rightarrow> (Inr (Some r), s1))"

section \<open>ImagenService\<close>

definition ImagenService_findById :: "int \<Rightarrow> db \<Rightarrow> imagen option" where
  "ImagenService_findById i s =
     findUnique (\<lambda>im. base.id' im = i \<and> activo im) (t_imagen s)"

definition ImagenService_findAll :: "bool \<Rightarrow> db \<Rightarrow> imagen list" where
  "ImagenService_findAll includeInactive s =
     findMany (\<lambda>im. includeInactive \<or> activo im) (t_imagen s)"

definition ImagenService_delete :: "int \<Rightarrow> db \<Rightarrow> imagen resultado" where
  "ImagenService_delete i s =
     imagen_update (\<lambda>im. base.id' im = i) (\<lambda>im. im\<lparr>activo := False\<rparr>) s"

section \<open>CategoryService\<close>

definition CategoryService_getAllCategories :: "db \<Rightarrow> categoria list" where
  "CategoryService_getAllCategories s = findMany (\<lambda>c. activo c) (t_categorias s)"

definition CategoryService_getCategoryById :: "int \<Rightarrow> db \<Rightarrow> categoria option" where
  "CategoryService_getCategoryById i s =
     findUnique (\<lambda>c. base.id' c = i \<and> activo c) (t_categorias s)"

definition CategoryService_deleteCategory :: "int \<Rightarrow> db \<Rightarrow> categoria resultado" where
  "CategoryService_deleteCategory i s =
     categoria_update (\<lambda>c. base.id' c = i) (\<lambda>c. c\<lparr>activo := False\<rparr>) s"

definition CategoryService_listSubcategories :: "int \<Rightarrow> db \<Rightarrow> categoria list" where
  "CategoryService_listSubcategories idPadre s =
     findMany (\<lambda>c. categoriaPadreId c = Some idPadre \<and> activo c) (t_categorias s)"

definition CategoryService_listRootCategories :: "db \<Rightarrow> categoria list" where
  "CategoryService_listRootCategories s =
     findMany (\<lambda>c. categoriaPadreId c = None \<and> activo c) (t_categorias s)"

section \<open>UserService\<close>

text \<open>The four lookups add \<open>activo = true\<close> to the \<open>where\<close> clause unless \<open>includeInactive\<close>
  is set.\<close>

definition UserService_findById :: "int \<Rightarrow> bool \<Rightarrow> db \<Rightarrow> usuario option" where
  "UserService_findById i includeInactive s =
     findUnique (\<lambda>u. base.id' u = i \<and> (includeInactive \<or> activo u)) (t_usuarios s)"

definition UserService_findAll :: "bool \<Rightarrow> db \<Rightarrow> usuario list" where
  "UserService_findAll includeInactive s =
     findMany (\<lambda>u. includeInactive \<or> activo u) (t_usuarios s)"

definition UserService_findByUserName :: "string \<Rightarrow> bool \<Rightarrow> db \<Rightarrow> usuario option" where
  "UserService_findByUserName un includeInactive s =
     findFirst (\<lambda>u. userName u = Some un \<and> (includeInactive \<or> activo u)) (t_usuarios s)"

definition UserService_findByEmail :: "string \<Rightarrow> bool \<Rightarrow> db \<Rightarrow> usuario option" where
  "UserService_findByEmail em includeInactive s =
     findFirst (\<lambda>u. usuario.email u = em \<and> (includeInactive \<or> activo u)) (t_usuarios s)"

text \<open>\<open>uniqueId\<close> is the value of \<open>uuidv4()\<close>, \<open>ahora\<close> the value of \<open>new Date()\<close>.\<close>

definition UserService_deactivateAccount :: "string \<Rightarrow> int \<Rightarrow> int \<Rightarrow> db \<Rightarrow> usuario resultado" where
  "UserService_deactivateAccount uniqueId ahora uid s =
     (case findUnique (\<lambda>u. base.id' u = uid) (t_usuarios s) of
        None \<Rightarrow> (Inl (UsuarioNoEncontrado uid), s)
      | Some usuario \<Rightarrow>
          if \<not> activo usuario then (Inl CuentaYaDesactivada, s)
          else
            (let deactivatedEmail = ''deactivated_'' @ uniqueId @ ''@ecommerce.com'';
                 deactivatedUserName = ''deactivated_'' @ uniqueId
             in usuario_update (\<lambda>u. base.id' u = uid)
                  (\<lambda>u. u\<lparr>activo := False, usuario.email := deactivatedEmail,
                          userName := Some deactivatedUserName,
                          fechaBaja := Some ahora, fechaModificacion := ahora\<rparr>) s))"

definition UserService_reactivateAccount :: "int \<Rightarrow> int \<Rightarrow> string \<Rightarrow> string \<Rightarrow> db \<Rightarrow> usuario resultado" where
  "UserService_reactivateAccount ahora uid newEmail newUserName s =
     (case findUnique (\<lambda>u. base.id' u = uid) (t_usuarios s) of
        None \<Rightarrow> (Inl (UsuarioNoEncontrado uid), s)
      | Some usuario \<Rightarrow>
          if activo usuario then (Inl CuentaYaActiva, s)
          else
            (let existingUserByEmail =
                   findFirst (\<lambda>u. usuario.email u = newEmail \<and> activo u) (t_usuarios s)
             in if (case existingUserByEmail of None \<Rightarrow> False | Some u \<Rightarrow> base.id' u \<noteq> uid)
                then (Inl EmailEnUso, s)
                else
                  (let existingUserByUsername =
                         findFirst (\<lambda>u. userName u = Some newUserName \<and> activo u) (t_usuarios s)
                   in if (case existingUserByUsername of
                            None \<Rightarrow> False | Some u \<Rightarrow> base.id' u \<noteq> uid)
                      then (Inl UserNameEnUso, s)
                      else
                        usuario_update (\<lambda>u. base.id' u = uid)
                          (\<lambda>u. u\<lparr>activo := True, fechaBaja := None,
                                  usuario.email := newEmail, userName := Some newUserName,
                                  fechaModificacion := ahora\<rparr>) s)))"

text \<open>\<open>mapToDomicilioDTO\<close> copies the id, the address fields and the locality; the DTO has
  no \<open>activo\<close>.\<close>

definition mapToDomicilioDTO :: "direccion \<Rightarrow> addressResponseDTO" where
  "mapToDomicilioDTO d = \<lparr>addressResponseDTO.id' = base.id' d, localidad = localidadId d\<rparr>"

text \<open>\<open>getDireccionesByUserId\<close> reads the addresses through
  \<open>include: { direcciones: ... }\<close> on the user.\<close>

definition UserService_getDireccionesByUserId :: "int \<Rightarrow> db \<Rightarrow> error + addressResponseDTO list" where
  "UserService_getDireccionesByUserId uid s =
     (case findUnique (\<lambda>u. base.id' u = uid \<and> activo u) (t_usuarios s) of
        None \<Rightarrow> Inl (UsuarioNoEncontradoOInactivo uid)
      | Some usuario \<Rightarrow>
          Inr (map mapToDomicilioDTO
                 (findMany (\<lambda>d. direccion.usuarioId d = Some (base.id' usuario)) (t_direcciones s))))"

definition UserService_removeDireccionFromUser :: "int \<Rightarrow> int \<Rightarrow> db \<Rightarrow> unit resultado" where
  "UserService_removeDireccionFromUser uid direccionId s =
     (case findUnique (\<lambda>u. base.id' u = uid \<and> activo u) (t_usuarios s) of
        None \<Rightarrow> (Inl (UsuarioNoEncontradoOInactivo uid), s)
      | Some usuario \<Rightarrow>
          (case findUnique (\<lambda>d. base.id' d = direccionId \<and> direccion.usuarioId d = Some uid)
                  (t_direcciones s) of
             None \<Rightarrow> (Inl (DireccionNoEncontrada direccionId uid), s)
           | Some existingDireccion \<Rightarrow>
               entonces (direccion_delete (\<lambda>d. base.id' d = direccionId) s)
                 (\<lambda>_ s1. (Inr (), s1))))"

text \<open>\<open>mapToUserDTO\<close>, on the user loaded with its addresses.\<close>

definition incluirDirecciones :: "db \<Rightarrow> usuario \<Rightarrow> usuarioConRelaciones" where
  "incluirDirecciones s u =
     usuario.extend u
       (usuarioConRelaciones.fields
          (findMany (\<lambda>d. direccion.usuarioId d = Some (base.id' u)) (t_direcciones s)))"

definition mapToUserDTO :: "usuarioConRelaciones \<Rightarrow> userResponseDTO" where
  "mapToUserDTO usuario =
     \<lparr>userResponseDTO.id' = base.id' usuario,
      email = usuario.email usuario,
      addresses = map mapToDomicilioDTO (direcciones usuario),
      activo = base.activo usuario\<rparr>"

text \<open>The loop \<open>for (const addressPayload of data.addresses)\<close> of \<open>updateProfile\<close>: an address
  with an id is updated, one without is created. \<open>addressPayload.id\<close> is tested for
  truthiness.\<close>

fun procesarDirecciones :: "int \<Rightarrow> addressPayload list \<Rightarrow> db \<Rightarrow> unit resultado" where
  "procesarDirecciones uid [] s = (Inr (), s)"
| "procesarDirecciones uid (addressPayload # resto) s =
     entonces
       (if \<not> falsy (addressPayload.id' addressPayload)
        then entonces
               (direccion_update_localidad
                  (\<lambda>d. base.id' d = the (addressPayload.id' addressPayload) \<and>
                        direccion.usuarioId d = Some uid)
                  (addressPayload.localidad addressPayload) s)
               (\<lambda>_ s1. (Inr (), s1))
        else entonces
               (direccion_create (addressPayload.localidad addressPayload) uid s)
               (\<lambda>_ s1. (Inr (), s1)))
       (\<lambda>_ s1. procesarDirecciones uid resto s1)"

text \<open>\<open>updateProfile\<close>. Of \<open>updateData\<close> the columns kept here get \<open>fechaModificacion\<close>;
  \<open>usuario.direcciones\<close> are the addresses loaded with the user at the start.\<close>

definition UserService_updateProfile ::
  "int \<Rightarrow> int \<Rightarrow> updateUserProfilePayload \<Rightarrow> db \<Rightarrow> userResponseDTO resultado" where
  "UserService_updateProfile ahora uid data s =
     (case findUnique (\<lambda>u. base.id' u = uid) (t_usuarios s) of
        None \<Rightarrow> (Inl (UsuarioNoEncontrado uid), s)
      | Some usuario \<Rightarrow>
          if \<not> base.activo usuario then (Inl CuentaDesactivadaNoModificable, s)
          else
            entonces
              (case updateUserProfilePayload.addresses data of
                 None \<Rightarrow> (Inr (), s)
               | Some addrs \<Rightarrow>
                   if length addrs = 0
                   then entonces
                          (direccion_deleteMany (\<lambda>d. direccion.usuarioId d = Some uid) s)
                          (\<lambda>_ s1. (Inr (), s1))
                   else
                     (let idsToKeep = map (\<lambda>addr. the (addressPayload.id' addr))
                                        (filter (\<lambda>addr. \<not> falsy (addressPayload.id' addr)) addrs);
                          idsToDelete =
                            map base.id'
                              (filter (\<lambda>existingAddr. base.id' existingAddr \<notin> set idsToKeep)
                                 (direcciones (incluirDirecciones s usuario)))
                      in entonces
                           (if length idsToDelete > 0
                            then entonces
                                   (direccion_deleteMany
                                      (\<lambda>d. base.id' d \<in> set idsToDelete \<and>
                                            direccion.usuarioId d = Some uid) s)
                                   (\<lambda>_ s1. (Inr (), s1))
                            else (Inr (), s))
                           (\<lambda>_ s1. procesarDirecciones uid addrs s1)))
              (\<lambda>_ s1.
                 entonces
                   (usuario_update (\<lambda>u. base.id' u = uid)
                      (\<lambda>u. u\<lparr>fechaModificacion := ahora\<rparr>) s1)
                   (\<lambda>updatedUsuario s2.
                      (Inr (mapToUserDTO (incluirDirecciones s2 updatedUsuario)), s2))))"

section \<open>Vocabulary of the properties\<close>

text \<open>The second of the local day at the instant \<open>hoy\<close>, as \<open>calcularPrecioFinal\<close> computes
  \<open>horaActualSegundos\<close>.\<close>

definition horaLocalSegundos :: "int \<Rightarrow> int \<Rightarrow> int" where
  "horaLocalSegundos tz hoy = getHours tz hoy * 3600 + getMinutes tz hoy * 60 + getSeconds tz hoy"

text \<open>The discount window in the words of the specification: a date range and a time range.
  The instant lies inside the window of a discount when its local calendar day is not before
  the day \<open>fechaDesde\<close> and not after the day \<open>fechaHasta\<close>, and its local time of day is
  not before \<open>horaDesde\<close> and not after \<open>horaHasta\<close>; a bound that is \<open>null\<close> does not
  restrict. \<open>calcularPrecioFinal\<close> is compared with this definition below; the function itself
  is \<open>descuentoVigente\<close>.\<close>

definition dentroDeVentana :: "int \<Rightarrow> int \<Rightarrow> descuento \<Rightarrow> bool" where
  "dentroDeVentana tz hoy d =
     ((case fechaDesde d of None \<Rightarrow> True | Some f \<Rightarrow> f div msPorDia \<le> (hoy + tz) div msPorDia) \<and>
      (case fechaHasta d of None \<Rightarrow> True | Some f \<Rightarrow> (hoy + tz) div msPorDia \<le> f div msPorDia) \<and>
      (case horaDesde d of None \<Rightarrow> True | Some h \<Rightarrow> segundosUTC h \<le> horaLocalSegundos tz hoy) \<and>
      (case horaHasta d of None \<Rightarrow> True | Some h \<Rightarrow> horaLocalSegundos tz hoy \<le> segundosUTC h))"

text \<open>The ids of the rows of every table: a row that is physically deleted loses its id here.\<close>

definition idsPorTabla :: "db \<Rightarrow> int list list" where
  "idsPorTabla s =
     [map base.id' (t_categorias s), map base.id' (t_descuentos s), map base.id' (t_direcciones s),
      map base.id' (t_imagen s), map base.id' (t_localidades s), map base.id' (t_orden_compra s),
      map base.id' (t_orden_compra_detalle s), map base.id' (t_productos s),
      map base.id' (t_producto_detalle s), map base.id' (t_provincias s),
      map base.id' (t_usuarios s)]"

text \<open>\<open>stockActual\<close> and \<open>cantidad\<close> are \<open>INT\<close> columns: 32 bits, signed. The writes above
  take any integer; the database rejects the write of a value outside this range.\<close>

definition enRangoINT :: "int \<Rightarrow> bool" where
  "enRangoINT n = (- 2147483648 \<le> n \<and> n \<le> 2147483647)"

text \<open>A table before and after a change of its row \<open>i\<close> only: row by row, the id is as
  before, and a row with another id is the same row.\<close>

definition soloCambiaFila :: "int \<Rightarrow> 'a base_scheme list \<Rightarrow> 'a base_scheme list \<Rightarrow> bool" where
  "soloCambiaFila i t t' =
     list_all2 (\<lambda>a b. base.id' b = base.id' a \<and> (base.id' a \<noteq> i \<longrightarrow> b = a)) t t'"

text \<open>What holds of a soft delete of the row \<open>i\<close> of \<open>tabla\<close>, from \<open>s\<close> to the outcome \<open>res\<close>,
  whether it succeeds or fails: no table has lost or gained a row, and a row that is
  returned is the row \<open>i\<close>, is in the table and is inactive. The second form is for the
  operations that return \<open>null\<close> when there is nothing to deactivate.\<close>

definition sinBorrarFilas :: "(db \<Rightarrow> 'a base_scheme list) \<Rightarrow> int \<Rightarrow> db \<Rightarrow> 'a base_scheme resultado \<Rightarrow> bool" where
  "sinBorrarFilas tabla i s res =
     (idsPorTabla (snd res) = idsPorTabla s \<and>
      (case fst res of
         Inl e \<Rightarrow> True
       | Inr r \<Rightarrow> base.id' r = i \<and> \<not> activo r \<and> r \<in> set (tabla (snd res))))"

definition sinBorrarFilasONull ::
  "(db \<Rightarrow> 'a base_scheme list) \<Rightarrow> int \<Rightarrow> db \<Rightarrow> 'a base_scheme option resultado \<Rightarrow> bool" where
  "sinBorrarFilasONull tabla i s res =
     (idsPorTabla (snd res) = idsPorTabla s \<and>
      (case fst res of
         Inl e \<Rightarrow> True
       | Inr None \<Rightarrow> True
       | Inr (Some r) \<Rightarrow> base.id' r = i \<and> \<not> activo r \<and> r \<in> set (tabla (snd res))))"

text \<open>A soft delete of the row \<open>i\<close> of \<open>tabla\<close>: the above, and when \<open>posible\<close> holds (the
  conditions under which the operation has to succeed) the operation returns \<open>fila\<close>,
  which is inactive, \<open>fila\<close> is what a search for the id \<open>i\<close> now finds, and the other rows
  of the table are as before.\<close>

definition borradoLogico ::
  "(db \<Rightarrow> 'a base_scheme list) \<Rightarrow> int \<Rightarrow> bool \<Rightarrow> 'a base_scheme \<Rightarrow> db \<Rightarrow> 'a base_scheme resultado \<Rightarrow> bool" where
  "borradoLogico tabla i posible fila s res =
     (sinBorrarFilas tabla i s res \<and>
      (posible \<longrightarrow>
         fst res = Inr fila \<and> \<not> activo fila \<and>
         findUnique (\<lambda>r. base.id' r = i) (tabla (snd res)) = Some fila \<and>
         soloCambiaFila i (tabla s) (tabla (snd res))))"

definition borradoLogicoONull ::
  "(db \<Rightarrow> 'a base_scheme list) \<Rightarrow> int \<Rightarrow> bool \<Rightarrow> 'a base_scheme \<Rightarrow> db
     \<Rightarrow> 'a base_scheme option resultado \<Rightarrow> bool" where
  "borradoLogicoONull tabla i posible fila s res =
     (sinBorrarFilasONull tabla i s res \<and>
      (posible \<longrightarrow>
         fst res = Inr (Some fila) \<and> \<not> activo fila \<and>
         findUnique (\<lambda>r. base.id' r = i) (tabla (snd res)) = Some fila \<and>
         soloCambiaFila i (tabla s) (tabla (snd res))))"

text \<open>The results of the queries: a list of rows that are all active, a row that is active
  or \<open>null\<close>, a list of product DTOs (which have no \<open>activo\<close>) that each carry the id of an
  active product.\<close>

definition todasActivas :: "'a base_scheme list \<Rightarrow> bool" where
  "todasActivas rs = list_all activo rs"

definition activaONull :: "'a base_scheme option \<Rightarrow> bool" where
  "activaONull r = (case r of None \<Rightarrow> True | Some x \<Rightarrow> activo x)"

definition deProductosActivos :: "db \<Rightarrow> productoDTO list \<Rightarrow> bool" where
  "deProductosActivos s dtos =
     list_all (\<lambda>dto. list_ex (\<lambda>p. base.id' p = productoDTO.id' dto \<and> activo p) (t_productos s)) dtos"

section \<open>Example data\<close>

text \<open>A discount whose two hours are midnight (\<open>TIME 00:00:00\<close>), valid from 2025-06-01 to
  2025-06-30, for 20 percent; and a discount for the single day 2025-06-10, from 00:00:01 to
  23:59:59. \<open>1750001400000\<close> is 2025-06-15 15:30:00 UTC, \<open>1749549600000\<close> is
  2025-06-10 10:00:00 UTC and \<open>1749636000000\<close> is 2025-06-11 10:00:00 UTC.\<close>

definition descuentoMedianoche :: descuento where
  "descuentoMedianoche =
     \<lparr>base.id' = 1, activo = True,
      fechaDesde = Some 1748736000000, fechaHasta = Some 1751241600000,
      horaDesde = Some 0, horaHasta = Some 0, precioPromocional = 1 / 5\<rparr>"

definition productoMedianoche :: productoConRelaciones where
  "productoMedianoche =
     \<lparr>base.id' = 1, activo = True, precioVenta = 100, tienePromocion = True, descuentoIds = [1],
      productos_detalles = [], descuentos = [descuentoMedianoche]\<rparr>"

definition descuentoUnDia :: descuento where
  "descuentoUnDia =
     \<lparr>base.id' = 2, activo = True,
      fechaDesde = Some 1749513600000, fechaHasta = Some 1749513600000,
      horaDesde = Some 1000, horaHasta = Some 86399000, precioPromocional = 1 / 5\<rparr>"

definition productoUnDia :: productoConRelaciones where
  "productoUnDia =
     \<lparr>base.id' = 2, activo = True, precioVenta = 100, tienePromocion = True, descuentoIds = [2],
      productos_detalles = [], descuentos = [descuentoUnDia]\<rparr>"

text \<open>A small database: three users (the third deactivated), one order of the first user
  with three lines (the last two deactivated) on the first of two variants (the second
  deactivated) of one product, and two addresses of the first user (the second deactivated).\<close>

definition usuarioAna :: usuario where
  "usuarioAna = \<lparr>base.id' = 1, activo = True, userName = Some ''ana'',
                  email = ''ana@example.com'', rol = CLIENTE, fechaBaja = None,
                  fechaModificacion = 0\<rparr>"

definition usuarioLuis :: usuario where
  "usuarioLuis = \<lparr>base.id' = 2, activo = True, userName = Some ''luis'',
                   email = ''luis@example.com'', rol = CLIENTE, fechaBaja = None,
                   fechaModificacion = 0\<rparr>"

definition usuarioBaja :: usuario where
  "usuarioBaja = \<lparr>base.id' = 3, activo = False, userName = Some ''deactivated_7'',
                   email = ''deactivated_7@ecommerce.com'', rol = CLIENTE, fechaBaja = Some 5,
                   fechaModificacion = 5\<rparr>"

definition ordenEjemplo :: ordenCompra where
  "ordenEjemplo = \<lparr>base.id' = 1, activo = True, total = 30, fechaCompra = 0,
                    direccionEnvio = ''Calle 1'', usuarioId = 1\<rparr>"

definition varianteRoja :: productoDetalle where
  "varianteRoja = \<lparr>base.id' = 1, activo = True, precioCompra = 10, stockActual = 5,
                    color = ROJO, talle = M, productoId = 1\<rparr>"

definition varianteBaja :: productoDetalle where
  "varianteBaja = \<lparr>base.id' = 2, activo = False, precioCompra = 7, stockActual = 2,
                    color = AZUL, talle = L, productoId = 1\<rparr>"

definition lineaActiva :: ordenCompraDetalle where
  "lineaActiva = \<lparr>base.id' = 1, activo = True, cantidad = 3, subtotal = 30,
                   ordenCompraId = 1, productoDetalleId = 1\<rparr>"

definition lineaBaja :: ordenCompraDetalle where
  "lineaBaja = \<lparr>base.id' = 2, activo = False, cantidad = 4, subtotal = 40,
                 ordenCompraId = 1, productoDetalleId = 1\<rparr>"

definition lineaGrande :: ordenCompraDetalle where
  "lineaGrande = \<lparr>base.id' = 3, activo = False, cantidad = 9, subtotal = 90,
                   ordenCompraId = 1, productoDetalleId = 1\<rparr>"

definition productoEjemplo :: producto where
  "productoEjemplo = \<lparr>base.id' = 1, activo = True, precioVenta = 100, tienePromocion = True,
                       descuentoIds = [1]\<rparr>"

definition direccionActiva :: direccion where
  "direccionActiva = \<lparr>base.id' = 5, activo = True, localidadId = 1, usuarioId = Some 1\<rparr>"

definition direccionBaja :: direccion where
  "direccionBaja = \<lparr>base.id' = 6, activo = False, localidadId = 1, usuarioId = Some 1\<rparr>"

definition dbEjemplo :: db where
  "dbEjemplo =
     \<lparr>t_categorias = [\<lparr>base.id' = 1, activo = True, categoriaPadreId = None\<rparr>],
      t_descuentos = [descuentoMedianoche],
      t_direcciones = [direccionActiva, direccionBaja],
      t_imagen = [\<lparr>base.id' = 1, activo = True\<rparr>],
      t_localidades = [\<lparr>base.id' = 1, activo = True, provinciaId = 1\<rparr>],
      t_orden_compra = [ordenEjemplo],
      t_orden_compra_detalle = [lineaActiva, lineaBaja, lineaGrande],
      t_productos = [productoEjemplo],
      t_producto_detalle = [varianteRoja, varianteBaja],
      t_provincias = [\<lparr>base.id' = 1, activo = True, nombre = ''Mendoza''\<rparr>],
      t_usuarios = [usuarioAna, usuarioLuis, usuarioBaja],
      escriturasHastaFallo = None\<rparr>"

definition clienteAna :: authUser where
  "clienteAna = \<lparr>authUser.id' = 1, email = ''ana@example.com'', rol = CLIENTE\<rparr>"

definition clienteLuis :: authUser where
  "clienteLuis = \<lparr>authUser.id' = 2, email = ''luis@example.com'', rol = CLIENTE\<rparr>"

definition pedidoLinea :: detallePayload where
  "pedidoLinea = \<lparr>detalleNestedPayload.productoDetalleId = 1, cantidad = 2,
                   detallePayload.ordenCompraId = 1\<rparr>"

definition pedidoOrden :: ordenCompraPayload where
  "pedidoOrden = \<lparr>ordenCompraPayload.direccionEnvio = ''Calle 1'',
                   detalles = Some [\<lparr>detalleNestedPayload.productoDetalleId = 1, cantidad = 2\<rparr>],
                   userId = 1\<rparr>"

definition pedidoVacio :: ordenCompraPayload where
  "pedidoVacio = \<lparr>ordenCompraPayload.direccionEnvio = ''Calle 1'', detalles = Some [], userId = 1\<rparr>"

text \<open>The line that the first request creates.\<close>

definition lineaNueva :: ordenCompraDetalle where
  "lineaNueva = \<lparr>base.id' = 4, activo = True, cantidad = 2, subtotal = 20,
                  ordenCompraId = 1, productoDetalleId = 1\<rparr>"

text \<open>A profile update that sends an empty list of addresses.\<close>

definition perfilSinDirecciones :: updateUserProfilePayload where
  "perfilSinDirecciones = \<lparr>updateUserProfilePayload.addresses = Some []\<rparr>"

text \<open>A profile update that sends one address, the one with id 5.\<close>

definition perfilUnaDireccion :: updateUserProfilePayload where
  "perfilUnaDireccion =
     \<lparr>updateUserProfilePayload.addresses = Some [\<lparr>addressPayload.id' = Some 5, localidad = 1\<rparr>]\<rparr>"

lemmas ejemplos = usuarioAna_def usuarioLuis_def usuarioBaja_def ordenEjemplo_def varianteRoja_def
  varianteBaja_def lineaActiva_def lineaBaja_def lineaGrande_def productoEjemplo_def direccionActiva_def
  direccionBaja_def dbEjemplo_def clienteAna_def clienteLuis_def pedidoLinea_def descuentoMedianoche_def
  pedidoOrden_def pedidoVacio_def lineaNueva_def perfilSinDirecciones_def
  perfilUnaDireccion_def

section \<open>Properties of the price calculation\<close>

lemma aplicarDescuento_le: "aplicarDescuento pa f h acc d \<le> acc"
  by (simp add: aplicarDescuento_def Let_def)

lemma foldl_aplicarDescuento_le: "foldl (aplicarDescuento pa f h) acc ds \<le> acc"
proof (induction ds arbitrary: acc)
  case Nil
  show ?case by simp
next
  case (Cons d ds)
  have "foldl (aplicarDescuento pa f h) (aplicarDescuento pa f h acc d) ds
          \<le> aplicarDescuento pa f h acc d"
    by (rule Cons.IH)
  also have "\<dots> \<le> acc" by (rule aplicarDescuento_le)
  finally show ?case by simp
qed

text \<open>C9. The price returned by \<open>calcularPrecioFinal\<close> is never greater than the product's
  \<open>precioVenta\<close>, for every product, every list of discounts, every instant and every
  time zone: the loop only replaces the accumulator by a smaller price.\<close>

theorem calcularPrecioFinal_le_precioVenta:
  "calcularPrecioFinal tz hoy p \<le> precioVenta p"
  by (simp add: calcularPrecioFinal_def Let_def foldl_aplicarDescuento_le)

text \<open>The theorem at the example product, whose price is 100.\<close>

theorem calcularPrecioFinal_le_precioVenta_witness:
  "calcularPrecioFinal 0 1750001400000 productoMedianoche \<le> 100"
  using calcularPrecioFinal_le_precioVenta[of 0 1750001400000 productoMedianoche]
  by (simp add: productoMedianoche_def)

subsection \<open>The loop computes a minimum\<close>

lemma Min_insert_min:
  fixes a b :: real
  assumes "finite A"
  shows "Min (insert (min a b) A) = Min (insert b (insert a A))"
proof (cases "A = {}")
  case True
  then show ?thesis by (simp add: min.commute)
next
  case False
  with assms show ?thesis by (simp add: min.assoc min.commute min.left_commute)
qed

lemma aplicarDescuento_min:
  "aplicarDescuento pa f h acc d =
     (if descuentoVigente f h d then min (pa * (1 - precioPromocional d)) acc else acc)"
  by (simp add: aplicarDescuento_def Let_def min_def)

lemma foldl_aplicarDescuento_Min:
  "foldl (aplicarDescuento pa f h) acc ds =
     Min (insert acc ((\<lambda>d. pa * (1 - precioPromocional d)) ` {d \<in> set ds. descuentoVigente f h d}))"
proof (induction ds arbitrary: acc)
  case Nil
  show ?case by simp
next
  case (Cons d ds)
  let ?g = "\<lambda>d. pa * (1 - precioPromocional d)"
  let ?A = "?g ` {x \<in> set ds. descuentoVigente f h x}"
  have fin: "finite ?A" by simp
  show ?case
  proof (cases "descuentoVigente f h d")
    case True
    then have set_eq: "?g ` {x \<in> set (d # ds). descuentoVigente f h x} = insert (?g d) ?A"
      by auto
    have paso: "aplicarDescuento pa f h acc d = min (?g d) acc"
      using True by (simp add: aplicarDescuento_min)
    have "foldl (aplicarDescuento pa f h) acc (d # ds) = Min (insert (min (?g d) acc) ?A)"
      by (simp only: foldl.simps paso Cons.IH)
    also have "\<dots> = Min (insert acc (insert (?g d) ?A))"
      using fin by (rule Min_insert_min)
    finally show ?thesis by (simp only: set_eq)
  next
    case False
    then have set_eq: "?g ` {x \<in> set (d # ds). descuentoVigente f h x} = ?A"
      by auto
    have paso: "aplicarDescuento pa f h acc d = acc"
      using False by (simp add: aplicarDescuento_min)
    show ?thesis by (simp only: set_eq foldl.simps paso Cons.IH)
  qed
qed

lemma calcularPrecioFinal_Min:
  "calcularPrecioFinal tz hoy p =
     (if \<not> producto.tienePromocion p then precioVenta p
      else Min (insert (precioVenta p)
             ((\<lambda>d. precioVenta p * (1 - precioPromocional d)) `
                {d \<in> set (descuentos p).
                   descuentoVigente (medianocheLocal tz hoy) (horaLocalSegundos tz hoy) d})))"
  by (cases "descuentos p = []")
     (simp_all add: calcularPrecioFinal_def Let_def foldl_aplicarDescuento_Min horaLocalSegundos_def)

subsection \<open>The test of the loop and the discount window\<close>

text \<open>West of Greenwich (\<open>- 24 h < tz \<le> 0\<close>) the comparison of the local midnight with the
  UTC bounds of the dates agrees with the comparison of the calendar days.\<close>

lemma segundosUTC_nonneg: "0 \<le> segundosUTC d"
  unfolding segundosUTC_def getUTCHours_def getUTCMinutes_def getUTCSeconds_def msPorDia_def
  by (simp add: pos_imp_zdiv_nonneg_iff)

lemma horaLocal_nonneg: "0 \<le> horaLocalSegundos tz hoy"
  using segundosUTC_nonneg[of "hoy + tz"]
  by (simp add: horaLocalSegundos_def segundosUTC_def getHours_def getMinutes_def getSeconds_def)

lemma dias_desde:
  fixes x y D tz :: int
  assumes "0 < D" "- D < tz" "tz \<le> 0"
  shows "(y * D \<le> x * D - tz) = (y \<le> x)"
proof
  assume h: "y * D \<le> x * D - tz"
  show "y \<le> x"
  proof (rule ccontr)
    assume "\<not> y \<le> x"
    then have "x + 1 \<le> y" by simp
    then have "(x + 1) * D \<le> y * D" using assms(1) by (simp only: mult_right_mono)
    then have "x * D + D \<le> y * D" by (simp add: algebra_simps)
    with h assms(2) show False by simp
  qed
next
  assume "y \<le> x"
  then have "y * D \<le> x * D" using assms(1) by (simp add: mult_right_mono)
  with assms(3) show "y * D \<le> x * D - tz" by simp
qed

lemma dias_hasta:
  fixes x y D tz :: int
  assumes "0 < D" "- D < tz" "tz \<le> 0"
  shows "(x * D - tz \<le> y * D + (D - 1)) = (x \<le> y)"
proof
  assume h: "x * D - tz \<le> y * D + (D - 1)"
  show "x \<le> y"
  proof (rule ccontr)
    assume "\<not> x \<le> y"
    then have "y + 1 \<le> x" by simp
    then have "(y + 1) * D \<le> x * D" using assms(1) by (simp only: mult_right_mono)
    then have "y * D + D \<le> x * D" by (simp add: algebra_simps)
    with h assms(3) show False by simp
  qed
next
  assume "x \<le> y"
  then have "x * D \<le> y * D" using assms(1) by (simp add: mult_right_mono)
  with assms(2) show "x * D - tz \<le> y * D + (D - 1)" by simp
qed

lemma fin_no_cero: "setUTCHours_fin f \<noteq> 0"
proof
  assume "setUTCHours_fin f = 0"
  then have "(f div 86400000) * 86400000 = (- 86399999 :: int)"
    by (simp add: setUTCHours_fin_def msPorDia_def)
  then have "(- 86399999 :: int) mod 86400000 = 0"
    by (metis mod_mult_self2_is_0)
  then show False by simp
qed

lemma desde_ok:
  assumes "- msPorDia < tz" "tz \<le> 0"
  shows "(medianocheLocal tz hoy \<ge> setUTCHours_inicio f) = (f div msPorDia \<le> (hoy + tz) div msPorDia)"
  unfolding medianocheLocal_def setUTCHours_inicio_def
  using dias_desde[of msPorDia tz "f div msPorDia" "(hoy + tz) div msPorDia"] assms
  by (simp add: msPorDia_def)

lemma hasta_ok:
  assumes "- msPorDia < tz" "tz \<le> 0"
  shows "(medianocheLocal tz hoy \<le> setUTCHours_fin f) = ((hoy + tz) div msPorDia \<le> f div msPorDia)"
  unfolding medianocheLocal_def setUTCHours_inicio_def setUTCHours_fin_def
  using dias_hasta[of msPorDia tz "(hoy + tz) div msPorDia" "f div msPorDia"] assms
  by (simp add: msPorDia_def)

text \<open>Under three conditions the test of the loop is the window of the specification: the
  server is at or west of UTC, the instant is not before 1970 in local time, and
  \<open>horaHasta\<close> is not midnight.\<close>

lemma vigente_ventana:
  assumes "- msPorDia < tz" "tz \<le> 0" "0 \<le> hoy + tz"
    and "\<forall>h. horaHasta d = Some h \<longrightarrow> segundosUTC h \<noteq> 0"
  shows "descuentoVigente (medianocheLocal tz hoy) (horaLocalSegundos tz hoy) d = dentroDeVentana tz hoy d"
proof -
  have dia0: "0 \<le> (hoy + tz) div msPorDia"
    using assms(3) by (simp add: msPorDia_def pos_imp_zdiv_nonneg_iff)
  have a: "(falsy (map_option setUTCHours_inicio (fechaDesde d)) \<or>
            medianocheLocal tz hoy \<ge> the (map_option setUTCHours_inicio (fechaDesde d)))
         = (case fechaDesde d of None \<Rightarrow> True | Some f \<Rightarrow> f div msPorDia \<le> (hoy + tz) div msPorDia)"
  proof (cases "fechaDesde d")
    case None
    then show ?thesis by (simp add: falsy_def)
  next
    case (Some f)
    show ?thesis
    proof (cases "setUTCHours_inicio f = 0")
      case True
      then have "f div msPorDia = 0" by (simp add: setUTCHours_inicio_def msPorDia_def)
      with True Some dia0 show ?thesis by (simp add: falsy_def)
    next
      case False
      with Some show ?thesis using desde_ok[OF assms(1,2), where hoy=hoy and f=f] by (simp add: falsy_def)
    qed
  qed
  have b: "(falsy (map_option setUTCHours_fin (fechaHasta d)) \<or>
            medianocheLocal tz hoy \<le> the (map_option setUTCHours_fin (fechaHasta d)))
         = (case fechaHasta d of None \<Rightarrow> True | Some f \<Rightarrow> (hoy + tz) div msPorDia \<le> f div msPorDia)"
  proof (cases "fechaHasta d")
    case None
    then show ?thesis by (simp add: falsy_def)
  next
    case (Some f)
    then show ?thesis using hasta_ok[OF assms(1,2), where hoy=hoy and f=f] fin_no_cero[of f] by (simp add: falsy_def)
  qed
  have c: "(falsy (map_option segundosUTC (horaDesde d)) \<or>
            horaLocalSegundos tz hoy \<ge> the (map_option segundosUTC (horaDesde d)))
         = (case horaDesde d of None \<Rightarrow> True | Some h \<Rightarrow> segundosUTC h \<le> horaLocalSegundos tz hoy)"
    using horaLocal_nonneg[of tz hoy] by (cases "horaDesde d") (auto simp: falsy_def)
  have e: "(falsy (map_option segundosUTC (horaHasta d)) \<or>
            horaLocalSegundos tz hoy \<le> the (map_option segundosUTC (horaHasta d)))
         = (case horaHasta d of None \<Rightarrow> True | Some h \<Rightarrow> horaLocalSegundos tz hoy \<le> segundosUTC h)"
    using assms(4) by (cases "horaHasta d") (auto simp: falsy_def)
  show ?thesis
    unfolding descuentoVigente_def dentroDeVentana_def Let_def a b c e by simp
qed

text \<open>Then \<open>calcularPrecioFinal\<close> returns \<open>precioVenta\<close> when the product has no promotion or
  the instant is outside every window, and otherwise the lowest of \<open>precioVenta\<close> and the
  discounted prices of the discounts whose window holds the instant.\<close>

lemma calcularPrecioFinal_segun_ventana:
  assumes "- msPorDia < tz" "tz \<le> 0" "0 \<le> hoy + tz"
    and "\<forall>d \<in> set (descuentos p). \<forall>h. horaHasta d = Some h \<longrightarrow> segundosUTC h \<noteq> 0"
  shows "calcularPrecioFinal tz hoy p =
     (if \<not> producto.tienePromocion p \<or> \<not> (\<exists>d \<in> set (descuentos p). dentroDeVentana tz hoy d)
      then precioVenta p
      else Min (insert (precioVenta p)
             ((\<lambda>d. precioVenta p * (1 - precioPromocional d)) `
                {d \<in> set (descuentos p). dentroDeVentana tz hoy d})))"
proof -
  have eq: "{d \<in> set (descuentos p).
              descuentoVigente (medianocheLocal tz hoy) (horaLocalSegundos tz hoy) d}
          = {d \<in> set (descuentos p). dentroDeVentana tz hoy d}"
    using assms by (auto simp: vigente_ventana)
  show ?thesis
  proof (cases "\<exists>d \<in> set (descuentos p). dentroDeVentana tz hoy d")
    case True
    then show ?thesis by (simp add: calcularPrecioFinal_Min eq)
  next
    case False
    then have vacio: "{d \<in> set (descuentos p). dentroDeVentana tz hoy d} = {}" by auto
    show ?thesis using False by (simp add: calcularPrecioFinal_Min eq vacio)
  qed
qed

subsection \<open>Outside these conditions\<close>

lemma hora_ej: "horaLocalSegundos 0 1750001400000 = 55800"
  by (simp add: horaLocalSegundos_def getHours_def getMinutes_def getSeconds_def
      getUTCHours_def getUTCMinutes_def getUTCSeconds_def msPorDia_def)

lemma ej1: "\<not> dentroDeVentana 0 1750001400000 descuentoMedianoche"
  by (simp add: dentroDeVentana_def descuentoMedianoche_def hora_ej segundosUTC_def
      getUTCHours_def getUTCMinutes_def getUTCSeconds_def msPorDia_def)

lemma ej2: "calcularPrecioFinal 0 1750001400000 productoMedianoche = 80"
  by (simp add: calcularPrecioFinal_def productoMedianoche_def descuentoMedianoche_def Let_def
      aplicarDescuento_def descuentoVigente_def falsy_def medianocheLocal_def
      setUTCHours_inicio_def setUTCHours_fin_def segundosUTC_def
      getHours_def getMinutes_def getSeconds_def
      getUTCHours_def getUTCMinutes_def getUTCSeconds_def msPorDia_def)

text \<open>C2. \<open>calcularPrecioFinal\<close> should return \<open>precioVenta\<close> when the instant lies outside
  every discount's date/time window. It does not when \<open>horaHasta\<close> is midnight: the test
  \<open>!horaHastaSegundos\<close> takes the value \<open>0\<close> for a missing bound. On a server at UTC, at
  15:30:00 (second 55800 of the day) on 2025-06-15, the instant is outside the window of
  the example discount, whose hours are 00:00:00 to 00:00:00, and the price returned is 80
  instead of 100.\<close>

theorem calcularPrecioFinal_horaHasta_medianoche:
  "horaLocalSegundos 0 1750001400000 = 55800 \<and>
   \<not> dentroDeVentana 0 1750001400000 descuentoMedianoche \<and>
   calcularPrecioFinal 0 1750001400000 productoMedianoche = 80 \<and>
   precioVenta productoMedianoche = 100"
  by (simp add: hora_ej ej1 ej2) (simp add: productoMedianoche_def)

text \<open>A consequence at the same input: the price returned is below \<open>precioVenta\<close>.\<close>

theorem calcularPrecioFinal_horaHasta_medianoche_witness:
  "calcularPrecioFinal 0 1750001400000 productoMedianoche < precioVenta productoMedianoche"
  using calcularPrecioFinal_horaHasta_medianoche by simp

text \<open>East of Greenwich the dates are off by one day: on a server at UTC+2, at noon of
  2025-06-10 the one-day discount of that day is not applied, and at noon of 2025-06-11 it
  is.\<close>

lemma calcularPrecioFinal_al_este_de_UTC:
  "dentroDeVentana 7200000 1749549600000 descuentoUnDia \<and>
   calcularPrecioFinal 7200000 1749549600000 productoUnDia = 100 \<and>
   \<not> dentroDeVentana 7200000 1749636000000 descuentoUnDia \<and>
   calcularPrecioFinal 7200000 1749636000000 productoUnDia = 80"
  by (simp add: calcularPrecioFinal_def productoUnDia_def descuentoUnDia_def Let_def
      dentroDeVentana_def horaLocalSegundos_def
      aplicarDescuento_def descuentoVigente_def falsy_def medianocheLocal_def
      setUTCHours_inicio_def setUTCHours_fin_def segundosUTC_def
      getHours_def getMinutes_def getSeconds_def
      getUTCHours_def getUTCMinutes_def getUTCSeconds_def msPorDia_def)

section \<open>Lemmas on tables and writes\<close>

lemma find_SomeD:
  assumes "find wh t = Some r"
  shows "wh r \<and> r \<in> set t"
  using assms by (induction t) (auto split: if_splits)

lemma find_existe:
  assumes "x \<in> set t" "wh x"
  shows "\<exists>y. find wh t = Some y"
  using assms by (induction t) auto

lemma find_reemplazar:
  assumes "find wh t = Some r" "wh (f r)"
  shows "find wh (reemplazar wh f t) = Some (f r)"
  using assms by (induction t) (auto split: if_splits)

lemma find_reemplazar_otro:
  assumes "\<And>x. wh x \<Longrightarrow> \<not> q x" "\<And>x. wh x \<Longrightarrow> \<not> q (f x)"
  shows "find q (reemplazar wh f t) = find q t"
  using assms by (induction t) auto

lemma map_id_reemplazar:
  assumes "\<And>x. g (f x) = g x"
  shows "map g (reemplazar wh f t) = map g t"
  using assms by (induction t) auto

lemma reemplazar_miembro:
  assumes "find wh t = Some r"
  shows "f r \<in> set (reemplazar wh f t)"
  using assms by (induction t) (auto split: if_splits)

lemma ids_quitar: "map base.id' (quitar (\<lambda>d. base.id' d = i) t) = remove1 i (map base.id' t)"
  by (induction t) auto

lemma clave_primaria:
  assumes "distinct (map base.id' t)" "find (\<lambda>u. base.id' u = k) t = Some u"
    and "x \<in> set t" "base.id' x = k"
  shows "x = u"
proof -
  have "inj_on base.id' (set t)" using assms(1) by (simp add: distinct_map)
  moreover have "u \<in> set t" "base.id' u = k" using find_SomeD[OF assms(2)] by simp_all
  ultimately show ?thesis using assms(3,4) by (auto dest: inj_onD)
qed

lemma idsPorTabla_fallo [simp]:
  "idsPorTabla (s\<lparr>escriturasHastaFallo := n\<rparr>) = idsPorTabla s"
  by (simp add: idsPorTabla_def)

lemma escribir_casos:
  "escribir op s = (Inl ErrorDeBaseDeDatos, s) \<or>
   (\<exists>n. escribir op s = op (s\<lparr>escriturasHastaFallo := n\<rparr>))"
proof (cases "escriturasHastaFallo s")
  case None
  then have eq: "s\<lparr>escriturasHastaFallo := None\<rparr> = s" by simp
  have "escribir op s = op s" using None by (simp add: escribir_def)
  then have "escribir op s = op (s\<lparr>escriturasHastaFallo := None\<rparr>)"
    by (simp only: eq)
  then show ?thesis by blast
next
  case (Some k)
  then show ?thesis by (cases k) (auto simp: escribir_def)
qed

lemma actualizar_casos:
  fixes tabla :: "db \<Rightarrow> 'r list" and poner :: "'r list \<Rightarrow> db \<Rightarrow> db"
    and wh :: "'r \<Rightarrow> bool" and f :: "'r \<Rightarrow> 'r" and s :: db
  defines "res \<equiv> escribir (\<lambda>s. case actualizar wh f (tabla s) of
                       Inl e \<Rightarrow> (Inl e, s) | Inr (r, t) \<Rightarrow> (Inr r, poner t s)) s"
  shows "(\<exists>e n. res = (Inl e, s\<lparr>escriturasHastaFallo := n\<rparr>)) \<or>
         (\<exists>n r0. find wh (tabla (s\<lparr>escriturasHastaFallo := n\<rparr>)) = Some r0 \<and>
            res = (Inr (f r0),
                   poner (reemplazar wh f (tabla (s\<lparr>escriturasHastaFallo := n\<rparr>)))
                     (s\<lparr>escriturasHastaFallo := n\<rparr>)))"
proof -
  let ?op = "\<lambda>s. case actualizar wh f (tabla s) of
                       Inl e \<Rightarrow> (Inl e, s) | Inr (r, t) \<Rightarrow> (Inr r, poner t s)"
  from escribir_casos[of ?op s] show ?thesis
  proof
    assume "escribir ?op s = (Inl ErrorDeBaseDeDatos, s)"
    then have "res = (Inl ErrorDeBaseDeDatos, s\<lparr>escriturasHastaFallo := escriturasHastaFallo s\<rparr>)"
      by (simp add: res_def)
    then show ?thesis by blast
  next
    assume "\<exists>n. escribir ?op s = ?op (s\<lparr>escriturasHastaFallo := n\<rparr>)"
    then obtain n where n: "res = ?op (s\<lparr>escriturasHastaFallo := n\<rparr>)" by (auto simp: res_def)
    show ?thesis
    proof (cases "find wh (tabla (s\<lparr>escriturasHastaFallo := n\<rparr>))")
      case None
      with n have "res = (Inl P2025, s\<lparr>escriturasHastaFallo := n\<rparr>)" by (simp add: actualizar_def)
      then show ?thesis by blast
    next
      case (Some r0)
      with n have "res = (Inr (f r0),
                   poner (reemplazar wh f (tabla (s\<lparr>escriturasHastaFallo := n\<rparr>)))
                     (s\<lparr>escriturasHastaFallo := n\<rparr>))" by (simp add: actualizar_def)
      with Some show ?thesis by blast
    qed
  qed
qed

lemma productoDetalle_update_ok:
  assumes "escriturasHastaFallo s = None" "find wh (t_producto_detalle s) = Some r"
  shows "productoDetalle_update wh f s =
           (Inr (f r), s\<lparr>t_producto_detalle := reemplazar wh f (t_producto_detalle s)\<rparr>)"
  using assms by (simp add: productoDetalle_update_def escribir_def actualizar_def)

lemma ordenCompraDetalle_update_ok:
  assumes "escriturasHastaFallo s = None" "find wh (t_orden_compra_detalle s) = Some r"
  shows "ordenCompraDetalle_update wh f s =
           (Inr (f r), s\<lparr>t_orden_compra_detalle := reemplazar wh f (t_orden_compra_detalle s)\<rparr>)"
  using assms by (simp add: ordenCompraDetalle_update_def escribir_def actualizar_def)

lemma ordenCompraDetalle_create_ok:
  assumes "escriturasHastaFallo s = None"
    and "find (\<lambda>oc. base.id' oc = oid) (t_orden_compra s) = Some oc"
    and "find (\<lambda>pd. base.id' pd = pid) (t_producto_detalle s) = Some pd"
  shows "ordenCompraDetalle_create oid pid cant sub act s =
     (Inr \<lparr>base.id' = siguienteId (t_orden_compra_detalle s), activo = act,
           cantidad = cant, subtotal = sub, ordenCompraId = oid, productoDetalleId = pid\<rparr>,
      s\<lparr>t_orden_compra_detalle := t_orden_compra_detalle s @
          [\<lparr>base.id' = siguienteId (t_orden_compra_detalle s), activo = act,
            cantidad = cant, subtotal = sub, ordenCompraId = oid, productoDetalleId = pid\<rparr>]\<rparr>)"
proof -
  have a: "\<exists>x \<in> set (t_orden_compra s). base.id' x = oid"
    using find_SomeD[OF assms(2)] by blast
  have b: "\<exists>x \<in> set (t_producto_detalle s). base.id' x = pid"
    using find_SomeD[OF assms(3)] by blast
  show ?thesis using assms(1) a b
    by (simp add: ordenCompraDetalle_create_def escribir_def Let_def)
qed

section \<open>Properties of the order lines\<close>

text \<open>C1. A request to \<open>OrderDetailService.create\<close> for an existing order and an existing
  product variant, when the database rejects no write. If the requested quantity exceeds
  the variant's \<open>stockActual\<close>, the operation fails with an error and the database is as
  before: no line is created. A \<open>CLIENTE\<close> who does not own the order is rejected with
  \<open>NoAutorizado\<close>, also without any change. Otherwise the line is created, active and with
  the requested quantity, as the last row of its table, the variant's \<open>stockActual\<close> is lower
  by exactly the requested quantity, and every other variant is as before.\<close>

theorem OrderDetailService_create_stock:
  assumes orden: "findUnique (\<lambda>oc. base.id' oc = detallePayload.ordenCompraId data) (t_orden_compra s) = Some oc"
    and variante: "findUnique (\<lambda>pd. base.id' pd = detalleNestedPayload.productoDetalleId data)
                    (t_producto_detalle s) = Some pd"
    and sinFallo: "escriturasHastaFallo s = None"
  shows "(productoDetalle.stockActual pd < detalleNestedPayload.cantidad data \<longrightarrow>
            (\<exists>e. OrderDetailService_create data currentUser s = (Inl e, s))) \<and>
         (clienteAjeno s currentUser oc \<longrightarrow>
            OrderDetailService_create data currentUser s = (Inl NoAutorizado, s)) \<and>
         (\<not> productoDetalle.stockActual pd < detalleNestedPayload.cantidad data \<and>
          \<not> clienteAjeno s currentUser oc \<longrightarrow>
            (\<exists>linea s'. OrderDetailService_create data currentUser s = (Inr linea, s') \<and>
               t_orden_compra_detalle s' = t_orden_compra_detalle s @ [linea] \<and>
               activo linea \<and>
               ordenCompraDetalle.cantidad linea = detalleNestedPayload.cantidad data \<and>
               ordenCompraDetalle.ordenCompraId linea = detallePayload.ordenCompraId data \<and>
               ordenCompraDetalle.productoDetalleId linea = detalleNestedPayload.productoDetalleId data \<and>
               findUnique (\<lambda>r. base.id' r = detalleNestedPayload.productoDetalleId data)
                 (t_producto_detalle s')
                 = Some (pd\<lparr>stockActual := productoDetalle.stockActual pd
                                              - detalleNestedPayload.cantidad data\<rparr>) \<and>
               (\<forall>k. k \<noteq> detalleNestedPayload.productoDetalleId data \<longrightarrow>
                  findUnique (\<lambda>r. base.id' r = k) (t_producto_detalle s')
                    = findUnique (\<lambda>r. base.id' r = k) (t_producto_detalle s))))"
proof (intro conjI impI)
  assume "productoDetalle.stockActual pd < detalleNestedPayload.cantidad data"
  then show "\<exists>e. OrderDetailService_create data currentUser s = (Inl e, s)"
    using orden variante by (simp add: OrderDetailService_create_def)
next
  assume "clienteAjeno s currentUser oc"
  then show "OrderDetailService_create data currentUser s = (Inl NoAutorizado, s)"
    using orden by (simp add: OrderDetailService_create_def)
next
  assume h: "\<not> productoDetalle.stockActual pd < detalleNestedPayload.cantidad data \<and>
             \<not> clienteAjeno s currentUser oc"
  let ?pid = "detalleNestedPayload.productoDetalleId data"
  let ?c = "detalleNestedPayload.cantidad data"
  let ?linea = "\<lparr>base.id' = siguienteId (t_orden_compra_detalle s), activo = True,
           cantidad = ?c, subtotal = precioCompra pd * of_int ?c,
           ordenCompraId = detallePayload.ordenCompraId data, productoDetalleId = ?pid\<rparr>"
  let ?s1 = "s\<lparr>t_orden_compra_detalle := t_orden_compra_detalle s @ [?linea]\<rparr>"
  let ?f = "\<lambda>r. r\<lparr>stockActual := productoDetalle.stockActual r - ?c\<rparr>"
  let ?s2 = "?s1\<lparr>t_producto_detalle := reemplazar (\<lambda>r. base.id' r = base.id' pd) ?f (t_producto_detalle s)\<rparr>"
  have idpd: "base.id' pd = ?pid"
    using find_SomeD[OF variante[unfolded findUnique_def]] by simp
  have crear: "ordenCompraDetalle_create (detallePayload.ordenCompraId data) ?pid ?c
                 (precioCompra pd * of_int ?c) True s = (Inr ?linea, ?s1)"
    using ordenCompraDetalle_create_ok[OF sinFallo] orden variante
    by (simp add: findUnique_def)
  have upd: "productoDetalle_update (\<lambda>r. base.id' r = base.id' pd) ?f ?s1 = (Inr (?f pd), ?s2)"
    using productoDetalle_update_ok[of ?s1 "\<lambda>r. base.id' r = base.id' pd" pd ?f] sinFallo variante idpd
    by (simp add: findUnique_def)
  have res: "OrderDetailService_create data currentUser s = (Inr ?linea, ?s2)"
    using orden variante h
    by (simp add: OrderDetailService_create_def Let_def crear entonces_def upd)
  have stock: "findUnique (\<lambda>r. base.id' r = ?pid) (t_producto_detalle ?s2) = Some (?f pd)"
    using variante idpd find_reemplazar[of "\<lambda>r. base.id' r = ?pid" "t_producto_detalle s" pd ?f]
    by (simp add: findUnique_def)
  have otros: "\<forall>k. k \<noteq> ?pid \<longrightarrow>
      findUnique (\<lambda>r. base.id' r = k) (t_producto_detalle ?s2)
        = findUnique (\<lambda>r. base.id' r = k) (t_producto_detalle s)"
  proof (intro allI impI)
    fix k assume "k \<noteq> ?pid"
    then have "find (\<lambda>r. base.id' r = k)
                 (reemplazar (\<lambda>r. base.id' r = base.id' pd) ?f (t_producto_detalle s))
               = find (\<lambda>r. base.id' r = k) (t_producto_detalle s)"
      using idpd by (intro find_reemplazar_otro) simp_all
    then show "findUnique (\<lambda>r. base.id' r = k) (t_producto_detalle ?s2)
        = findUnique (\<lambda>r. base.id' r = k) (t_producto_detalle s)"
      by (simp add: findUnique_def)
  qed
  show "\<exists>linea s'. OrderDetailService_create data currentUser s = (Inr linea, s') \<and>
               t_orden_compra_detalle s' = t_orden_compra_detalle s @ [linea] \<and>
               activo linea \<and>
               ordenCompraDetalle.cantidad linea = detalleNestedPayload.cantidad data \<and>
               ordenCompraDetalle.ordenCompraId linea = detallePayload.ordenCompraId data \<and>
               ordenCompraDetalle.productoDetalleId linea = detalleNestedPayload.productoDetalleId data \<and>
               findUnique (\<lambda>r. base.id' r = detalleNestedPayload.productoDetalleId data)
                 (t_producto_detalle s')
                 = Some (pd\<lparr>stockActual := productoDetalle.stockActual pd
                                              - detalleNestedPayload.cantidad data\<rparr>) \<and>
               (\<forall>k. k \<noteq> detalleNestedPayload.productoDetalleId data \<longrightarrow>
                  findUnique (\<lambda>r. base.id' r = k) (t_producto_detalle s')
                    = findUnique (\<lambda>r. base.id' r = k) (t_producto_detalle s))"
    apply (rule exI[of _ ?linea])
    apply (rule exI[of _ ?s2])
    using res stock otros by simp
qed

text \<open>Without the condition on the caller the last part fails: in the example database the
  order belongs to the first user, the variant has 5 in stock and the second user asks for
  2; the request is rejected and nothing is created.\<close>

theorem OrderDetailService_create_cliente_ajeno:
  "findUnique (\<lambda>oc. base.id' oc = detallePayload.ordenCompraId pedidoLinea) (t_orden_compra dbEjemplo)
     = Some ordenEjemplo \<and>
   findUnique (\<lambda>pd. base.id' pd = detalleNestedPayload.productoDetalleId pedidoLinea)
     (t_producto_detalle dbEjemplo) = Some varianteRoja \<and>
   \<not> productoDetalle.stockActual varianteRoja < detalleNestedPayload.cantidad pedidoLinea \<and>
   OrderDetailService_create pedidoLinea clienteLuis dbEjemplo = (Inl NoAutorizado, dbEjemplo)"
  by (simp add: OrderDetailService_create_def clienteAjeno_def usuarioDeOrden_def findUnique_def ejemplos)

text \<open>The same request by the owner: the line is created and the stock goes from 5 to 3.\<close>

theorem OrderDetailService_create_stock_witness:
  "findUnique (\<lambda>oc. base.id' oc = detallePayload.ordenCompraId pedidoLinea) (t_orden_compra dbEjemplo)
     = Some ordenEjemplo \<and>
   findUnique (\<lambda>pd. base.id' pd = detalleNestedPayload.productoDetalleId pedidoLinea)
     (t_producto_detalle dbEjemplo) = Some varianteRoja \<and>
   escriturasHastaFallo dbEjemplo = None \<and>
   \<not> clienteAjeno dbEjemplo clienteAna ordenEjemplo \<and>
   (\<exists>linea s'. OrderDetailService_create pedidoLinea clienteAna dbEjemplo = (Inr linea, s') \<and>
      t_orden_compra_detalle s' = [lineaActiva, lineaBaja, lineaGrande, linea] \<and>
      ordenCompraDetalle.cantidad linea = 2 \<and>
      findUnique (\<lambda>r. base.id' r = 1) (t_producto_detalle s')
        = Some (varianteRoja\<lparr>stockActual := 3\<rparr>))"
proof -
  have a: "findUnique (\<lambda>oc. base.id' oc = detallePayload.ordenCompraId pedidoLinea) (t_orden_compra dbEjemplo)
     = Some ordenEjemplo"
    by (simp add: findUnique_def ejemplos)
  have b: "findUnique (\<lambda>pd. base.id' pd = detalleNestedPayload.productoDetalleId pedidoLinea)
     (t_producto_detalle dbEjemplo) = Some varianteRoja"
    by (simp add: findUnique_def ejemplos)
  have c: "escriturasHastaFallo dbEjemplo = None" by (simp add: ejemplos)
  have d: "\<not> clienteAjeno dbEjemplo clienteAna ordenEjemplo"
    by (simp add: clienteAjeno_def usuarioDeOrden_def findUnique_def ejemplos)
  have e: "\<not> productoDetalle.stockActual varianteRoja < detalleNestedPayload.cantidad pedidoLinea"
    by (simp add: ejemplos)
  from OrderDetailService_create_stock[OF a b c, of clienteAna] d e
  obtain linea s' where r: "OrderDetailService_create pedidoLinea clienteAna dbEjemplo = (Inr linea, s')"
      "t_orden_compra_detalle s' = t_orden_compra_detalle dbEjemplo @ [linea]"
      "ordenCompraDetalle.cantidad linea = detalleNestedPayload.cantidad pedidoLinea"
      "findUnique (\<lambda>r. base.id' r = detalleNestedPayload.productoDetalleId pedidoLinea)
                 (t_producto_detalle s')
                 = Some (varianteRoja\<lparr>stockActual := productoDetalle.stockActual varianteRoja
                                              - detalleNestedPayload.cantidad pedidoLinea\<rparr>)"
    by blast
  have "t_orden_compra_detalle s' = [lineaActiva, lineaBaja, lineaGrande, linea]"
    using r(2) by (simp add: dbEjemplo_def)
  moreover have "ordenCompraDetalle.cantidad linea = 2" using r(3) by (simp add: pedidoLinea_def)
  moreover have "findUnique (\<lambda>r. base.id' r = 1) (t_producto_detalle s')
        = Some (varianteRoja\<lparr>stockActual := 3\<rparr>)"
    using r(4) by (simp add: pedidoLinea_def varianteRoja_def)
  ultimately show ?thesis using a b c d r(1) by blast
qed




section \<open>Properties of the orders\<close>

text \<open>C10. \<open>OrderService.crear\<close> rejects an order whose \<open>detalles\<close> are missing or empty: the
  error is \<open>OrdenSinProductos\<close> (``La orden debe tener al menos un producto.''), wrapped by
  the \<open>catch\<close> of \<open>crear\<close> like every error of it, and the database is as before: no order is
  created and no stock changes.\<close>

theorem OrderService_crear_sin_detalles:
  assumes "ordenCompraPayload.detalles ordenCompraData = None
           \<or> ordenCompraPayload.detalles ordenCompraData = Some []"
  shows "OrderService_crear ahora ordenCompraData s = (Inl (ErrorAlCrearOrden OrdenSinProductos), s)"
  using assms by (auto simp: OrderService_crear_def envolverError_def)

text \<open>The theorem at an order with an empty list of lines.\<close>

theorem OrderService_crear_sin_detalles_witness:
  "ordenCompraPayload.detalles pedidoVacio = Some [] \<and>
   OrderService_crear 0 pedidoVacio dbEjemplo = (Inl (ErrorAlCrearOrden OrdenSinProductos), dbEjemplo)"
  using OrderService_crear_sin_detalles[of pedidoVacio 0 dbEjemplo]
  by (simp add: pedidoVacio_def)

subsection \<open>Orders with lines\<close>





section \<open>Writes that fail\<close>

text \<open>C3. The insert of an order line and the stock decrement should be one atomic unit:
  if either write fails, neither is persisted. They are not: in
  \<open>OrderDetailService.create\<close> the two writes are not in a transaction. In the example
  database, when the first write (the insert of the line) succeeds and the database
  rejects the second (the stock update), \<open>create\<close> throws, the new line stays in the
  database, and the stock is as before, still 5.\<close>

theorem escrituras_sin_transaccion:
  "OrderDetailService_create pedidoLinea clienteAna (dbEjemplo\<lparr>escriturasHastaFallo := Some 1\<rparr>) =
     (Inl ErrorDeBaseDeDatos,
      dbEjemplo\<lparr>t_orden_compra_detalle := [lineaActiva, lineaBaja, lineaGrande, lineaNueva],
                escriturasHastaFallo := Some 0\<rparr>)"
  by (simp add: OrderDetailService_create_def clienteAjeno_def usuarioDeOrden_def findUnique_def
      ordenCompraDetalle_create_def Let_def entonces_def escribir_def siguienteId_def
      productoDetalle_update_def actualizar_def ejemplos)

text \<open>A consequence at the same input: the operation ends with the error of the database,
  and the table of the lines has one row more than before.\<close>

theorem escrituras_sin_transaccion_witness:
  "fst (OrderDetailService_create pedidoLinea clienteAna (dbEjemplo\<lparr>escriturasHastaFallo := Some 1\<rparr>))
     = Inl ErrorDeBaseDeDatos \<and>
   length (t_orden_compra_detalle
     (snd (OrderDetailService_create pedidoLinea clienteAna
             (dbEjemplo\<lparr>escriturasHastaFallo := Some 1\<rparr>))))
     = length (t_orden_compra_detalle dbEjemplo) + 1"
  using escrituras_sin_transaccion by (simp add: dbEjemplo_def)

section \<open>Properties of the user accounts\<close>

lemma usuario_update_Inr:
  assumes "usuario_update wh f s = (Inr u, s')"
  shows "\<exists>u0. find wh (t_usuarios s) = Some u0 \<and> u = f u0 \<and>
               t_usuarios s' = reemplazar wh f (t_usuarios s)"
  using assms
  by (auto simp: usuario_update_def escribir_def split: option.splits nat.splits if_splits)

text \<open>C7. In a table of users with distinct ids, \<open>UserService.reactivateAccount\<close> fails with
  an error and leaves the database as it was (the account stays deactivated) whenever the
  new email or the new user name is the one of another, active account. When it succeeds,
  the account was deactivated before, and it is now stored active, with the new email, the
  new user name and no \<open>fechaBaja\<close>.\<close>

theorem UserService_reactivateAccount_email:
  assumes pk: "distinct (map base.id' (t_usuarios s))"
  shows "((\<exists>v \<in> set (t_usuarios s). base.id' v \<noteq> uid \<and> activo v \<and>
             (usuario.email v = newEmail \<or> userName v = Some newUserName)) \<longrightarrow>
            (\<exists>e. UserService_reactivateAccount ahora uid newEmail newUserName s = (Inl e, s))) \<and>
         (\<forall>u s'. UserService_reactivateAccount ahora uid newEmail newUserName s = (Inr u, s') \<longrightarrow>
            activo u \<and> usuario.email u = newEmail \<and> userName u = Some newUserName \<and>
            fechaBaja u = None \<and>
            findUnique (\<lambda>x. base.id' x = uid) (t_usuarios s') = Some u \<and>
            (\<exists>u0. findUnique (\<lambda>x. base.id' x = uid) (t_usuarios s) = Some u0 \<and> \<not> activo u0))"
proof (intro conjI impI allI)
  assume "\<exists>v \<in> set (t_usuarios s). base.id' v \<noteq> uid \<and> activo v \<and>
             (usuario.email v = newEmail \<or> userName v = Some newUserName)"
  then obtain v where v: "v \<in> set (t_usuarios s)" "activo v"
      "usuario.email v = newEmail \<or> userName v = Some newUserName" by blast
  show "\<exists>e. UserService_reactivateAccount ahora uid newEmail newUserName s = (Inl e, s)"
  proof (cases "find (\<lambda>u. base.id' u = uid) (t_usuarios s)")
    case None
    then show ?thesis by (simp add: UserService_reactivateAccount_def findUnique_def)
  next
    case (Some u0)
    show ?thesis
    proof (cases "activo u0")
      case True
      with Some show ?thesis by (simp add: UserService_reactivateAccount_def findUnique_def)
    next
      case False
      have otro: "\<And>x wh. find wh (t_usuarios s) = Some x \<Longrightarrow> (\<And>y. wh y \<Longrightarrow> activo y)
                    \<Longrightarrow> base.id' x \<noteq> uid"
      proof
        fix x :: usuario and wh
        assume fx: "find wh (t_usuarios s) = Some x" and act: "\<And>y. wh y \<Longrightarrow> activo y"
          and "base.id' x = uid"
        then have "x = u0" using clave_primaria[OF pk Some] find_SomeD[OF fx] by blast
        moreover have "activo x" using find_SomeD[OF fx] act by blast
        ultimately show False using False by simp
      qed
      show ?thesis
      proof (cases "find (\<lambda>u. usuario.email u = newEmail \<and> activo u) (t_usuarios s)")
        case (Some x)
        then have "base.id' x \<noteq> uid" using otro by blast
        with Some \<open>find (\<lambda>u. base.id' u = uid) (t_usuarios s) = Some u0\<close> False
        show ?thesis
          by (simp add: UserService_reactivateAccount_def findUnique_def findFirst_def)
      next
        case None
        then have "\<not> (usuario.email v = newEmail)"
          using find_existe[OF v(1), of "\<lambda>u. usuario.email u = newEmail \<and> activo u"] v(2) by auto
        then have "userName v = Some newUserName" using v(3) by simp
        then obtain y where y: "find (\<lambda>u. userName u = Some newUserName \<and> activo u) (t_usuarios s) = Some y"
          using find_existe[OF v(1), of "\<lambda>u. userName u = Some newUserName \<and> activo u"] v(2) by auto
        then have "base.id' y \<noteq> uid" using otro by blast
        with y None \<open>find (\<lambda>u. base.id' u = uid) (t_usuarios s) = Some u0\<close> False
        show ?thesis
          by (simp add: UserService_reactivateAccount_def findUnique_def findFirst_def)
      qed
    qed
  qed
next
  fix u s'
  assume ok: "UserService_reactivateAccount ahora uid newEmail newUserName s = (Inr u, s')"
  let ?f = "\<lambda>u. u\<lparr>activo := True, fechaBaja := None,
                                  usuario.email := newEmail, userName := Some newUserName,
                                  fechaModificacion := ahora\<rparr>"
  let ?wh = "\<lambda>u::usuario. base.id' u = uid"
  from ok obtain u0 where u0: "find ?wh (t_usuarios s) = Some u0" "\<not> activo u0"
      and upd: "usuario_update ?wh ?f s = (Inr u, s')"
    by (auto simp: UserService_reactivateAccount_def findUnique_def Let_def
             split: option.splits if_splits)
  from usuario_update_Inr[OF upd] u0 have u: "u = ?f u0"
      and t: "t_usuarios s' = reemplazar ?wh ?f (t_usuarios s)" by auto
  have "find ?wh (t_usuarios s') = Some u"
    using find_reemplazar[OF u0(1), of ?f] find_SomeD[OF u0(1)] u t by simp
  then show "activo u" "usuario.email u = newEmail" "userName u = Some newUserName"
    "fechaBaja u = None" "findUnique (\<lambda>x. base.id' x = uid) (t_usuarios s') = Some u"
    "\<exists>u0. findUnique (\<lambda>x. base.id' x = uid) (t_usuarios s) = Some u0 \<and> \<not> activo u0"
    using u u0 by (simp_all add: findUnique_def)
qed

text \<open>In the example database the third account cannot be reactivated with the email of the
  second user, and is reactivated with a fresh one.\<close>

theorem UserService_reactivateAccount_email_witness:
  "distinct (map base.id' (t_usuarios dbEjemplo)) \<and>
   (\<exists>e. UserService_reactivateAccount 9 3 ''luis@example.com'' ''eva'' dbEjemplo = (Inl e, dbEjemplo)) \<and>
   (\<exists>u s'. UserService_reactivateAccount 9 3 ''eva@example.com'' ''eva'' dbEjemplo = (Inr u, s') \<and>
      activo u \<and> usuario.email u = ''eva@example.com'' \<and> fechaBaja u = None)"
proof -
  have pk: "distinct (map base.id' (t_usuarios dbEjemplo))" by (simp add: ejemplos)
  have "\<exists>v \<in> set (t_usuarios dbEjemplo). base.id' v \<noteq> 3 \<and> activo v \<and>
             (usuario.email v = ''luis@example.com'' \<or> userName v = Some ''eva'')"
    by (simp add: ejemplos)
  with UserService_reactivateAccount_email[OF pk, of 3 "''luis@example.com''" "''eva''" 9]
  have a: "\<exists>e. UserService_reactivateAccount 9 3 ''luis@example.com'' ''eva'' dbEjemplo = (Inl e, dbEjemplo)"
    by blast
  have "\<exists>u s'. UserService_reactivateAccount 9 3 ''eva@example.com'' ''eva'' dbEjemplo = (Inr u, s')"
    by (simp add: UserService_reactivateAccount_def findUnique_def findFirst_def Let_def
        usuario_update_def escribir_def ejemplos)
  then obtain u s' where r: "UserService_reactivateAccount 9 3 ''eva@example.com'' ''eva'' dbEjemplo = (Inr u, s')"
    by blast
  with UserService_reactivateAccount_email[OF pk, of 3 "''eva@example.com''" "''eva''" 9]
  have "activo u \<and> usuario.email u = ''eva@example.com'' \<and> fechaBaja u = None" by blast
  with r have b: "\<exists>u s'. UserService_reactivateAccount 9 3 ''eva@example.com'' ''eva'' dbEjemplo = (Inr u, s') \<and>
      activo u \<and> usuario.email u = ''eva@example.com'' \<and> fechaBaja u = None" by blast
  from pk a b show ?thesis by blast
qed

section \<open>Properties of the soft deletes\<close>

lemma sinBorrarFilas_trans:
  assumes "idsPorTabla s1 = idsPorTabla s" "sinBorrarFilas tabla i s1 res"
  shows "sinBorrarFilas tabla i s res"
  using assms by (simp add: sinBorrarFilas_def)

lemma descuento_borrado:
  "sinBorrarFilas t_descuentos i s (descuento_update (\<lambda>r. base.id' r = i) (\<lambda>r. r\<lparr>activo := False\<rparr>) s)"
  using actualizar_casos[where tabla = t_descuentos and poner = "\<lambda>t s. s\<lparr>t_descuentos := t\<rparr>"
          and wh = "\<lambda>r. base.id' r = i" and f = "\<lambda>r. r\<lparr>activo := False\<rparr>" and s = s]
  by (auto simp: descuento_update_def sinBorrarFilas_def idsPorTabla_def map_id_reemplazar
           dest: find_SomeD intro: reemplazar_miembro)

lemma categoria_borrado:
  "sinBorrarFilas t_categorias i s (categoria_update (\<lambda>r. base.id' r = i) (\<lambda>r. r\<lparr>activo := False\<rparr>) s)"
  using actualizar_casos[where tabla = t_categorias and poner = "\<lambda>t s. s\<lparr>t_categorias := t\<rparr>"
          and wh = "\<lambda>r. base.id' r = i" and f = "\<lambda>r. r\<lparr>activo := False\<rparr>" and s = s]
  by (auto simp: categoria_update_def sinBorrarFilas_def idsPorTabla_def map_id_reemplazar
           dest: find_SomeD intro: reemplazar_miembro)

lemma direccion_borrado:
  "sinBorrarFilas t_direcciones i s (direccion_update (\<lambda>r. base.id' r = i) (\<lambda>r. r\<lparr>activo := False\<rparr>) s)"
  using actualizar_casos[where tabla = t_direcciones and poner = "\<lambda>t s. s\<lparr>t_direcciones := t\<rparr>"
          and wh = "\<lambda>r. base.id' r = i" and f = "\<lambda>r. r\<lparr>activo := False\<rparr>" and s = s]
  by (auto simp: direccion_update_def sinBorrarFilas_def idsPorTabla_def map_id_reemplazar
           dest: find_SomeD intro: reemplazar_miembro)

lemma imagen_borrado:
  "sinBorrarFilas t_imagen i s (imagen_update (\<lambda>r. base.id' r = i) (\<lambda>r. r\<lparr>activo := False\<rparr>) s)"
  using actualizar_casos[where tabla = t_imagen and poner = "\<lambda>t s. s\<lparr>t_imagen := t\<rparr>"
          and wh = "\<lambda>r. base.id' r = i" and f = "\<lambda>r. r\<lparr>activo := False\<rparr>" and s = s]
  by (auto simp: imagen_update_def sinBorrarFilas_def idsPorTabla_def map_id_reemplazar
           dest: find_SomeD intro: reemplazar_miembro)

lemma localidad_borrado:
  "sinBorrarFilas t_localidades i s
     (localidad_update (\<lambda>r. base.id' r = i \<and> activo r) (\<lambda>r. r\<lparr>activo := False\<rparr>) s)"
  using actualizar_casos[where tabla = t_localidades and poner = "\<lambda>t s. s\<lparr>t_localidades := t\<rparr>"
          and wh = "\<lambda>r. base.id' r = i \<and> activo r" and f = "\<lambda>r. r\<lparr>activo := False\<rparr>" and s = s]
  by (auto simp: localidad_update_def sinBorrarFilas_def idsPorTabla_def map_id_reemplazar
           dest: find_SomeD intro: reemplazar_miembro)

lemma ordenCompra_borrado:
  "sinBorrarFilas t_orden_compra i s (ordenCompra_update (\<lambda>r. base.id' r = i) (\<lambda>r. r\<lparr>activo := False\<rparr>) s)"
  using actualizar_casos[where tabla = t_orden_compra and poner = "\<lambda>t s. s\<lparr>t_orden_compra := t\<rparr>"
          and wh = "\<lambda>r. base.id' r = i" and f = "\<lambda>r. r\<lparr>activo := False\<rparr>" and s = s]
  by (auto simp: ordenCompra_update_def sinBorrarFilas_def idsPorTabla_def map_id_reemplazar
           dest: find_SomeD intro: reemplazar_miembro)

lemma ordenCompraDetalle_borrado:
  "sinBorrarFilas t_orden_compra_detalle i s
     (ordenCompraDetalle_update (\<lambda>r. base.id' r = i) (\<lambda>r. r\<lparr>activo := False\<rparr>) s)"
  using actualizar_casos[where tabla = t_orden_compra_detalle
          and poner = "\<lambda>t s. s\<lparr>t_orden_compra_detalle := t\<rparr>"
          and wh = "\<lambda>r. base.id' r = i" and f = "\<lambda>r. r\<lparr>activo := False\<rparr>" and s = s]
  by (auto simp: ordenCompraDetalle_update_def sinBorrarFilas_def idsPorTabla_def map_id_reemplazar
           dest: find_SomeD intro: reemplazar_miembro)

lemma producto_borrado:
  "sinBorrarFilas t_productos i s (producto_update (\<lambda>r. base.id' r = i) (\<lambda>r. r\<lparr>activo := False\<rparr>) s)"
  using actualizar_casos[where tabla = t_productos and poner = "\<lambda>t s. s\<lparr>t_productos := t\<rparr>"
          and wh = "\<lambda>r. base.id' r = i" and f = "\<lambda>r. r\<lparr>activo := False\<rparr>" and s = s]
  by (auto simp: producto_update_def sinBorrarFilas_def idsPorTabla_def map_id_reemplazar
           dest: find_SomeD intro: reemplazar_miembro)

lemma productoDetalle_borrado:
  "sinBorrarFilas t_producto_detalle i s
     (productoDetalle_update (\<lambda>r. base.id' r = i) (\<lambda>r. r\<lparr>activo := False\<rparr>) s)"
  using actualizar_casos[where tabla = t_producto_detalle
          and poner = "\<lambda>t s. s\<lparr>t_producto_detalle := t\<rparr>"
          and wh = "\<lambda>r. base.id' r = i" and f = "\<lambda>r. r\<lparr>activo := False\<rparr>" and s = s]
  by (auto simp: productoDetalle_update_def sinBorrarFilas_def idsPorTabla_def map_id_reemplazar
           dest: find_SomeD intro: reemplazar_miembro)

lemma provincia_borrado:
  "sinBorrarFilas t_provincias i s
     (provincia_update (\<lambda>r. base.id' r = i \<and> activo r) (\<lambda>r. r\<lparr>activo := False\<rparr>) s)"
  using actualizar_casos[where tabla = t_provincias and poner = "\<lambda>t s. s\<lparr>t_provincias := t\<rparr>"
          and wh = "\<lambda>r. base.id' r = i \<and> activo r" and f = "\<lambda>r. r\<lparr>activo := False\<rparr>" and s = s]
  by (auto simp: provincia_update_def sinBorrarFilas_def idsPorTabla_def map_id_reemplazar
           dest: find_SomeD intro: reemplazar_miembro)

lemma productoDetalle_update_ids:
  assumes "\<And>r. base.id' (g r) = base.id' r"
  shows "idsPorTabla (snd (productoDetalle_update wh g s)) = idsPorTabla s"
  using actualizar_casos[where tabla = t_producto_detalle
          and poner = "\<lambda>t s. s\<lparr>t_producto_detalle := t\<rparr>" and wh = wh and f = g and s = s] assms
  by (auto simp: productoDetalle_update_def idsPorTabla_def map_id_reemplazar)

lemma usuario_update_borrado:
  assumes "\<And>r. base.id' (f r) = base.id' r" "\<And>r. \<not> activo (f r)"
  shows "sinBorrarFilas t_usuarios i s (usuario_update (\<lambda>r. base.id' r = i) f s)"
proof -
  let ?op = "\<lambda>s. case find (\<lambda>r. base.id' r = i) (t_usuarios s) of
       None \<Rightarrow> (Inl P2025, s)
     | Some u \<Rightarrow>
         if \<exists>v \<in> set (t_usuarios s). base.id' v \<noteq> base.id' u \<and>
              (usuario.email v = usuario.email (f u) \<or>
               (userName (f u) \<noteq> None \<and> userName v = userName (f u)))
         then (Inl P2002, s)
         else (Inr (f u), s\<lparr>t_usuarios := reemplazar (\<lambda>r. base.id' r = i) f (t_usuarios s)\<rparr>)"
  have op: "\<And>s0. idsPorTabla s0 = idsPorTabla s \<Longrightarrow> sinBorrarFilas t_usuarios i s (?op s0)"
  proof -
    fix s0 assume ids: "idsPorTabla s0 = idsPorTabla s"
    have "sinBorrarFilas t_usuarios i s0 (?op s0)"
      using assms
      by (auto simp: sinBorrarFilas_def idsPorTabla_def map_id_reemplazar split: option.splits
               dest: find_SomeD intro: reemplazar_miembro)
    then show "sinBorrarFilas t_usuarios i s (?op s0)" using ids by (rule sinBorrarFilas_trans[rotated])
  qed
  from escribir_casos[of ?op s] show ?thesis
  proof
    assume "escribir ?op s = (Inl ErrorDeBaseDeDatos, s)"
    then show ?thesis by (simp add: usuario_update_def sinBorrarFilas_def)
  next
    assume "\<exists>n. escribir ?op s = ?op (s\<lparr>escriturasHastaFallo := n\<rparr>)"
    then obtain n where "usuario_update (\<lambda>r. base.id' r = i) f s = ?op (s\<lparr>escriturasHastaFallo := n\<rparr>)"
      by (auto simp: usuario_update_def)
    then show ?thesis using op[of "s\<lparr>escriturasHastaFallo := n\<rparr>"] by simp
  qed
qed

lemma OrderDetailService_delete_borrado:
  "sinBorrarFilas t_orden_compra_detalle i s (OrderDetailService_delete i s)"
proof (cases "findUnique (\<lambda>l. base.id' l = i) (t_orden_compra_detalle s)")
  case None
  then show ?thesis by (simp add: OrderDetailService_delete_def sinBorrarFilas_def)
next
  case (Some l)
  show ?thesis
  proof (cases "activo l")
    case False
    with Some show ?thesis by (simp add: OrderDetailService_delete_def sinBorrarFilas_def)
  next
    case True
    let ?B = "\<lambda>s1. ordenCompraDetalle_update (\<lambda>l. base.id' l = i) (\<lambda>l. l\<lparr>activo := False\<rparr>) s1"
    show ?thesis
    proof (cases "productoDetalleDeLinea s l")
      case None
      with Some True have "OrderDetailService_delete i s = ?B s"
        by (simp add: OrderDetailService_delete_def entonces_def)
      then show ?thesis using ordenCompraDetalle_borrado[of i s] by simp
    next
      case (Some pd)
      let ?g = "\<lambda>r. r\<lparr>stockActual := productoDetalle.stockActual r + ordenCompraDetalle.cantidad l\<rparr>"
      let ?u = "productoDetalle_update (\<lambda>r. base.id' r = base.id' pd) ?g s"
      have ids: "idsPorTabla (snd ?u) = idsPorTabla s"
        by (rule productoDetalle_update_ids) simp
      have "OrderDetailService_delete i s
              = (case fst ?u of Inl e \<Rightarrow> (Inl e, snd ?u) | Inr _ \<Rightarrow> ?B (snd ?u))"
        using \<open>findUnique (\<lambda>l. base.id' l = i) (t_orden_compra_detalle s) = Some l\<close> True Some
        by (cases ?u) (auto simp: OrderDetailService_delete_def entonces_def split: sum.splits)
      moreover have "sinBorrarFilas t_orden_compra_detalle i s (Inl e, snd ?u)" for e
        using ids by (simp add: sinBorrarFilas_def)
      moreover have "sinBorrarFilas t_orden_compra_detalle i s (?B (snd ?u))"
        using sinBorrarFilas_trans[OF ids ordenCompraDetalle_borrado[of i "snd ?u"]] .
      ultimately show ?thesis by (cases "fst ?u") simp_all
    qed
  qed
qed

lemma find_mas_fino:
  assumes "find p t = Some r" "q r" "\<And>x. q x \<Longrightarrow> p x"
  shows "find q t = Some r"
  using assms by (induction t) (auto split: if_splits)

lemma soloCambiaFila_reemplazar:
  assumes "\<And>x. wh x \<Longrightarrow> base.id' x = i" "\<And>x. base.id' (f x) = base.id' x"
  shows "soloCambiaFila i t (reemplazar wh f t)"
  unfolding soloCambiaFila_def using assms
  by (induction t) (auto simp: list_all2_same)

lemma find_id_reemplazar:
  assumes "find (\<lambda>x. base.id' x = i) t = Some r" "wh r" "\<And>x. wh x \<Longrightarrow> base.id' x = i"
    "\<And>x. base.id' (f x) = base.id' x"
  shows "find (\<lambda>x. base.id' x = i) (reemplazar wh f t) = Some (f r)"
  using assms by (induction t) (auto split: if_splits)

lemma borradoLogico_reemplazar:
  assumes seguro: "sinBorrarFilas tabla i s res"
    and fila: "posible \<Longrightarrow> find (\<lambda>x. base.id' x = i) (tabla s) = Some r \<and> wh r"
    and hecho: "posible \<Longrightarrow> fst res = Inr (f r) \<and> tabla (snd res) = reemplazar wh f (tabla s)"
    and wh: "\<And>x. wh x \<Longrightarrow> base.id' x = i"
    and f: "\<And>x. base.id' (f x) = base.id' x" "\<And>x. \<not> activo (f x)"
  shows "borradoLogico tabla i posible (f r) s res"
  unfolding borradoLogico_def
proof (intro conjI impI)
  show "sinBorrarFilas tabla i s res" by (rule seguro)
next
  assume p: posible
  show "fst res = Inr (f r)" using hecho[OF p] by simp
  show "\<not> activo (f r)" by (rule f(2))
  show "findUnique (\<lambda>r. base.id' r = i) (tabla (snd res)) = Some (f r)"
    using hecho[OF p] fila[OF p] find_id_reemplazar[of i "tabla s" r wh f] wh f(1)
    by (simp add: findUnique_def)
  show "soloCambiaFila i (tabla s) (tabla (snd res))"
    using hecho[OF p] soloCambiaFila_reemplazar[of wh i f "tabla s"] wh f(1) by simp
qed

lemma borradoLogicoONull_reemplazar:
  assumes seguro: "sinBorrarFilasONull tabla i s res"
    and fila: "posible \<Longrightarrow> find (\<lambda>x. base.id' x = i) (tabla s) = Some r \<and> wh r"
    and hecho: "posible \<Longrightarrow> fst res = Inr (Some (f r)) \<and> tabla (snd res) = reemplazar wh f (tabla s)"
    and wh: "\<And>x. wh x \<Longrightarrow> base.id' x = i"
    and f: "\<And>x. base.id' (f x) = base.id' x" "\<And>x. \<not> activo (f x)"
  shows "borradoLogicoONull tabla i posible (f r) s res"
  unfolding borradoLogicoONull_def
proof (intro conjI impI)
  show "sinBorrarFilasONull tabla i s res" by (rule seguro)
next
  assume p: posible
  show "fst res = Inr (Some (f r))" using hecho[OF p] by simp
  show "\<not> activo (f r)" by (rule f(2))
  show "findUnique (\<lambda>r. base.id' r = i) (tabla (snd res)) = Some (f r)"
    using hecho[OF p] fila[OF p] find_id_reemplazar[of i "tabla s" r wh f] wh f(1)
    by (simp add: findUnique_def)
  show "soloCambiaFila i (tabla s) (tabla (snd res))"
    using hecho[OF p] soloCambiaFila_reemplazar[of wh i f "tabla s"] wh f(1) by simp
qed

lemma borradoLogico_por_id:
  assumes seguro: "sinBorrarFilas tabla i s res"
    and hecho: "\<And>r. escriturasHastaFallo s = None \<Longrightarrow> find (\<lambda>x. base.id' x = i) (tabla s) = Some r \<Longrightarrow>
       fst res = Inr (r\<lparr>activo := False\<rparr>) \<and>
       tabla (snd res) = reemplazar (\<lambda>x. base.id' x = i) (\<lambda>r. r\<lparr>activo := False\<rparr>) (tabla s)"
  shows "borradoLogico tabla i
           (escriturasHastaFallo s = None \<and> findUnique (\<lambda>r. base.id' r = i) (tabla s) = Some fila)
           (fila\<lparr>activo := False\<rparr>) s res"
proof (rule borradoLogico_reemplazar[where wh = "\<lambda>x. base.id' x = i"
         and f = "\<lambda>r. r\<lparr>activo := False\<rparr>" and r = fila])
  show "sinBorrarFilas tabla i s res" by (rule seguro)
next
  assume p: "escriturasHastaFallo s = None \<and> findUnique (\<lambda>r. base.id' r = i) (tabla s) = Some fila"
  then have f: "find (\<lambda>x. base.id' x = i) (tabla s) = Some fila" by (simp add: findUnique_def)
  from find_SomeD[OF f] f
  show "find (\<lambda>x. base.id' x = i) (tabla s) = Some fila \<and> base.id' fila = i" by simp
  from hecho[OF _ f] p
  show "fst res = Inr (fila\<lparr>activo := False\<rparr>) \<and>
       tabla (snd res) = reemplazar (\<lambda>x. base.id' x = i) (\<lambda>r. r\<lparr>activo := False\<rparr>) (tabla s)"
    by simp
qed simp_all

lemma direccion_update_ok:
  assumes "escriturasHastaFallo s = None" "find wh (t_direcciones s) = Some r"
  shows "direccion_update wh f s = (Inr (f r), s\<lparr>t_direcciones := reemplazar wh f (t_direcciones s)\<rparr>)"
  using assms by (simp add: direccion_update_def escribir_def actualizar_def)

lemma localidad_update_ok:
  assumes "escriturasHastaFallo s = None" "find wh (t_localidades s) = Some r"
  shows "localidad_update wh f s = (Inr (f r), s\<lparr>t_localidades := reemplazar wh f (t_localidades s)\<rparr>)"
  using assms by (simp add: localidad_update_def escribir_def actualizar_def)

lemma ordenCompra_update_ok:
  assumes "escriturasHastaFallo s = None" "find wh (t_orden_compra s) = Some r"
  shows "ordenCompra_update wh f s = (Inr (f r), s\<lparr>t_orden_compra := reemplazar wh f (t_orden_compra s)\<rparr>)"
  using assms by (simp add: ordenCompra_update_def escribir_def actualizar_def)

lemma imagen_update_ok:
  assumes "escriturasHastaFallo s = None" "find wh (t_imagen s) = Some r"
  shows "imagen_update wh f s = (Inr (f r), s\<lparr>t_imagen := reemplazar wh f (t_imagen s)\<rparr>)"
  using assms by (simp add: imagen_update_def escribir_def actualizar_def)

lemma descuento_update_ok:
  assumes "escriturasHastaFallo s = None" "find wh (t_descuentos s) = Some r"
  shows "descuento_update wh f s = (Inr (f r), s\<lparr>t_descuentos := reemplazar wh f (t_descuentos s)\<rparr>)"
  using assms by (simp add: descuento_update_def escribir_def actualizar_def)

lemma provincia_update_ok:
  assumes "escriturasHastaFallo s = None" "find wh (t_provincias s) = Some r"
  shows "provincia_update wh f s = (Inr (f r), s\<lparr>t_provincias := reemplazar wh f (t_provincias s)\<rparr>)"
  using assms by (simp add: provincia_update_def escribir_def actualizar_def)

lemma categoria_update_ok:
  assumes "escriturasHastaFallo s = None" "find wh (t_categorias s) = Some r"
  shows "categoria_update wh f s = (Inr (f r), s\<lparr>t_categorias := reemplazar wh f (t_categorias s)\<rparr>)"
  using assms by (simp add: categoria_update_def escribir_def actualizar_def)

lemma producto_update_ok:
  assumes "escriturasHastaFallo s = None" "find wh (t_productos s) = Some r"
  shows "producto_update wh f s = (Inr (f r), s\<lparr>t_productos := reemplazar wh f (t_productos s)\<rparr>)"
  using assms by (simp add: producto_update_def escribir_def actualizar_def)

lemma usuario_update_ok:
  assumes "escriturasHastaFallo s = None" "find wh (t_usuarios s) = Some u"
    and "\<not> (\<exists>v \<in> set (t_usuarios s). base.id' v \<noteq> base.id' u \<and>
              (usuario.email v = usuario.email (f u) \<or>
               (userName (f u) \<noteq> None \<and> userName v = userName (f u))))"
  shows "usuario_update wh f s = (Inr (f u), s\<lparr>t_usuarios := reemplazar wh f (t_usuarios s)\<rparr>)"
  using assms by (simp add: usuario_update_def escribir_def)

lemma OrderDetailService_delete_ok:
  assumes sinFallo: "escriturasHastaFallo s = None"
    and linea: "find (\<lambda>l. base.id' l = i) (t_orden_compra_detalle s) = Some l" and act: "activo l"
  shows "fst (OrderDetailService_delete i s) = Inr (l\<lparr>activo := False\<rparr>) \<and>
         t_orden_compra_detalle (snd (OrderDetailService_delete i s))
           = reemplazar (\<lambda>l. base.id' l = i) (\<lambda>l. l\<lparr>activo := False\<rparr>) (t_orden_compra_detalle s)"
proof (cases "productoDetalleDeLinea s l")
  case None
  then show ?thesis
    using linea act ordenCompraDetalle_update_ok[OF sinFallo linea, of "\<lambda>l. l\<lparr>activo := False\<rparr>"]
    by (simp add: OrderDetailService_delete_def findUnique_def entonces_def)
next
  case (Some pd)
  let ?whp = "\<lambda>r::productoDetalle. base.id' r = base.id' pd"
  let ?g = "\<lambda>r. r\<lparr>stockActual := productoDetalle.stockActual r + ordenCompraDetalle.cantidad l\<rparr>"
  let ?s1 = "s\<lparr>t_producto_detalle := reemplazar ?whp ?g (t_producto_detalle s)\<rparr>"
  have fp: "find (\<lambda>r. base.id' r = ordenCompraDetalle.productoDetalleId l) (t_producto_detalle s) = Some pd"
    using Some by (simp add: productoDetalleDeLinea_def findUnique_def)
  have idpd: "base.id' pd = ordenCompraDetalle.productoDetalleId l"
    using find_SomeD[OF fp] by simp
  have fp': "find ?whp (t_producto_detalle s) = Some pd"
    using fp idpd by simp
  have u1: "productoDetalle_update ?whp ?g s = (Inr (?g pd), ?s1)"
    using productoDetalle_update_ok[OF sinFallo fp'] by simp
  have u2: "ordenCompraDetalle_update (\<lambda>l. base.id' l = i) (\<lambda>r. r\<lparr>activo := False\<rparr>) ?s1
               = (Inr (l\<lparr>activo := False\<rparr>),
                  ?s1\<lparr>t_orden_compra_detalle := reemplazar (\<lambda>l. base.id' l = i) (\<lambda>r. r\<lparr>activo := False\<rparr>) (t_orden_compra_detalle s)\<rparr>)"
    using ordenCompraDetalle_update_ok[of ?s1 "\<lambda>l. base.id' l = i" l] sinFallo linea by simp
  show ?thesis
    using linea act Some
    by (simp add: OrderDetailService_delete_def findUnique_def entonces_def u1 u2)
qed


lemma usuario_update_direcciones:
  "t_direcciones (snd (usuario_update wh f s)) = t_direcciones s"
  by (auto simp: usuario_update_def escribir_def split: option.splits nat.splits)

lemma direccion_delete_casos:
  "(\<exists>e n. direccion_delete (\<lambda>d. base.id' d = i) s = (Inl e, s\<lparr>escriturasHastaFallo := n\<rparr>)) \<or>
   (\<exists>r n. find (\<lambda>d. base.id' d = i) (t_direcciones s) = Some r \<and>
      direccion_delete (\<lambda>d. base.id' d = i) s
        = (Inr r, s\<lparr>escriturasHastaFallo := n,
                   t_direcciones := quitar (\<lambda>d. base.id' d = i) (t_direcciones s)\<rparr>))"
proof -
  let ?op = "\<lambda>s. case find (\<lambda>d. base.id' d = i) (t_direcciones s) of
       None \<Rightarrow> (Inl P2025, s)
     | Some r \<Rightarrow> (Inr r, s\<lparr>t_direcciones := quitar (\<lambda>d. base.id' d = i) (t_direcciones s)\<rparr>)"
  from escribir_casos[of ?op s] show ?thesis
  proof
    assume "escribir ?op s = (Inl ErrorDeBaseDeDatos, s)"
    then have "direccion_delete (\<lambda>d. base.id' d = i) s
                 = (Inl ErrorDeBaseDeDatos, s\<lparr>escriturasHastaFallo := escriturasHastaFallo s\<rparr>)"
      by (simp add: direccion_delete_def)
    then show ?thesis by blast
  next
    assume "\<exists>n. escribir ?op s = ?op (s\<lparr>escriturasHastaFallo := n\<rparr>)"
    then obtain n where n: "direccion_delete (\<lambda>d. base.id' d = i) s = ?op (s\<lparr>escriturasHastaFallo := n\<rparr>)"
      by (auto simp: direccion_delete_def)
    show ?thesis
    proof (cases "find (\<lambda>d. base.id' d = i) (t_direcciones s)")
      case None
      with n have "direccion_delete (\<lambda>d. base.id' d = i) s = (Inl P2025, s\<lparr>escriturasHastaFallo := n\<rparr>)"
        by simp
      then show ?thesis by blast
    next
      case (Some r)
      with n show ?thesis by auto
    qed
  qed
qed

lemma removeDireccionFromUser_casos:
  "case UserService_removeDireccionFromUser uid i s of
      (Inl e, s') \<Rightarrow> idsPorTabla s' = idsPorTabla s
    | (Inr u, s') \<Rightarrow>
        i \<in> set (map base.id' (t_direcciones s)) \<and>
        map base.id' (t_direcciones s') = remove1 i (map base.id' (t_direcciones s))"
proof (cases "findUnique (\<lambda>u. base.id' u = uid \<and> activo u) (t_usuarios s)")
  case None
  then show ?thesis by (simp add: UserService_removeDireccionFromUser_def)
next
  case u: (Some u)
  show ?thesis
  proof (cases "findUnique (\<lambda>d. base.id' d = i \<and> direccion.usuarioId d = Some uid) (t_direcciones s)")
    case None
    with u show ?thesis by (simp add: UserService_removeDireccionFromUser_def)
  next
    case (Some d)
    then have "UserService_removeDireccionFromUser uid i s
                 = entonces (direccion_delete (\<lambda>d. base.id' d = i) s) (\<lambda>_ s1. (Inr (), s1))"
      using u by (simp add: UserService_removeDireccionFromUser_def)
    with direccion_delete_casos[of i s] show ?thesis
      by (auto simp: entonces_def idsPorTabla_def ids_quitar dest!: find_SomeD)
  qed
qed

lemma removeDireccionFromUser_ok:
  assumes "escriturasHastaFallo s = None"
    and "findUnique (\<lambda>u. base.id' u = uid \<and> activo u) (t_usuarios s) = Some u"
    and "findUnique (\<lambda>d. base.id' d = i \<and> direccion.usuarioId d = Some uid) (t_direcciones s) = Some d"
  shows "UserService_removeDireccionFromUser uid i s
           = (Inr (), s\<lparr>t_direcciones := quitar (\<lambda>d. base.id' d = i) (t_direcciones s)\<rparr>)"
proof -
  have "d \<in> set (t_direcciones s)" "base.id' d = i"
    using find_SomeD[OF assms(3)[unfolded findUnique_def]] by simp_all
  then obtain r where "find (\<lambda>d. base.id' d = i) (t_direcciones s) = Some r"
    by (cases "find (\<lambda>d. base.id' d = i) (t_direcciones s)") (auto simp: find_None_iff)
  then show ?thesis using assms
    by (simp add: UserService_removeDireccionFromUser_def direccion_delete_def escribir_def
          entonces_def)
qed

lemma updateProfile_sin_direcciones:
  assumes "escriturasHastaFallo s = None"
    and "findUnique (\<lambda>u. base.id' u = uid) (t_usuarios s) = Some u" "activo u"
    and "updateUserProfilePayload.addresses data = Some []"
  shows "t_direcciones (snd (UserService_updateProfile ahora uid data s))
           = filter (\<lambda>d. direccion.usuarioId d \<noteq> Some uid) (t_direcciones s)"
proof -
  let ?s1 = "s\<lparr>t_direcciones := filter (\<lambda>d. direccion.usuarioId d \<noteq> Some uid) (t_direcciones s)\<rparr>"
  let ?u = "usuario_update (\<lambda>u. base.id' u = uid) (\<lambda>u. u\<lparr>fechaModificacion := ahora\<rparr>) ?s1"
  have "UserService_updateProfile ahora uid data s
          = entonces ?u (\<lambda>updatedUsuario s2.
                      (Inr (mapToUserDTO (incluirDirecciones s2 updatedUsuario)), s2))"
    using assms
    by (simp add: UserService_updateProfile_def direccion_deleteMany_def escribir_def entonces_def)
  then have "snd (UserService_updateProfile ahora uid data s) = snd ?u"
    by (cases ?u) (auto simp: entonces_def split: sum.splits)
  then show ?thesis using usuario_update_direcciones[of "\<lambda>u. base.id' u = uid" _ ?s1] by simp
qed

text \<open>C5. The delete operations of the services, \<open>AddressService.delete\<close>,
  \<open>LocationService.delete\<close>, \<open>OrderDetailService.delete\<close>, \<open>OrderService.delete\<close>,
  \<open>ImagenService.delete\<close>, \<open>ProductDetailService.delete\<close>, \<open>DiscountService.delete\<close>,
  \<open>ProvinceService.delete\<close>, \<open>CategoryService.deleteCategory\<close>,
  \<open>ProductService.deleteProduct\<close> and \<open>UserService.deactivateAccount\<close>, are soft deletes.
  Whether they succeed or fail, they remove no row of any table, and the row they return
  is the row asked for, stored and inactive. And they do mark the row: when the database
  rejects no write and the row with the id exists, the operation returns this row with
  \<open>activo = false\<close>, the row is stored so under its id, and the other rows of the table
  are as before. For \<open>LocationService.delete\<close>, \<open>ProvinceService.delete\<close>,
  \<open>OrderDetailService.delete\<close> and \<open>UserService.deactivateAccount\<close> the row must also be
  active; for \<open>OrderDetailService.delete\<close> the stock that it restores must fit its column;
  and for \<open>deactivateAccount\<close>, which also replaces the email and the user name by
  \<open>deactivated_\<close> and the fresh \<open>uniqueId\<close>, these must not be those of another user.
  The exceptions are in \<open>UserService\<close>. \<open>removeDireccionFromUser\<close> removes the row of the
  address: when it succeeds, the address was in the table and is no longer there, and it
  succeeds when the database rejects no write, the user is active and the address is one
  of the user. \<open>updateProfile\<close> with an empty list of addresses, for an active user and
  when the database rejects no write, leaves no address of the user in the table.\<close>

theorem borrados_logicos:
  "borradoLogico t_direcciones i
     (escriturasHastaFallo s = None \<and>
      findUnique (\<lambda>r. base.id' r = i) (t_direcciones s) = Some dir)
     (dir\<lparr>activo := False\<rparr>) s (AddressService_delete i s) \<and>
   borradoLogico t_localidades i
     (escriturasHastaFallo s = None \<and>
      findUnique (\<lambda>r. base.id' r = i) (t_localidades s) = Some loc \<and> activo loc)
     (loc\<lparr>activo := False\<rparr>) s (LocationService_delete i s) \<and>
   borradoLogico t_orden_compra_detalle i
     (escriturasHastaFallo s = None \<and>
      findUnique (\<lambda>r. base.id' r = i) (t_orden_compra_detalle s) = Some lin \<and> activo lin \<and>
      (case productoDetalleDeLinea s lin of
         None \<Rightarrow> True
       | Some pd \<Rightarrow> enRangoINT (productoDetalle.stockActual pd + ordenCompraDetalle.cantidad lin)))
     (lin\<lparr>activo := False\<rparr>) s (OrderDetailService_delete i s) \<and>
   borradoLogico t_orden_compra i
     (escriturasHastaFallo s = None \<and>
      findUnique (\<lambda>r. base.id' r = i) (t_orden_compra s) = Some orden)
     (orden\<lparr>activo := False\<rparr>) s (OrderService_delete i s) \<and>
   borradoLogico t_imagen i
     (escriturasHastaFallo s = None \<and>
      findUnique (\<lambda>r. base.id' r = i) (t_imagen s) = Some img)
     (img\<lparr>activo := False\<rparr>) s (ImagenService_delete i s) \<and>
   borradoLogico t_producto_detalle i
     (escriturasHastaFallo s = None \<and>
      findUnique (\<lambda>r. base.id' r = i) (t_producto_detalle s) = Some var)
     (var\<lparr>activo := False\<rparr>) s (ProductDetailService_delete i s) \<and>
   borradoLogico t_descuentos i
     (escriturasHastaFallo s = None \<and>
      findUnique (\<lambda>r. base.id' r = i) (t_descuentos s) = Some des)
     (des\<lparr>activo := False\<rparr>) s (DiscountService_delete i s) \<and>
   borradoLogicoONull t_provincias i
     (escriturasHastaFallo s = None \<and>
      findUnique (\<lambda>r. base.id' r = i) (t_provincias s) = Some prov \<and> activo prov)
     (prov\<lparr>activo := False\<rparr>) s (ProvinceService_delete i s) \<and>
   borradoLogico t_categorias i
     (escriturasHastaFallo s = None \<and>
      findUnique (\<lambda>r. base.id' r = i) (t_categorias s) = Some cat)
     (cat\<lparr>activo := False\<rparr>) s (CategoryService_deleteCategory i s) \<and>
   borradoLogicoONull t_productos i
     (escriturasHastaFallo s = None \<and>
      findUnique (\<lambda>r. base.id' r = i) (t_productos s) = Some pro)
     (pro\<lparr>activo := False\<rparr>) s (ProductService_deleteProduct i s) \<and>
   borradoLogico t_usuarios i
     (escriturasHastaFallo s = None \<and>
      findUnique (\<lambda>r. base.id' r = i) (t_usuarios s) = Some usr \<and> activo usr \<and>
      \<not> (\<exists>v \<in> set (t_usuarios s). base.id' v \<noteq> i \<and>
           (usuario.email v = ''deactivated_'' @ uniqueId @ ''@ecommerce.com'' \<or>
            userName v = Some (''deactivated_'' @ uniqueId))))
     (usr\<lparr>activo := False, usuario.email := ''deactivated_'' @ uniqueId @ ''@ecommerce.com'',
           userName := Some (''deactivated_'' @ uniqueId),
           fechaBaja := Some ahora, fechaModificacion := ahora\<rparr>)
     s (UserService_deactivateAccount uniqueId ahora i s) \<and>
   (case UserService_removeDireccionFromUser uid i s of
      (Inl e, s') \<Rightarrow> idsPorTabla s' = idsPorTabla s
    | (Inr u, s') \<Rightarrow>
        i \<in> set (map base.id' (t_direcciones s)) \<and>
        map base.id' (t_direcciones s') = remove1 i (map base.id' (t_direcciones s))) \<and>
   (escriturasHastaFallo s = None \<and>
    findUnique (\<lambda>u. base.id' u = uid \<and> activo u) (t_usuarios s) = Some usr' \<and>
    findUnique (\<lambda>d. base.id' d = i \<and> direccion.usuarioId d = Some uid) (t_direcciones s) = Some dir' \<longrightarrow>
      UserService_removeDireccionFromUser uid i s
        = (Inr (), s\<lparr>t_direcciones := quitar (\<lambda>d. base.id' d = i) (t_direcciones s)\<rparr>)) \<and>
   (escriturasHastaFallo s = None \<and>
    findUnique (\<lambda>u. base.id' u = uid) (t_usuarios s) = Some usr' \<and> activo usr' \<and>
    updateUserProfilePayload.addresses data = Some [] \<longrightarrow>
      t_direcciones (snd (UserService_updateProfile ahora uid data s))
        = filter (\<lambda>d. direccion.usuarioId d \<noteq> Some uid) (t_direcciones s))"
proof (intro conjI)
  let ?wh = "\<lambda>r::'a base_scheme. base.id' r = i"
  show "borradoLogico t_direcciones i
     (escriturasHastaFallo s = None \<and>
      findUnique (\<lambda>r. base.id' r = i) (t_direcciones s) = Some dir)
     (dir\<lparr>activo := False\<rparr>) s (AddressService_delete i s)"
  proof (rule borradoLogico_por_id)
    show "sinBorrarFilas t_direcciones i s (AddressService_delete i s)"
      by (simp add: AddressService_delete_def direccion_borrado)
    show "fst (AddressService_delete i s) = Inr (r\<lparr>activo := False\<rparr>) \<and>
          t_direcciones (snd (AddressService_delete i s))
            = reemplazar (\<lambda>x. base.id' x = i) (\<lambda>r. r\<lparr>activo := False\<rparr>) (t_direcciones s)"
      if "escriturasHastaFallo s = None" "find (\<lambda>x. base.id' x = i) (t_direcciones s) = Some r" for r
      using direccion_update_ok[OF that, of "\<lambda>r. r\<lparr>activo := False\<rparr>"] by (simp add: AddressService_delete_def)
  qed
  show "borradoLogico t_orden_compra i
     (escriturasHastaFallo s = None \<and>
      findUnique (\<lambda>r. base.id' r = i) (t_orden_compra s) = Some orden)
     (orden\<lparr>activo := False\<rparr>) s (OrderService_delete i s)"
  proof (rule borradoLogico_por_id)
    show "sinBorrarFilas t_orden_compra i s (OrderService_delete i s)"
      by (simp add: OrderService_delete_def ordenCompra_borrado)
    show "fst (OrderService_delete i s) = Inr (r\<lparr>activo := False\<rparr>) \<and>
          t_orden_compra (snd (OrderService_delete i s))
            = reemplazar (\<lambda>x. base.id' x = i) (\<lambda>r. r\<lparr>activo := False\<rparr>) (t_orden_compra s)"
      if "escriturasHastaFallo s = None" "find (\<lambda>x. base.id' x = i) (t_orden_compra s) = Some r" for r
      using ordenCompra_update_ok[OF that, of "\<lambda>r. r\<lparr>activo := False\<rparr>"] by (simp add: OrderService_delete_def)
  qed
  show "borradoLogico t_imagen i
     (escriturasHastaFallo s = None \<and>
      findUnique (\<lambda>r. base.id' r = i) (t_imagen s) = Some img)
     (img\<lparr>activo := False\<rparr>) s (ImagenService_delete i s)"
  proof (rule borradoLogico_por_id)
    show "sinBorrarFilas t_imagen i s (ImagenService_delete i s)"
      by (simp add: ImagenService_delete_def imagen_borrado)
    show "fst (ImagenService_delete i s) = Inr (r\<lparr>activo := False\<rparr>) \<and>
          t_imagen (snd (ImagenService_delete i s))
            = reemplazar (\<lambda>x. base.id' x = i) (\<lambda>r. r\<lparr>activo := False\<rparr>) (t_imagen s)"
      if "escriturasHastaFallo s = None" "find (\<lambda>x. base.id' x = i) (t_imagen s) = Some r" for r
      using imagen_update_ok[OF that, of "\<lambda>r. r\<lparr>activo := False\<rparr>"] by (simp add: ImagenService_delete_def)
  qed
  show "borradoLogico t_producto_detalle i
     (escriturasHastaFallo s = None \<and>
      findUnique (\<lambda>r. base.id' r = i) (t_producto_detalle s) = Some var)
     (var\<lparr>activo := False\<rparr>) s (ProductDetailService_delete i s)"
  proof (rule borradoLogico_por_id)
    show "sinBorrarFilas t_producto_detalle i s (ProductDetailService_delete i s)"
      by (simp add: ProductDetailService_delete_def productoDetalle_borrado)
    show "fst (ProductDetailService_delete i s) = Inr (r\<lparr>activo := False\<rparr>) \<and>
          t_producto_detalle (snd (ProductDetailService_delete i s))
            = reemplazar (\<lambda>x. base.id' x = i) (\<lambda>r. r\<lparr>activo := False\<rparr>) (t_producto_detalle s)"
      if "escriturasHastaFallo s = None" "find (\<lambda>x. base.id' x = i) (t_producto_detalle s) = Some r" for r
      using productoDetalle_update_ok[OF that, of "\<lambda>r. r\<lparr>activo := False\<rparr>"] by (simp add: ProductDetailService_delete_def)
  qed
  show "borradoLogico t_descuentos i
     (escriturasHastaFallo s = None \<and>
      findUnique (\<lambda>r. base.id' r = i) (t_descuentos s) = Some des)
     (des\<lparr>activo := False\<rparr>) s (DiscountService_delete i s)"
  proof (rule borradoLogico_por_id)
    show "sinBorrarFilas t_descuentos i s (DiscountService_delete i s)"
      by (simp add: DiscountService_delete_def descuento_borrado)
    show "fst (DiscountService_delete i s) = Inr (r\<lparr>activo := False\<rparr>) \<and>
          t_descuentos (snd (DiscountService_delete i s))
            = reemplazar (\<lambda>x. base.id' x = i) (\<lambda>r. r\<lparr>activo := False\<rparr>) (t_descuentos s)"
      if "escriturasHastaFallo s = None" "find (\<lambda>x. base.id' x = i) (t_descuentos s) = Some r" for r
      using descuento_update_ok[OF that, of "\<lambda>r. r\<lparr>activo := False\<rparr>"] by (simp add: DiscountService_delete_def)
  qed
  show "borradoLogico t_categorias i
     (escriturasHastaFallo s = None \<and>
      findUnique (\<lambda>r. base.id' r = i) (t_categorias s) = Some cat)
     (cat\<lparr>activo := False\<rparr>) s (CategoryService_deleteCategory i s)"
  proof (rule borradoLogico_por_id)
    show "sinBorrarFilas t_categorias i s (CategoryService_deleteCategory i s)"
      by (simp add: CategoryService_deleteCategory_def categoria_borrado)
    show "fst (CategoryService_deleteCategory i s) = Inr (r\<lparr>activo := False\<rparr>) \<and>
          t_categorias (snd (CategoryService_deleteCategory i s))
            = reemplazar (\<lambda>x. base.id' x = i) (\<lambda>r. r\<lparr>activo := False\<rparr>) (t_categorias s)"
      if "escriturasHastaFallo s = None" "find (\<lambda>x. base.id' x = i) (t_categorias s) = Some r" for r
      using categoria_update_ok[OF that, of "\<lambda>r. r\<lparr>activo := False\<rparr>"] by (simp add: CategoryService_deleteCategory_def)
  qed
  show "borradoLogico t_localidades i
     (escriturasHastaFallo s = None \<and>
      findUnique (\<lambda>r. base.id' r = i) (t_localidades s) = Some loc \<and> activo loc)
     (loc\<lparr>activo := False\<rparr>) s (LocationService_delete i s)"
  proof (rule borradoLogico_reemplazar[where wh = "\<lambda>r. base.id' r = i \<and> activo r" and f = "\<lambda>r. r\<lparr>activo := False\<rparr>"
          and r = loc])
    show "sinBorrarFilas t_localidades i s (LocationService_delete i s)"
      using localidad_borrado[of i s]
      by (auto simp: LocationService_delete_def sinBorrarFilas_def split: prod.splits sum.splits)
  next
    assume p: "escriturasHastaFallo s = None \<and>
      findUnique (\<lambda>r. base.id' r = i) (t_localidades s) = Some loc \<and> activo loc"
    then show "find (\<lambda>x. base.id' x = i) (t_localidades s) = Some loc \<and> base.id' loc = i \<and> activo loc"
      by (auto simp: findUnique_def dest: find_SomeD)
    have "find (\<lambda>r. base.id' r = i \<and> activo r) (t_localidades s) = Some loc"
      using p find_mas_fino[of "\<lambda>r. base.id' r = i" "t_localidades s" loc "\<lambda>r. base.id' r = i \<and> activo r"]
      by (auto simp: findUnique_def dest: find_SomeD)
    from localidad_update_ok[OF _ this, of "\<lambda>r. r\<lparr>activo := False\<rparr>"] p
    show "fst (LocationService_delete i s) = Inr (loc\<lparr>activo := False\<rparr>) \<and>
          t_localidades (snd (LocationService_delete i s))
            = reemplazar (\<lambda>r. base.id' r = i \<and> activo r) (\<lambda>r. r\<lparr>activo := False\<rparr>) (t_localidades s)"
      by (simp add: LocationService_delete_def)
  qed simp_all
  show "borradoLogicoONull t_provincias i
     (escriturasHastaFallo s = None \<and>
      findUnique (\<lambda>r. base.id' r = i) (t_provincias s) = Some prov \<and> activo prov)
     (prov\<lparr>activo := False\<rparr>) s (ProvinceService_delete i s)"
  proof (rule borradoLogicoONull_reemplazar[where wh = "\<lambda>r. base.id' r = i \<and> activo r" and f = "\<lambda>r. r\<lparr>activo := False\<rparr>"
          and r = prov])
    show "sinBorrarFilasONull t_provincias i s (ProvinceService_delete i s)"
      using provincia_borrado[of i s]
      by (auto simp: ProvinceService_delete_def sinBorrarFilas_def sinBorrarFilasONull_def
               split: prod.splits sum.splits)
  next
    assume p: "escriturasHastaFallo s = None \<and>
      findUnique (\<lambda>r. base.id' r = i) (t_provincias s) = Some prov \<and> activo prov"
    then show "find (\<lambda>x. base.id' x = i) (t_provincias s) = Some prov \<and> base.id' prov = i \<and> activo prov"
      by (auto simp: findUnique_def dest: find_SomeD)
    have "find (\<lambda>r. base.id' r = i \<and> activo r) (t_provincias s) = Some prov"
      using p find_mas_fino[of "\<lambda>r. base.id' r = i" "t_provincias s" prov "\<lambda>r. base.id' r = i \<and> activo r"]
      by (auto simp: findUnique_def dest: find_SomeD)
    from provincia_update_ok[OF _ this, of "\<lambda>r. r\<lparr>activo := False\<rparr>"] p
    show "fst (ProvinceService_delete i s) = Inr (Some (prov\<lparr>activo := False\<rparr>)) \<and>
          t_provincias (snd (ProvinceService_delete i s))
            = reemplazar (\<lambda>r. base.id' r = i \<and> activo r) (\<lambda>r. r\<lparr>activo := False\<rparr>) (t_provincias s)"
      by (simp add: ProvinceService_delete_def)
  qed simp_all
  show "borradoLogicoONull t_productos i
     (escriturasHastaFallo s = None \<and>
      findUnique (\<lambda>r. base.id' r = i) (t_productos s) = Some pro)
     (pro\<lparr>activo := False\<rparr>) s (ProductService_deleteProduct i s)"
  proof (rule borradoLogicoONull_reemplazar[where wh = "\<lambda>r. base.id' r = i" and f = "\<lambda>r. r\<lparr>activo := False\<rparr>"
          and r = pro])
    show "sinBorrarFilasONull t_productos i s (ProductService_deleteProduct i s)"
      using producto_borrado[of i s]
      by (auto simp: ProductService_deleteProduct_def sinBorrarFilas_def sinBorrarFilasONull_def
               entonces_def split: prod.splits sum.splits option.splits)
  next
    assume p: "escriturasHastaFallo s = None \<and>
      findUnique (\<lambda>r. base.id' r = i) (t_productos s) = Some pro"
    then show "find (\<lambda>x. base.id' x = i) (t_productos s) = Some pro \<and> base.id' pro = i"
      by (auto simp: findUnique_def dest: find_SomeD)
    from p have f: "find (\<lambda>r. base.id' r = i) (t_productos s) = Some pro"
      by (simp add: findUnique_def)
    from producto_update_ok[OF _ f, of "\<lambda>r. r\<lparr>activo := False\<rparr>"] p
    show "fst (ProductService_deleteProduct i s) = Inr (Some (pro\<lparr>activo := False\<rparr>)) \<and>
          t_productos (snd (ProductService_deleteProduct i s))
            = reemplazar (\<lambda>r. base.id' r = i) (\<lambda>r. r\<lparr>activo := False\<rparr>) (t_productos s)"
      by (simp add: ProductService_deleteProduct_def entonces_def)
  qed simp_all
  show "borradoLogico t_orden_compra_detalle i
     (escriturasHastaFallo s = None \<and>
      findUnique (\<lambda>r. base.id' r = i) (t_orden_compra_detalle s) = Some lin \<and> activo lin \<and>
      (case productoDetalleDeLinea s lin of
         None \<Rightarrow> True
       | Some pd \<Rightarrow> enRangoINT (productoDetalle.stockActual pd + ordenCompraDetalle.cantidad lin)))
     (lin\<lparr>activo := False\<rparr>) s (OrderDetailService_delete i s)"
  proof (rule borradoLogico_reemplazar[where wh = "\<lambda>r. base.id' r = i" and f = "\<lambda>r. r\<lparr>activo := False\<rparr>"
          and r = lin])
    show "sinBorrarFilas t_orden_compra_detalle i s (OrderDetailService_delete i s)"
      by (rule OrderDetailService_delete_borrado)
  next
    assume p: "escriturasHastaFallo s = None \<and>
      findUnique (\<lambda>r. base.id' r = i) (t_orden_compra_detalle s) = Some lin \<and> activo lin \<and>
      (case productoDetalleDeLinea s lin of
         None \<Rightarrow> True
       | Some pd \<Rightarrow> enRangoINT (productoDetalle.stockActual pd + ordenCompraDetalle.cantidad lin))"
    then show "find (\<lambda>x. base.id' x = i) (t_orden_compra_detalle s) = Some lin \<and> base.id' lin = i"
      by (auto simp: findUnique_def dest: find_SomeD)
    from p show "fst (OrderDetailService_delete i s) = Inr (lin\<lparr>activo := False\<rparr>) \<and>
          t_orden_compra_detalle (snd (OrderDetailService_delete i s))
            = reemplazar (\<lambda>r. base.id' r = i) (\<lambda>r. r\<lparr>activo := False\<rparr>) (t_orden_compra_detalle s)"
      by (intro OrderDetailService_delete_ok) (simp_all add: findUnique_def)
  qed simp_all
  show "borradoLogico t_usuarios i
     (escriturasHastaFallo s = None \<and>
      findUnique (\<lambda>r. base.id' r = i) (t_usuarios s) = Some usr \<and> activo usr \<and>
      \<not> (\<exists>v \<in> set (t_usuarios s). base.id' v \<noteq> i \<and>
           (usuario.email v = ''deactivated_'' @ uniqueId @ ''@ecommerce.com'' \<or>
            userName v = Some (''deactivated_'' @ uniqueId))))
     (usr\<lparr>activo := False, usuario.email := ''deactivated_'' @ uniqueId @ ''@ecommerce.com'',
           userName := Some (''deactivated_'' @ uniqueId),
           fechaBaja := Some ahora, fechaModificacion := ahora\<rparr>)
     s (UserService_deactivateAccount uniqueId ahora i s)"
  proof (rule borradoLogico_reemplazar[where wh = "\<lambda>r. base.id' r = i"
        and f = "\<lambda>u. u\<lparr>activo := False, usuario.email := ''deactivated_'' @ uniqueId @ ''@ecommerce.com'',
           userName := Some (''deactivated_'' @ uniqueId),
           fechaBaja := Some ahora, fechaModificacion := ahora\<rparr>" and r = usr])
    show "sinBorrarFilas t_usuarios i s (UserService_deactivateAccount uniqueId ahora i s)"
    proof (cases "findUnique (\<lambda>u. base.id' u = i) (t_usuarios s)")
      case None
      then show ?thesis by (simp add: UserService_deactivateAccount_def sinBorrarFilas_def)
    next
      case (Some u)
      show ?thesis
      proof (cases "activo u")
        case False
        with Some show ?thesis by (simp add: UserService_deactivateAccount_def sinBorrarFilas_def)
      next
        case True
        with Some show ?thesis
          by (simp add: UserService_deactivateAccount_def Let_def usuario_update_borrado)
      qed
    qed
  next
    assume p: "escriturasHastaFallo s = None \<and>
      findUnique (\<lambda>r. base.id' r = i) (t_usuarios s) = Some usr \<and> activo usr \<and>
      \<not> (\<exists>v \<in> set (t_usuarios s). base.id' v \<noteq> i \<and>
           (usuario.email v = ''deactivated_'' @ uniqueId @ ''@ecommerce.com'' \<or>
            userName v = Some (''deactivated_'' @ uniqueId)))"
    then have f: "find (\<lambda>r. base.id' r = i) (t_usuarios s) = Some usr" and idu: "base.id' usr = i"
      by (auto simp: findUnique_def dest: find_SomeD)
    then show "find (\<lambda>x. base.id' x = i) (t_usuarios s) = Some usr \<and> base.id' usr = i" by simp
    let ?f = "\<lambda>u. u\<lparr>activo := False, usuario.email := ''deactivated_'' @ uniqueId @ ''@ecommerce.com'',
           userName := Some (''deactivated_'' @ uniqueId),
           fechaBaja := Some ahora, fechaModificacion := ahora\<rparr>"
    have "usuario_update (\<lambda>r. base.id' r = i) ?f s
            = (Inr (?f usr), s\<lparr>t_usuarios := reemplazar (\<lambda>r. base.id' r = i) ?f (t_usuarios s)\<rparr>)"
      using p idu by (intro usuario_update_ok[OF _ f]) auto
    then show "fst (UserService_deactivateAccount uniqueId ahora i s) = Inr (?f usr) \<and>
          t_usuarios (snd (UserService_deactivateAccount uniqueId ahora i s))
            = reemplazar (\<lambda>r. base.id' r = i) ?f (t_usuarios s)"
      using p by (simp add: UserService_deactivateAccount_def Let_def)
  qed simp_all
  show "case UserService_removeDireccionFromUser uid i s of
      (Inl e, s') \<Rightarrow> idsPorTabla s' = idsPorTabla s
    | (Inr u, s') \<Rightarrow>
        i \<in> set (map base.id' (t_direcciones s)) \<and>
        map base.id' (t_direcciones s') = remove1 i (map base.id' (t_direcciones s))"
    by (rule removeDireccionFromUser_casos)
  show "escriturasHastaFallo s = None \<and>
    findUnique (\<lambda>u. base.id' u = uid \<and> activo u) (t_usuarios s) = Some usr' \<and>
    findUnique (\<lambda>d. base.id' d = i \<and> direccion.usuarioId d = Some uid) (t_direcciones s) = Some dir' \<longrightarrow>
      UserService_removeDireccionFromUser uid i s
        = (Inr (), s\<lparr>t_direcciones := quitar (\<lambda>d. base.id' d = i) (t_direcciones s)\<rparr>)"
    using removeDireccionFromUser_ok by blast
  show "escriturasHastaFallo s = None \<and>
    findUnique (\<lambda>u. base.id' u = uid) (t_usuarios s) = Some usr' \<and> activo usr' \<and>
    updateUserProfilePayload.addresses data = Some [] \<longrightarrow>
      t_direcciones (snd (UserService_updateProfile ahora uid data s))
        = filter (\<lambda>d. direccion.usuarioId d \<noteq> Some uid) (t_direcciones s)"
    using updateProfile_sin_direcciones by blast
qed


text \<open>The theorem in the example database: each of the eleven operations returns the
  row it was asked to delete, marked inactive; \<open>removeDireccionFromUser\<close> takes the second
  address of the first user out of the table, and \<open>updateProfile\<close> with no addresses leaves
  the table of the addresses empty.\<close>

theorem borrados_logicos_witness:
  "fst (AddressService_delete 5 dbEjemplo) = Inr (direccionActiva\<lparr>activo := False\<rparr>) \<and>
   findUnique (\<lambda>r. base.id' r = 5) (t_direcciones (snd (AddressService_delete 5 dbEjemplo)))
     = Some (direccionActiva\<lparr>activo := False\<rparr>) \<and>
   fst (LocationService_delete 1 dbEjemplo)
     = Inr \<lparr>base.id' = 1, activo = False, provinciaId = 1\<rparr> \<and>
   fst (OrderDetailService_delete 1 dbEjemplo) = Inr (lineaActiva\<lparr>activo := False\<rparr>) \<and>
   fst (OrderService_delete 1 dbEjemplo) = Inr (ordenEjemplo\<lparr>activo := False\<rparr>) \<and>
   fst (ImagenService_delete 1 dbEjemplo) = Inr \<lparr>base.id' = 1, activo = False\<rparr> \<and>
   fst (ProductDetailService_delete 1 dbEjemplo) = Inr (varianteRoja\<lparr>activo := False\<rparr>) \<and>
   fst (DiscountService_delete 1 dbEjemplo) = Inr (descuentoMedianoche\<lparr>activo := False\<rparr>) \<and>
   fst (ProvinceService_delete 1 dbEjemplo)
     = Inr (Some \<lparr>base.id' = 1, activo = False, nombre = ''Mendoza''\<rparr>) \<and>
   fst (CategoryService_deleteCategory 1 dbEjemplo)
     = Inr \<lparr>base.id' = 1, activo = False, categoriaPadreId = None\<rparr> \<and>
   fst (ProductService_deleteProduct 1 dbEjemplo) = Inr (Some (productoEjemplo\<lparr>activo := False\<rparr>)) \<and>
   fst (UserService_deactivateAccount ''8'' 9 1 dbEjemplo)
     = Inr (usuarioAna\<lparr>activo := False, usuario.email := ''deactivated_8@ecommerce.com'',
                        userName := Some ''deactivated_8'', fechaBaja := Some 9,
                        fechaModificacion := 9\<rparr>) \<and>
   UserService_removeDireccionFromUser 1 6 dbEjemplo
     = (Inr (), dbEjemplo\<lparr>t_direcciones := [direccionActiva]\<rparr>) \<and>
   t_direcciones (snd (UserService_updateProfile 9 1 perfilSinDirecciones dbEjemplo)) = []"
proof -
  note t1 = borrados_logicos[where i = 1 and s = dbEjemplo
      and loc = "\<lparr>base.id' = 1, activo = True, provinciaId = 1\<rparr>" and lin = lineaActiva
      and orden = ordenEjemplo and img = "\<lparr>base.id' = 1, activo = True\<rparr>"
      and var = varianteRoja and des = descuentoMedianoche
      and prov = "\<lparr>base.id' = 1, activo = True, nombre = ''Mendoza''\<rparr>"
      and cat = "\<lparr>base.id' = 1, activo = True, categoriaPadreId = None\<rparr>"
      and pro = productoEjemplo and usr = usuarioAna and uniqueId = "''8''" and ahora = 9
      and uid = 1 and usr' = usuarioAna and data = perfilSinDirecciones]
  note t5 = borrados_logicos[where i = 5 and s = dbEjemplo and dir = direccionActiva]
  note t6 = borrados_logicos[where i = 6 and s = dbEjemplo and uid = 1 and usr' = usuarioAna
      and dir' = direccionBaja]
  have v: "productoDetalleDeLinea dbEjemplo lineaActiva = Some varianteRoja"
    by (simp add: productoDetalleDeLinea_def findUnique_def ejemplos)
  have a: "fst (AddressService_delete 5 dbEjemplo) = Inr (direccionActiva\<lparr>activo := False\<rparr>) \<and>
      findUnique (\<lambda>r. base.id' r = 5) (t_direcciones (snd (AddressService_delete 5 dbEjemplo)))
        = Some (direccionActiva\<lparr>activo := False\<rparr>)"
    using t5 by (simp add: borradoLogico_def findUnique_def ejemplos)
  have b: "fst (LocationService_delete 1 dbEjemplo)
     = Inr \<lparr>base.id' = 1, activo = False, provinciaId = 1\<rparr>"
    using t1 by (simp add: borradoLogico_def findUnique_def ejemplos)
  have c: "fst (OrderDetailService_delete 1 dbEjemplo) = Inr (lineaActiva\<lparr>activo := False\<rparr>)"
    using t1 v by (simp add: borradoLogico_def findUnique_def enRangoINT_def ejemplos)
  have d: "fst (OrderService_delete 1 dbEjemplo) = Inr (ordenEjemplo\<lparr>activo := False\<rparr>)"
    using t1 by (simp add: borradoLogico_def findUnique_def ejemplos)
  have e: "fst (ImagenService_delete 1 dbEjemplo) = Inr \<lparr>base.id' = 1, activo = False\<rparr>"
    using t1 by (simp add: borradoLogico_def findUnique_def ejemplos)
  have f: "fst (ProductDetailService_delete 1 dbEjemplo) = Inr (varianteRoja\<lparr>activo := False\<rparr>)"
    using t1 by (simp add: borradoLogico_def findUnique_def ejemplos)
  have g: "fst (DiscountService_delete 1 dbEjemplo) = Inr (descuentoMedianoche\<lparr>activo := False\<rparr>)"
    using t1 by (simp add: borradoLogico_def findUnique_def ejemplos)
  have h: "fst (ProvinceService_delete 1 dbEjemplo)
     = Inr (Some \<lparr>base.id' = 1, activo = False, nombre = ''Mendoza''\<rparr>)"
    using t1 by (simp add: borradoLogicoONull_def findUnique_def ejemplos)
  have i: "fst (CategoryService_deleteCategory 1 dbEjemplo)
     = Inr \<lparr>base.id' = 1, activo = False, categoriaPadreId = None\<rparr>"
    using t1 by (simp add: borradoLogico_def findUnique_def ejemplos)
  have j: "fst (ProductService_deleteProduct 1 dbEjemplo) = Inr (Some (productoEjemplo\<lparr>activo := False\<rparr>))"
    using t1 by (simp add: borradoLogicoONull_def findUnique_def ejemplos)
  have k: "fst (UserService_deactivateAccount ''8'' 9 1 dbEjemplo)
     = Inr (usuarioAna\<lparr>activo := False, usuario.email := ''deactivated_8@ecommerce.com'',
                        userName := Some ''deactivated_8'', fechaBaja := Some 9,
                        fechaModificacion := 9\<rparr>)"
    using t1 by (simp add: borradoLogico_def findUnique_def ejemplos)
  have l: "UserService_removeDireccionFromUser 1 6 dbEjemplo
     = (Inr (), dbEjemplo\<lparr>t_direcciones := [direccionActiva]\<rparr>)"
    using t6 by (simp add: findUnique_def ejemplos)
  have m: "t_direcciones (snd (UserService_updateProfile 9 1 perfilSinDirecciones dbEjemplo)) = []"
    using t1 by (simp add: findUnique_def ejemplos)
  from a b c d e f g h i j k l m show ?thesis by blast
qed

text \<open>Not every delete is a soft delete: \<open>UserService.removeDireccionFromUser\<close> calls
  \<open>prisma.direccion.delete\<close>. In the example database it removes the row of the first
  address of the first user.\<close>

theorem removeDireccionFromUser_borra_la_fila:
  "t_direcciones dbEjemplo = [direccionActiva, direccionBaja] \<and>
   UserService_removeDireccionFromUser 1 5 dbEjemplo
     = (Inr (), dbEjemplo\<lparr>t_direcciones := [direccionBaja]\<rparr>)"
  by (simp add: UserService_removeDireccionFromUser_def findUnique_def direccion_delete_def
      escribir_def entonces_def ejemplos)

text \<open>\<open>UserService.updateProfile\<close> deletes rows as well: a profile update of the first user
  with an empty list of addresses calls \<open>prisma.direccion.deleteMany\<close>, and both addresses
  of the user, the active one and the deactivated one, are gone.\<close>

lemma updateProfile_borra_las_filas:
  "UserService_updateProfile 9 1 perfilSinDirecciones dbEjemplo =
     (Inr \<lparr>userResponseDTO.id' = 1, email = ''ana@example.com'', addresses = [], activo = True\<rparr>,
      dbEjemplo\<lparr>t_direcciones := [],
                t_usuarios := [usuarioAna\<lparr>fechaModificacion := 9\<rparr>, usuarioLuis, usuarioBaja]\<rparr>)"
  by (simp add: UserService_updateProfile_def findUnique_def direccion_deleteMany_def
      escribir_def entonces_def usuario_update_def mapToUserDTO_def incluirDirecciones_def
      findMany_def usuario.extend_def usuarioConRelaciones.fields_def ejemplos)

text \<open>With a list of addresses that is not empty, \<open>updateProfile\<close> deletes the addresses of
  the user that the list does not name: here the one with id 6.\<close>

lemma updateProfile_borra_las_ausentes:
  "UserService_updateProfile 9 1 perfilUnaDireccion dbEjemplo =
     (Inr \<lparr>userResponseDTO.id' = 1, email = ''ana@example.com'',
           addresses = [mapToDomicilioDTO direccionActiva], activo = True\<rparr>,
      dbEjemplo\<lparr>t_direcciones := [direccionActiva],
                t_usuarios := [usuarioAna\<lparr>fechaModificacion := 9\<rparr>, usuarioLuis, usuarioBaja]\<rparr>)"
  by (simp add: UserService_updateProfile_def findUnique_def direccion_deleteMany_def
      direccion_update_localidad_def actualizar_def falsy_def Let_def
      escribir_def entonces_def usuario_update_def mapToUserDTO_def incluirDirecciones_def
      findMany_def usuario.extend_def usuarioConRelaciones.fields_def ejemplos)

section \<open>Properties of the queries\<close>

lemma todasActivas_findMany:
  assumes "\<And>r. wh r \<Longrightarrow> activo r"
  shows "todasActivas (findMany wh t)"
  using assms by (simp add: todasActivas_def findMany_def list_all_iff)

lemma todasActivas_y_activo: "todasActivas (findMany (\<lambda>r. P r \<and> activo r) t)"
  by (rule todasActivas_findMany) simp

lemma activaONull_find:
  assumes "\<And>r. wh r \<Longrightarrow> activo r"
  shows "activaONull (find wh t)"
proof (cases "find wh t")
  case None
  then show ?thesis by (simp add: activaONull_def)
next
  case (Some r)
  with find_SomeD[OF Some] assms show ?thesis by (simp add: activaONull_def)
qed

lemma todasActivas_extend:
  assumes "\<And>r. wh r \<Longrightarrow> activo r"
  shows "todasActivas (map (\<lambda>oc. ordenCompra.extend oc (g oc)) (findMany wh t))"
  using assms
  by (simp add: todasActivas_def findMany_def list_all_iff ordenCompra.extend_def base.defs)

lemma deProductosActivos_map:
  assumes "\<And>p. wh p \<Longrightarrow> activo p"
  shows "deProductosActivos s
           (map (\<lambda>p. mapearProductoADTO tz hoy (incluirRelaciones s p)) (filter wh (t_productos s)))"
  using assms
  by (auto simp: deProductosActivos_def list_all_iff list_ex_iff mapearProductoADTO_def
                 incluirRelaciones_def producto.extend_def)

lemma getDirecciones_todas:
  "case UserService_getDireccionesByUserId i s of
      Inl e \<Rightarrow> True
    | Inr dtos \<Rightarrow>
        map addressResponseDTO.id' dtos
          = map base.id' (filter (\<lambda>d. direccion.usuarioId d = Some i) (t_direcciones s))"
proof (cases "find (\<lambda>u. base.id' u = i \<and> activo u) (t_usuarios s)")
  case None
  then show ?thesis by (simp add: UserService_getDireccionesByUserId_def findUnique_def)
next
  case (Some u)
  with find_SomeD[OF Some] show ?thesis
    by (simp add: UserService_getDireccionesByUserId_def findUnique_def findMany_def
        mapToDomicilioDTO_def comp_def)
qed

lemma variantes_todas:
  "map (\<lambda>dto. map productoDetalleDTO.id' (productoDTO.productos_detalles dto))
     (ProductService_obtenerTodosLosProductosDTO tz hoy s)
   = map (\<lambda>p. map base.id' (filter (\<lambda>pd. productoId pd = base.id' p) (t_producto_detalle s)))
       (filter activo (t_productos s))"
  by (simp add: ProductService_obtenerTodosLosProductosDTO_def findMany_def mapearProductoADTO_def
      incluirRelaciones_def producto.extend_def productoConRelaciones.fields_def comp_def)

text \<open>C6. The default list and find queries of the services (the ones with an
  \<open>includeInactive\<close> flag are called with \<open>false\<close>) select active rows only: every row of a
  list is active, a single row is active or \<open>null\<close>, and every product DTO carries the id
  of an active product. This holds for the rows the query itself selects. The rows that a
  query loads through a relation are not filtered: \<open>UserService.getDireccionesByUserId\<close>
  returns every address of the user, and the product listing carries every variant of each
  product, active or not.\<close>

theorem consultas_por_defecto:
  "todasActivas (CategoryService_getAllCategories s) \<and>
   activaONull (CategoryService_getCategoryById i s) \<and>
   todasActivas (CategoryService_listSubcategories i s) \<and>
   todasActivas (CategoryService_listRootCategories s) \<and>
   activaONull (DiscountService_findById i s) \<and>
   todasActivas (DiscountService_findAll s) \<and>
   activaONull (AddressService_findById i s) \<and>
   todasActivas (AddressService_listarPorLocalidad i s) \<and>
   todasActivas (AddressService_listarPorUsuarioId i s) \<and>
   todasActivas (AddressService_findAll False s) \<and>
   activaONull (ImagenService_findById i s) \<and>
   todasActivas (ImagenService_findAll False s) \<and>
   activaONull (LocationService_findById i s) \<and>
   todasActivas (LocationService_findAll False s) \<and>
   (case LocationService_findByProvinciaId i s of Inl e \<Rightarrow> True | Inr rs \<Rightarrow> todasActivas rs) \<and>
   activaONull (OrderService_findById i s) \<and>
   todasActivas (OrderService_obtenerPorFecha tz fecha s) \<and>
   (case OrderDetailService_findById i currentUser s of Inl e \<Rightarrow> True | Inr r \<Rightarrow> activaONull r) \<and>
   todasActivas (OrderDetailService_findAll False s) \<and>
   (case OrderDetailService_findByOrderId i currentUser s of
      Inl e \<Rightarrow> True | Inr rs \<Rightarrow> todasActivas rs) \<and>
   (case OrderDetailService_findByProductDetailId i s of
      Inl e \<Rightarrow> True | Inr rs \<Rightarrow> todasActivas rs) \<and>
   deProductosActivos s (ProductService_obtenerTodosLosProductosDTO tz hoy s) \<and>
   deProductosActivos s (ProductService_obtenerProductosPromocionalesDTO tz hoy s) \<and>
   (case ProductService_obtenerProductoDTOPorId tz hoy i s of
      None \<Rightarrow> True | Some dto \<Rightarrow> deProductosActivos s [dto]) \<and>
   deProductosActivos s (ProductService_filtrarYOrdenarProductos tz hoy filters otros s) \<and>
   activaONull (ProductDetailService_findById i s) \<and>
   todasActivas (ProductDetailService_findAllByProductoId i s) \<and>
   activaONull (ProductDetailService_findByProductoIdAndTalleAndColor i ta co s) \<and>
   todasActivas (ProductDetailService_findAllByStockActualGreaterThan i s) \<and>
   todasActivas (ProductDetailService_filtrarPorOpciones pid oc ot om s) \<and>
   todasActivas (ProvinceService_findAll s) \<and>
   activaONull (ProvinceService_findById i s) \<and>
   activaONull (ProvinceService_findByNombre n s) \<and>
   activaONull (UserService_findById i False s) \<and>
   todasActivas (UserService_findAll False s) \<and>
   activaONull (UserService_findByUserName un False s) \<and>
   activaONull (UserService_findByEmail em False s) \<and>
   (case UserService_getDireccionesByUserId i s of
      Inl e \<Rightarrow> True
    | Inr dtos \<Rightarrow>
        map addressResponseDTO.id' dtos
          = map base.id' (filter (\<lambda>d. direccion.usuarioId d = Some i) (t_direcciones s))) \<and>
   map (\<lambda>dto. map productoDetalleDTO.id' (productoDTO.productos_detalles dto))
     (ProductService_obtenerTodosLosProductosDTO tz hoy s)
   = map (\<lambda>p. map base.id' (filter (\<lambda>pd. productoId pd = base.id' p) (t_producto_detalle s)))
       (filter activo (t_productos s))"
proof (intro conjI)
  show "todasActivas (CategoryService_getAllCategories s)"
    "todasActivas (CategoryService_listSubcategories i s)"
    "todasActivas (CategoryService_listRootCategories s)"
    "todasActivas (DiscountService_findAll s)"
    "todasActivas (AddressService_listarPorLocalidad i s)"
    "todasActivas (AddressService_listarPorUsuarioId i s)"
    "todasActivas (AddressService_findAll False s)"
    "todasActivas (ImagenService_findAll False s)"
    "todasActivas (LocationService_findAll False s)"
    "todasActivas (OrderDetailService_findAll False s)"
    "todasActivas (ProductDetailService_findAllByProductoId i s)"
    "todasActivas (ProductDetailService_findAllByStockActualGreaterThan i s)"
    "todasActivas (ProductDetailService_filtrarPorOpciones pid oc ot om s)"
    "todasActivas (ProvinceService_findAll s)"
    "todasActivas (UserService_findAll False s)"
    by (auto simp add: CategoryService_getAllCategories_def CategoryService_listSubcategories_def
        CategoryService_listRootCategories_def DiscountService_findAll_def
        AddressService_listarPorLocalidad_def AddressService_listarPorUsuarioId_def
        AddressService_findAll_def ImagenService_findAll_def LocationService_findAll_def
        OrderDetailService_findAll_def ProductDetailService_findAllByProductoId_def
        ProductDetailService_findAllByStockActualGreaterThan_def
        ProductDetailService_filtrarPorOpciones_def ProvinceService_findAll_def
        UserService_findAll_def todasActivas_def findMany_def list_all_iff)
  show "activaONull (CategoryService_getCategoryById i s)"
    "activaONull (DiscountService_findById i s)"
    "activaONull (AddressService_findById i s)"
    "activaONull (ImagenService_findById i s)"
    "activaONull (LocationService_findById i s)"
    "activaONull (ProductDetailService_findById i s)"
    "activaONull (ProductDetailService_findByProductoIdAndTalleAndColor i ta co s)"
    "activaONull (ProvinceService_findById i s)"
    "activaONull (ProvinceService_findByNombre n s)"
    "activaONull (UserService_findById i False s)"
    "activaONull (UserService_findByUserName un False s)"
    "activaONull (UserService_findByEmail em False s)"
    by (auto simp add: CategoryService_getCategoryById_def DiscountService_findById_def
        AddressService_findById_def ImagenService_findById_def LocationService_findById_def
        ProductDetailService_findById_def ProductDetailService_findByProductoIdAndTalleAndColor_def
        ProvinceService_findById_def ProvinceService_findByNombre_def UserService_findById_def
        UserService_findByUserName_def UserService_findByEmail_def
        findUnique_def findFirst_def intro!: activaONull_find)
  show "case LocationService_findByProvinciaId i s of Inl e \<Rightarrow> True | Inr rs \<Rightarrow> todasActivas rs"
    by (simp add: LocationService_findByProvinciaId_def todasActivas_y_activo split: option.splits)
  show "activaONull (OrderService_findById i s)"
    using activaONull_find[of "\<lambda>oc. base.id' oc = i \<and> activo oc" "t_orden_compra s"]
    by (auto simp: OrderService_findById_def findUnique_def activaONull_def
                   ordenCompra.extend_def base.defs split: option.splits)
  show "todasActivas (OrderService_obtenerPorFecha tz fecha s)"
    unfolding OrderService_obtenerPorFecha_def Let_def
    by (rule todasActivas_extend) simp
  show "case OrderDetailService_findById i currentUser s of Inl e \<Rightarrow> True | Inr r \<Rightarrow> activaONull r"
    using activaONull_find[of "\<lambda>l. base.id' l = i \<and> activo l" "t_orden_compra_detalle s"]
    by (auto simp: OrderDetailService_findById_def findUnique_def activaONull_def
             split: option.splits sum.splits if_splits)
  show "case OrderDetailService_findByOrderId i currentUser s of
      Inl e \<Rightarrow> True | Inr rs \<Rightarrow> todasActivas rs"
    by (simp add: OrderDetailService_findByOrderId_def todasActivas_y_activo split: option.splits)
  show "case OrderDetailService_findByProductDetailId i s of
      Inl e \<Rightarrow> True | Inr rs \<Rightarrow> todasActivas rs"
    by (simp add: OrderDetailService_findByProductDetailId_def todasActivas_y_activo
             split: option.splits)
  show "deProductosActivos s (ProductService_obtenerTodosLosProductosDTO tz hoy s)"
    by (simp add: ProductService_obtenerTodosLosProductosDTO_def findMany_def deProductosActivos_map)
  show "deProductosActivos s (ProductService_obtenerProductosPromocionalesDTO tz hoy s)"
    using deProductosActivos_map[of "\<lambda>p. (activo p \<and> producto.tienePromocion p) \<and>
            calcularPrecioFinal tz hoy (incluirRelaciones s p) < precioVenta p" s tz hoy]
    by (simp add: ProductService_obtenerProductosPromocionalesDTO_def findMany_def conj_commute)
  show "case ProductService_obtenerProductoDTOPorId tz hoy i s of
      None \<Rightarrow> True | Some dto \<Rightarrow> deProductosActivos s [dto]"
  proof (cases "find (\<lambda>p. base.id' p = i \<and> activo p) (t_productos s)")
    case None
    then show ?thesis by (simp add: ProductService_obtenerProductoDTOPorId_def findUnique_def)
  next
    case (Some p)
    with find_SomeD[OF Some] show ?thesis
      by (auto simp: ProductService_obtenerProductoDTOPorId_def findUnique_def
            deProductosActivos_def list_ex_iff mapearProductoADTO_def incluirRelaciones_def
            producto.extend_def)
  qed
  show "deProductosActivos s (ProductService_filtrarYOrdenarProductos tz hoy filters otros s)"
    unfolding ProductService_filtrarYOrdenarProductos_def findMany_def
    by (rule deProductosActivos_map) simp
  show "case UserService_getDireccionesByUserId i s of
      Inl e \<Rightarrow> True
    | Inr dtos \<Rightarrow>
        map addressResponseDTO.id' dtos
          = map base.id' (filter (\<lambda>d. direccion.usuarioId d = Some i) (t_direcciones s))"
    by (rule getDirecciones_todas)
  show "map (\<lambda>dto. map productoDetalleDTO.id' (productoDTO.productos_detalles dto))
     (ProductService_obtenerTodosLosProductosDTO tz hoy s)
   = map (\<lambda>p. map base.id' (filter (\<lambda>pd. productoId pd = base.id' p) (t_producto_detalle s)))
       (filter activo (t_productos s))"
    by (rule variantes_todas)
qed

text \<open>The theorem at the example database: the only line listed is the active one, and the
  deactivated variant is not found.\<close>

theorem consultas_por_defecto_witness:
  "todasActivas (OrderDetailService_findAll False dbEjemplo) \<and>
   OrderDetailService_findAll False dbEjemplo = [lineaActiva] \<and>
   activaONull (ProductDetailService_findById 2 dbEjemplo) \<and>
   ProductDetailService_findById 2 dbEjemplo = None"
proof -
  have "todasActivas (OrderDetailService_findAll False dbEjemplo) \<and>
        activaONull (ProductDetailService_findById 2 dbEjemplo)"
    using consultas_por_defecto[of dbEjemplo 2] by blast
  moreover have "OrderDetailService_findAll False dbEjemplo = [lineaActiva]"
    by (simp add: OrderDetailService_findAll_def findMany_def ejemplos)
  moreover have "ProductDetailService_findById 2 dbEjemplo = None"
    by (simp add: ProductDetailService_findById_def findUnique_def ejemplos)
  ultimately show ?thesis by blast
qed

text \<open>So a soft-deleted row can appear in the result of a default query: in the example
  database the listing of the products carries the deactivated second variant, and the
  addresses of the first user include the deactivated one.\<close>

theorem consulta_incluye_inactivos:
  "map (\<lambda>dto. map productoDetalleDTO.id' (productoDTO.productos_detalles dto))
     (ProductService_obtenerTodosLosProductosDTO 0 1750001400000 dbEjemplo) = [[1, 2]] \<and>
   findUnique (\<lambda>pd. base.id' pd = 2) (t_producto_detalle dbEjemplo) = Some varianteBaja \<and>
   \<not> activo varianteBaja \<and>
   UserService_getDireccionesByUserId 1 dbEjemplo
     = Inr [mapToDomicilioDTO direccionActiva, mapToDomicilioDTO direccionBaja] \<and>
   \<not> activo direccionBaja"
  by (simp add: ProductService_obtenerTodosLosProductosDTO_def findMany_def findUnique_def
      mapearProductoADTO_def incluirRelaciones_def producto.extend_def
      productoConRelaciones.fields_def UserService_getDireccionesByUserId_def ejemplos)

end
